theory Spec2Isabelle
  imports Complex_Main "HOL-Library.Multiset" "HOL-Library.Sublist"
begin

section \<open>Numbers and conventions\<close>

text \<open>
  The evaluation engine of \<^verbatim>\<open>customer_intelligence\<close> computes with Python floats and
  unbounded integers. Floats are modelled as \<^typ>\<open>real\<close>, integers as \<^typ>\<open>int\<close> and
  lengths as \<^typ>\<open>nat\<close>. A Python \<^verbatim>\<open>float | None\<close> is a \<^typ>\<open>real option\<close>; where a
  function returns the sentinel \<^verbatim>\<open>float("nan")\<close> the model returns \<^term>\<open>None\<close> as well
  and says so at the definition.
\<close>

section \<open>Metrics library (\<^verbatim>\<open>evaluation/metrics.py\<close>)\<close>

text \<open>Python sets are finite; they are modelled as HOL sets and \<^verbatim>\<open>len\<close> as \<^const>\<open>card\<close>.\<close>

definition precision :: "'a set \<Rightarrow> 'a set \<Rightarrow> real" where
  "precision predicted actual =
     (if predicted = {} then (if actual = {} then 1 else 0)
      else real (card (predicted \<inter> actual)) / real (card predicted))"

definition recall :: "'a set \<Rightarrow> 'a set \<Rightarrow> real" where
  "recall predicted actual =
     (if actual = {} then 1
      else real (card (predicted \<inter> actual)) / real (card actual))"

definition f1 :: "real \<Rightarrow> real \<Rightarrow> real" where
  "f1 p r = (if p + r = 0 then 0 else 2 * p * r / (p + r))"

definition precision_recall_f1 :: "'a set \<Rightarrow> 'a set \<Rightarrow> real \<times> real \<times> real" where
  "precision_recall_f1 predicted actual =
     (let p = precision predicted actual;
          r = recall predicted actual
      in (p, r, f1 p r))"

text \<open>
  \<^verbatim>\<open>scale.index(x)\<close>: the position of the first occurrence. Python raises ValueError when
  \<^verbatim>\<open>x\<close> is absent; \<^verbatim>\<open>ordinal_agreement\<close> only calls it behind the membership guard, so
  that branch is never taken there (the model returns the length of the list for it).
\<close>

fun list_index :: "'a list \<Rightarrow> 'a \<Rightarrow> nat" where
  "list_index [] x = 0"
| "list_index (y # ys) x = (if y = x then 0 else Suc (list_index ys x))"

definition ordinal_agreement :: "'a \<Rightarrow> 'a \<Rightarrow> 'a list \<Rightarrow> real" where
  "ordinal_agreement predicted actual scale =
     (if predicted \<notin> set scale \<or> actual \<notin> set scale then 0
      else
        let max_dist = int (length scale) - 1 in
        if max_dist = 0 then 1
        else
          let dist = \<bar>int (list_index scale predicted) - int (list_index scale actual)\<bar>
          in 1 - real_of_int dist / real_of_int max_dist)"

definition mean_absolute_error :: "real list \<Rightarrow> real list \<Rightarrow> real option" where
  \<comment> \<open>\<^term>\<open>None\<close> stands for the \<^verbatim>\<open>float("nan")\<close> the source returns.\<close>
  "mean_absolute_error predicted actual =
     (if predicted = [] \<or> length predicted \<noteq> length actual then None
      else Some (sum_list (map (\<lambda>(p, a). \<bar>p - a\<bar>) (zip predicted actual))
                 / real (length predicted)))"

section \<open>Fuzzy matching (\<^verbatim>\<open>evaluation/fuzzy_matching.py\<close>)\<close>

text \<open>
  Python strings are modelled as \<^typ>\<open>string\<close>, a list of 8-bit characters, each read as
  the code point of that number, so the model covers text in the range U+0000 to U+00FF:
  \<^verbatim>\<open>str.lower\<close> maps \<^verbatim>\<open>A\<close>..\<^verbatim>\<open>Z\<close> (65 to 90) and the capital letters 192 to 222
  other than the multiplication sign 215 to the code point 32 higher, and
  \<^verbatim>\<open>str.split()\<close> cuts at runs of the characters for which \<^verbatim>\<open>str.isspace\<close> holds
  (codes 9 to 13, 28 to 32, 133 and 160). Code points above U+00FF are outside the model.
\<close>

definition lower_char :: "char \<Rightarrow> char" where
  "lower_char c =
     (let n = (of_char c :: nat)
      in if (65 \<le> n \<and> n \<le> 90) \<or> (192 \<le> n \<and> n \<le> 222 \<and> n \<noteq> 215)
         then char_of (n + 32) else c)"

definition lower :: "string \<Rightarrow> string" where
  "lower s = map lower_char s"

definition is_space :: "char \<Rightarrow> bool" where
  "is_space c =
     (let n = (of_char c :: nat)
      in (9 \<le> n \<and> n \<le> 13) \<or> (28 \<le> n \<and> n \<le> 32) \<or> n = 133 \<or> n = 160)"

fun split_from :: "string \<Rightarrow> string \<Rightarrow> string list" where
  "split_from cur [] = (if cur = [] then [] else [cur])"
| "split_from cur (c # cs) =
     (if is_space c
      then (if cur = [] then split_from [] cs else cur # split_from [] cs)
      else split_from (cur @ [c]) cs)"

definition split :: "string \<Rightarrow> string list" where
  "split s = split_from [] s"

definition token_overlap_similarity :: "string \<Rightarrow> string \<Rightarrow> real" where
  "token_overlap_similarity a b =
     (let tokens_a = set (split (lower a));
          tokens_b = set (split (lower b))
      in if tokens_a = {} \<and> tokens_b = {} then 1
         else if tokens_a = {} \<or> tokens_b = {} then 0
         else real (card (tokens_a \<inter> tokens_b)) / real (card (tokens_a \<union> tokens_b)))"

text \<open>
  The similarity matrix of \<^verbatim>\<open>compute_fuzzy_precision_recall\<close>: the triples
  \<^verbatim>\<open>(score, i, j)\<close> with \<^verbatim>\<open>score >= threshold\<close>, in the order of the two nested
  \<^verbatim>\<open>enumerate\<close> loops.
\<close>

definition candidate_pairs ::
  "string list \<Rightarrow> string list \<Rightarrow> (string \<Rightarrow> string \<Rightarrow> real) \<Rightarrow> real \<Rightarrow> (real \<times> nat \<times> nat) list"
where
  "candidate_pairs extracted ground_truth similarity_fn threshold =
     concat (map (\<lambda>(i, ext).
       concat (map (\<lambda>(j, gt).
         (let score = similarity_fn ext gt
          in if score \<ge> threshold then [(score, i, j)] else []))
         (enumerate 0 ground_truth)))
       (enumerate 0 extracted))"

text \<open>
  \<^verbatim>\<open>pairs.sort(key=lambda x: x[0], reverse=True)\<close>: Python's sort is stable, also with
  \<^verbatim>\<open>reverse=True\<close>, so triples of equal score keep their order. That is the stable
  insertion sort \<^const>\<open>sort_key\<close> on the negated score.
\<close>

definition sort_pairs :: "(real \<times> nat \<times> nat) list \<Rightarrow> (real \<times> nat \<times> nat) list" where
  "sort_pairs pairs = sort_key (\<lambda>x. - fst x) pairs"

text \<open>
  The greedy loop, with its three pieces of state: \<^verbatim>\<open>used_extracted\<close>, \<^verbatim>\<open>used_gt\<close> and
  \<^verbatim>\<open>matched\<close>. The indices come from \<^verbatim>\<open>enumerate\<close>, so \<^verbatim>\<open>extracted[i]\<close> and
  \<^verbatim>\<open>ground_truth[j]\<close> are always in range (lemma \<open>candidate_pairs_in_range\<close>).
\<close>

fun greedy_loop ::
  "string list \<Rightarrow> string list \<Rightarrow> (real \<times> nat \<times> nat) list \<Rightarrow> nat set \<Rightarrow> nat set
     \<Rightarrow> (string \<times> string \<times> real) list \<Rightarrow> (string \<times> string \<times> real) list"
where
  "greedy_loop extracted ground_truth [] used_extracted used_gt matched = matched"
| "greedy_loop extracted ground_truth ((score, i, j) # pairs) used_extracted used_gt matched =
     (if i \<notin> used_extracted \<and> j \<notin> used_gt
      then greedy_loop extracted ground_truth pairs (insert i used_extracted) (insert j used_gt)
             (matched @ [(extracted ! i, ground_truth ! j, score)])
      else greedy_loop extracted ground_truth pairs used_extracted used_gt matched)"

definition compute_fuzzy_precision_recall ::
  "string list \<Rightarrow> string list \<Rightarrow> (string \<Rightarrow> string \<Rightarrow> real) \<Rightarrow> real
     \<Rightarrow> real \<times> real \<times> real \<times> (string \<times> string \<times> real) list"
where
  "compute_fuzzy_precision_recall extracted ground_truth similarity_fn threshold =
     (if extracted = [] \<and> ground_truth = [] then (1, 1, 1, [])
      else if extracted = [] then (0, 0, 0, [])
      else if ground_truth = [] then (0, 1, 0, [])
      else
        let pairs = sort_pairs (candidate_pairs extracted ground_truth similarity_fn threshold);
            matched = greedy_loop extracted ground_truth pairs {} {} [];
            n_matched = length matched;
            p = (if extracted \<noteq> [] then real n_matched / real (length extracted) else 0);
            r = (if ground_truth \<noteq> [] then real n_matched / real (length ground_truth) else 0);
            f = (if p + r > 0 then 2 * p * r / (p + r) else 0)
        in (p, r, f, matched))"

text \<open>
  The index triples that the greedy loop accepts, in the order it accepts them: the same
  loop as \<^const>\<open>greedy_loop\<close> without the lookup of the two strings. The matched pairs
  the source returns are these triples with the strings looked up (lemma
  \<open>greedy_loop_selected\<close>); the list makes the indices of a returned pair visible.
\<close>

fun selected_pairs ::
  "(real \<times> nat \<times> nat) list \<Rightarrow> nat set \<Rightarrow> nat set \<Rightarrow> (real \<times> nat \<times> nat) list"
where
  "selected_pairs [] used_extracted used_gt = []"
| "selected_pairs ((score, i, j) # pairs) used_extracted used_gt =
     (if i \<notin> used_extracted \<and> j \<notin> used_gt
      then (score, i, j) # selected_pairs pairs (insert i used_extracted) (insert j used_gt)
      else selected_pairs pairs used_extracted used_gt)"

definition ranked_pairs ::
  "string list \<Rightarrow> string list \<Rightarrow> (string \<Rightarrow> string \<Rightarrow> real) \<Rightarrow> real \<Rightarrow> (real \<times> nat \<times> nat) list"
where
  \<comment> \<open>the value of \<^verbatim>\<open>pairs\<close> after the sort\<close>
  "ranked_pairs extracted ground_truth similarity_fn threshold =
     sort_pairs (candidate_pairs extracted ground_truth similarity_fn threshold)"

definition matched_indices ::
  "string list \<Rightarrow> string list \<Rightarrow> (string \<Rightarrow> string \<Rightarrow> real) \<Rightarrow> real \<Rightarrow> (real \<times> nat \<times> nat) list"
where
  "matched_indices extracted ground_truth similarity_fn threshold =
     selected_pairs (ranked_pairs extracted ground_truth similarity_fn threshold) {} {}"

definition lookup_pair ::
  "string list \<Rightarrow> string list \<Rightarrow> real \<times> nat \<times> nat \<Rightarrow> string \<times> string \<times> real"
where
  "lookup_pair extracted ground_truth = (\<lambda>(score, i, j). (extracted ! i, ground_truth ! j, score))"

section \<open>Score distributions (\<^verbatim>\<open>score_distribution_stats\<close> in \<^verbatim>\<open>evaluation/metrics.py\<close>)\<close>

text \<open>
  \<^verbatim>\<open>round(x, 4)\<close> on reals: the nearest multiple of \<open>10\<^sup>-\<^sup>4\<close>, a tie going to the even
  one. The source rounds the double that holds the value, so at a decimal tie (and where
  the double arithmetic before it is inexact) the source can land on the neighbouring
  multiple.
\<close>

definition round_half_even :: "real \<Rightarrow> int" where
  "round_half_even y =
     (let fl = \<lfloor>y\<rfloor>; d = y - of_int fl
      in if d < 1 / 2 then fl
         else if d > 1 / 2 then fl + 1
         else if even fl then fl else fl + 1)"

definition round4 :: "real \<Rightarrow> real" where
  "round4 x = of_int (round_half_even (x * 10000)) / 10000"

text \<open>
  The dictionary that \<^verbatim>\<open>score_distribution_stats\<close> returns, as a record; the buckets are
  an association list, in the insertion order of the Python dict. \<^term>\<open>None\<close> in
  \<open>ds_mean\<close> and \<open>ds_std\<close> stands for \<^verbatim>\<open>float("nan")\<close>.
\<close>

record dist_stats =
  ds_mean :: "real option"
  ds_std :: "real option"
  ds_buckets :: "(string \<times> nat) list"
  ds_n :: nat

definition bucket_key :: "real \<Rightarrow> string" where
  "bucket_key s =
     (if s < 2 / 10 then ''0.0-0.2''
      else if s < 4 / 10 then ''0.2-0.4''
      else if s < 6 / 10 then ''0.4-0.6''
      else if s < 8 / 10 then ''0.6-0.8''
      else ''0.8-1.0'')"

definition increment :: "(string \<times> nat) list \<Rightarrow> string \<Rightarrow> (string \<times> nat) list" where
  \<comment> \<open>\<^verbatim>\<open>buckets[key] += 1\<close>\<close>
  "increment bs key = map (\<lambda>(k, v). if k = key then (k, v + 1) else (k, v)) bs"

definition initial_buckets :: "(string \<times> nat) list" where
  "initial_buckets =
     [(''0.0-0.2'', 0), (''0.2-0.4'', 0), (''0.4-0.6'', 0), (''0.6-0.8'', 0), (''0.8-1.0'', 0)]"

definition score_distribution_stats :: "real list \<Rightarrow> dist_stats" where
  "score_distribution_stats scores =
     (if scores = [] then \<lparr>ds_mean = None, ds_std = None, ds_buckets = [], ds_n = 0\<rparr>
      else
        let n = length scores;
            mean = sum_list scores / real n;
            variance = sum_list (map (\<lambda>s. (s - mean)\<^sup>2) scores) / real n;
            std = sqrt variance;
            bs = fold (\<lambda>s b. increment b (bucket_key s)) scores initial_buckets
        in \<lparr>ds_mean = Some (round4 mean), ds_std = Some (round4 std), ds_buckets = bs, ds_n = n\<rparr>)"

section \<open>Structural checks (\<^verbatim>\<open>evaluation/structural_checks.py\<close>)\<close>

text \<open>
  A structural issue is a formatted string in the source. The model keeps the format
  and its arguments apart: one constructor for each f-string, with the values that the
  f-string interpolates, and \<open>Message\<close> for a literal string.
\<close>

datatype issue =
    NegativeIndex string int
      \<comment> \<open>\<^verbatim>\<open>f"{label}: negative index {idx}"\<close>\<close>
  | IndexExceedsMax string int int
      \<comment> \<open>\<^verbatim>\<open>f"{label}: index {idx} exceeds max {max_index}"\<close>\<close>
  | TimelineMismatch string string string int nat
      \<comment> \<open>topic name, labelled position, expected position, median turn, total turns\<close>
  | LowVariance string real
      \<comment> \<open>\<^verbatim>\<open>f"{label}: very low variance (std={std:.3f}) ..."\<close>\<close>
  | SingleBucket string nat string
      \<comment> \<open>\<^verbatim>\<open>f"{label}: all {n} scores in bucket {bucket}"\<close>\<close>
  | Message string

definition validate_utterance_indices :: "int list \<Rightarrow> int \<Rightarrow> string \<Rightarrow> issue list" where
  "validate_utterance_indices indices max_index label =
     concat (map (\<lambda>idx.
       if idx < 0 then [NegativeIndex label idx]
       else if idx > max_index then [IndexExceedsMax label idx max_index]
       else []) indices)"

text \<open>The statistics with the \<^verbatim>\<open>"issues"\<close> key that \<^verbatim>\<open>check_score_distribution\<close> adds.\<close>

record checked_stats = dist_stats +
  ds_issues :: "issue list"

text \<open>
  \<^verbatim>\<open>stats["std"] < 0.05\<close> is only evaluated for \<^verbatim>\<open>n >= 3\<close>, where the standard deviation
  is a number; a comparison with NaN would be false. \<^verbatim>\<open>next(k for k, v in ... if v > 0)\<close>
  is only evaluated when exactly one bucket is non-empty, so it finds a key (lemma
  \<open>find_nonempty_bucket\<close>); the model gives no issue in the branch where it would raise.
\<close>

definition check_score_distribution :: "real list \<Rightarrow> string \<Rightarrow> checked_stats" where
  "check_score_distribution scores label =
     (let stats = score_distribution_stats scores;
          low_variance =
            (case ds_std stats of
               Some std \<Rightarrow> if std < 5 / 100 then [LowVariance label std] else []
             | None \<Rightarrow> []);
          non_empty_buckets = length (filter (\<lambda>(k, v). v > 0) (ds_buckets stats));
          single_bucket =
            (if non_empty_buckets = 1 \<and> ds_n stats \<ge> 5
             then (case find (\<lambda>(k, v). v > 0) (ds_buckets stats) of
                     Some (bucket, v) \<Rightarrow> [SingleBucket label (ds_n stats) bucket]
                   | None \<Rightarrow> [])
             else []);
          found = (if ds_n stats \<ge> 3 then low_variance @ single_bucket else [])
      in \<lparr>ds_mean = ds_mean stats, ds_std = ds_std stats, ds_buckets = ds_buckets stats,
          ds_n = ds_n stats, ds_issues = found\<rparr>)"

section \<open>Signal schemas (\<^verbatim>\<open>schemas/\<close>)\<close>

text \<open>
  The Pydantic models, one record each. A field whose name several models share carries a
  short prefix for its model. \<^verbatim>\<open>Literal[...]\<close> fields are strings at run time and stay
  strings here; confidences, intensities and relevances are floats, utterance indices are
  Python integers.
\<close>

record aspect_sentiment =
  as_aspect :: string
  as_sentiment :: string
  as_intensity :: real
  as_context :: "string option"
  as_source_utterance_indices :: "int list"

record topic_detection =
  td_name :: string
  td_timeline_position :: string
  td_relevance :: real

record named_entity =
  ne_name :: string
  ne_entity_type :: string
  ne_role :: "string option"
  ne_mention_count :: int

record key_phrase =
  kp_phrase :: string
  kp_relevance :: real
  kp_context :: "string option"

record objection_rec =
  ob_type :: string
  ob_specific_language :: string
  ob_speaker_role :: string
  ob_conversation_stage :: string
  ob_source_utterance_indices :: "int list"

record resolution_rec =
  rs_type :: string
  rs_specific_language :: string
  rs_speaker_role :: string
  rs_source_utterance_indices :: "int list"

record objection_outcome =
  resolved :: bool
  deal_progressed :: bool
  next_action :: "string option"

record objection_triple =
  objection :: objection_rec
  resolution :: "resolution_rec option"
  outcome :: objection_outcome
  ot_confidence :: real

record buying_intent_marker =
  bi_type :: string
  bi_evidence :: string
  bi_confidence :: real
  bi_source_utterance_indices :: "int list"

record competitive_mention =
  competitor :: string
  cm_context :: string
  cm_sentiment :: string
  comparison_type :: "string option"
  cm_source_utterance_indices :: "int list"

record engagement_trajectory_point =
  phase :: string
  participation_level :: string
  question_depth :: string
  energy :: string
  et_notes :: "string option"

record mental_model_rec =
  primary :: string
  secondary :: "string option"
  mm_evidence :: "string list"
  mm_confidence :: real
  mm_reasoning :: string

record persona_indicator =
  archetype :: string
  pi_confidence :: real
  pi_evidence :: "string list"
  pi_reasoning :: string

record language_fingerprint_rec =
  distinctive_vocabulary :: "string list"
  metaphors :: "string list"
  framing_patterns :: "string list"

record divergence_signal =
  dv_utterance_index :: int
  dv_type :: string
  dv_text_sentiment :: string
  dv_nonverbal_cues :: "string list"
  dv_interpretation :: string
  dv_confidence :: real

record composite_sentiment =
  cs_utterance_index :: int
  cs_original_text_polarity :: string
  cs_adjusted_polarity :: string
  cs_confidence :: real
  cs_note :: "string option"

text \<open>
  An utterance, with the fields the evaluation engine reads (the paralinguistic
  annotation is only read by the prompt formatter).
\<close>

record utterance =
  speaker :: string
  u_text :: string
  turn_index :: int

text \<open>
  \<^verbatim>\<open>needle in haystack\<close> on strings: \<^verbatim>\<open>needle\<close> occurs as a contiguous piece.
\<close>

fun contains :: "string \<Rightarrow> string \<Rightarrow> bool" where
  "contains [] needle = (needle = [])"
| "contains (c # cs) needle = (prefix needle (c # cs) \<or> contains cs needle)"

text \<open>
  \<^verbatim>\<open>check_timeline_consistency\<close>. \<^verbatim>\<open>sorted(mention_indices)[len(mention_indices) // 2]\<close>
  is read for a non-empty list only, so the index is in range.
\<close>

definition check_timeline_consistency :: "topic_detection list \<Rightarrow> utterance list \<Rightarrow> issue list" where
  "check_timeline_consistency topic_list utterance_list =
     (if utterance_list = [] then []
      else
        let total_turns = length utterance_list
        in concat (map (\<lambda>topic.
             let topic_lower = lower (td_name topic);
                 mention_indices =
                   map turn_index
                     (filter (\<lambda>u. contains (lower (u_text u)) topic_lower) utterance_list)
             in if mention_indices = [] then []
                else
                  let median_idx = sort mention_indices ! (length mention_indices div 2);
                      third = real total_turns / 3;
                      expected =
                        (if real_of_int median_idx < third then ''early''
                         else if real_of_int median_idx < 2 * third then ''mid''
                         else ''late'')
                  in if td_timeline_position topic \<noteq> expected
                     then [TimelineMismatch (td_name topic) (td_timeline_position topic)
                             expected median_idx total_turns]
                     else []) topic_list))"

record surface_signals =
  aspects :: "aspect_sentiment list"
  topics :: "topic_detection list"
  entities :: "named_entity list"
  key_phrases :: "key_phrase list"

record behavioral_signals =
  objection_triples :: "objection_triple list"
  buying_intent_markers :: "buying_intent_marker list"
  competitive_mentions :: "competitive_mention list"
  engagement_trajectory :: "engagement_trajectory_point list"

record psychographic_signals =
  mental_model :: mental_model_rec
  persona_indicators :: "persona_indicator list"
  language_fingerprint :: language_fingerprint_rec

record multimodal_signals =
  divergences :: "divergence_signal list"
  composite_sentiments :: "composite_sentiment list"

record extraction_result =
  transcript_id :: string
  extraction_timestamp :: string
  surface :: surface_signals
  behavioral :: behavioral_signals
  psychographic :: psychographic_signals
  multimodal :: "multimodal_signals option"
  overall_confidence :: real
  er_notes :: "string list"

text \<open>
  A transcript, with what the evaluation reads: the call id of its metadata and its
  utterances.
\<close>

record transcript =
  call_id :: string
  utterances :: "utterance list"

section \<open>Report models (\<^verbatim>\<open>evaluation/report.py\<close>)\<close>

record judge_score =
  js_score :: int
  js_justification :: string

record signal_metrics =
  signal_name :: string
  sm_precision :: "real option"
  sm_recall :: "real option"
  sm_f1 :: "real option"
  count_extracted :: nat
  count_ground_truth :: nat
  accuracy :: "real option"
  mae :: "real option"
  sm_ordinal_agreement :: "real option"
  baseline_agreement :: "real option"
  judge_scores :: "judge_score list"
  mean_judge_score :: "real option"
  structural_issues :: "issue list"
  score_distribution :: "checked_stats option"
  matched_pairs :: "(string \<times> string \<times> real) list"

text \<open>A \<^verbatim>\<open>SignalMetrics\<close> built with its name only: every other field at its default.\<close>

definition SignalMetrics :: "string \<Rightarrow> signal_metrics" where
  "SignalMetrics name =
     \<lparr>signal_name = name, sm_precision = None, sm_recall = None, sm_f1 = None,
      count_extracted = 0, count_ground_truth = 0, accuracy = None, mae = None,
      sm_ordinal_agreement = None, baseline_agreement = None, judge_scores = [],
      mean_judge_score = None, structural_issues = [], score_distribution = None,
      matched_pairs = []\<rparr>"

record layer_report =
  layer_name :: string
  signal_metrics_of :: "signal_metrics list"

record evaluation_report =
  report_transcript_id :: string
  surface_report :: layer_report
  behavioral_report :: layer_report
  psychographic_report :: layer_report
  multimodal_report :: "layer_report option"

text \<open>
  \<^verbatim>\<open>LayerReport.mean_f1\<close> and \<^verbatim>\<open>EvaluationReport.overall_f1\<close> return \<^verbatim>\<open>float("nan")\<close>
  when no F1 is present; that is \<^term>\<open>None\<close> here. A \<^verbatim>\<open>LayerReport\<close> object is always
  truthy, so \<^verbatim>\<open>if self.multimodal\<close> tests for presence.
\<close>

definition present_f1 :: "signal_metrics list \<Rightarrow> real list" where
  \<comment> \<open>\<^verbatim>\<open>[m.f1 for m in metrics if m.f1 is not None]\<close>\<close>
  "present_f1 ms = concat (map (\<lambda>m. case sm_f1 m of None \<Rightarrow> [] | Some f \<Rightarrow> [f]) ms)"

definition mean_f1 :: "layer_report \<Rightarrow> real option" where
  "mean_f1 layer =
     (let scores = present_f1 (signal_metrics_of layer)
      in if scores \<noteq> [] then Some (sum_list scores / real (length scores)) else None)"

definition all_signal_metrics :: "evaluation_report \<Rightarrow> signal_metrics list" where
  "all_signal_metrics report =
     (let ms = fold (\<lambda>layer acc. acc @ signal_metrics_of layer)
                 [surface_report report, behavioral_report report, psychographic_report report] []
      in case multimodal_report report of
           Some layer \<Rightarrow> ms @ signal_metrics_of layer
         | None \<Rightarrow> ms)"

definition overall_f1 :: "evaluation_report \<Rightarrow> real option" where
  "overall_f1 report =
     (let scores = present_f1 (all_signal_metrics report)
      in if scores \<noteq> [] then Some (sum_list scores / real (length scores)) else None)"

section \<open>Signal evaluators (\<^verbatim>\<open>evaluation/signal_evaluators.py\<close>)\<close>

definition ENTITY_THRESHOLD :: real where "ENTITY_THRESHOLD = 8 / 10"
definition TOPIC_THRESHOLD :: real where "TOPIC_THRESHOLD = 5 / 10"
definition ASPECT_THRESHOLD :: real where "ASPECT_THRESHOLD = 6 / 10"
definition KEYPHRASE_THRESHOLD :: real where "KEYPHRASE_THRESHOLD = 4 / 10"
definition METAPHOR_THRESHOLD :: real where "METAPHOR_THRESHOLD = 5 / 10"

definition max_turn_index :: "transcript \<Rightarrow> int" where
  \<comment> \<open>\<^verbatim>\<open>max((u.turn_index for u in transcript.utterances), default=0)\<close>\<close>
  "max_turn_index tr =
     (case map turn_index (utterances tr) of [] \<Rightarrow> 0 | x # xs \<Rightarrow> fold max xs x)"

text \<open>
  The surface evaluators walk over the matched pairs and look both objects up with
  \<^verbatim>\<open>next(a for a in ... if a.name == s)\<close>, which raises StopIteration when nothing is found.
  \<open>lookup_matched\<close> does the two lookups of every pair, in order; \<^term>\<open>None\<close> is the
  exception. The counters of the loop body are then computed from the looked-up pairs.
\<close>

fun lookup_matched ::
  "('a \<Rightarrow> string) \<Rightarrow> 'a list \<Rightarrow> 'a list \<Rightarrow> (string \<times> string \<times> real) list \<Rightarrow> ('a \<times> 'a) list option"
where
  "lookup_matched key ext_items gt_items [] = Some []"
| "lookup_matched key ext_items gt_items ((ext_str, gt_str, sim) # rest) =
     (case find (\<lambda>a. key a = ext_str) ext_items of
        None \<Rightarrow> None
      | Some ext_obj \<Rightarrow>
          (case find (\<lambda>a. key a = gt_str) gt_items of
             None \<Rightarrow> None
           | Some gt_obj \<Rightarrow>
               (case lookup_matched key ext_items gt_items rest of
                  None \<Rightarrow> None
                | Some objs \<Rightarrow> Some ((ext_obj, gt_obj) # objs))))"

definition ratio_opt :: "nat \<Rightarrow> nat \<Rightarrow> real option" where
  \<comment> \<open>\<^verbatim>\<open>k / n if n else None\<close>\<close>
  "ratio_opt k n = (if n \<noteq> 0 then Some (real k / real n) else None)"

definition mean_opt :: "real list \<Rightarrow> real option" where
  \<comment> \<open>\<^verbatim>\<open>sum(xs) / len(xs) if xs else None\<close>\<close>
  "mean_opt xs = (if xs \<noteq> [] then Some (sum_list xs / real (length xs)) else None)"

definition eval_aspects :: "surface_signals \<Rightarrow> surface_signals \<Rightarrow> int \<Rightarrow> signal_metrics option" where
  "eval_aspects extracted ground_truth max_idx =
     (let ext_names = map as_aspect (aspects extracted);
          gt_names = map as_aspect (aspects ground_truth);
          (p, r, f, matched) =
            compute_fuzzy_precision_recall ext_names gt_names token_overlap_similarity ASPECT_THRESHOLD
      in case lookup_matched as_aspect (aspects extracted) (aspects ground_truth) matched of
           None \<Rightarrow> None
         | Some objs \<Rightarrow>
             let polarity_matches = length (filter (\<lambda>(e, g). as_sentiment e = as_sentiment g) objs);
                 intensity_errors = map (\<lambda>(e, g). \<bar>as_intensity e - as_intensity g\<bar>) objs;
                 polarity_accuracy = ratio_opt polarity_matches (length matched);
                 intensity_mae = mean_opt intensity_errors;
                 index_issues = concat (map (\<lambda>a.
                   validate_utterance_indices (as_source_utterance_indices a) max_idx
                     (''aspect:'' @ as_aspect a)) (aspects extracted));
                 dist = check_score_distribution (map as_intensity (aspects extracted)) ''aspect_intensity''
             in Some ((SignalMetrics ''aspects'')
                  \<lparr>sm_precision := Some p, sm_recall := Some r, sm_f1 := Some f,
                   count_extracted := length ext_names, count_ground_truth := length gt_names,
                   accuracy := polarity_accuracy, mae := intensity_mae,
                   structural_issues := index_issues @ ds_issues dist,
                   score_distribution := Some dist, matched_pairs := matched\<rparr>))"

definition eval_topics :: "surface_signals \<Rightarrow> surface_signals \<Rightarrow> transcript \<Rightarrow> signal_metrics option" where
  "eval_topics extracted ground_truth tr =
     (let ext_names = map td_name (topics extracted);
          gt_names = map td_name (topics ground_truth);
          (p, r, f, matched) =
            compute_fuzzy_precision_recall ext_names gt_names token_overlap_similarity TOPIC_THRESHOLD
      in case lookup_matched td_name (topics extracted) (topics ground_truth) matched of
           None \<Rightarrow> None
         | Some objs \<Rightarrow>
             let timeline_matches =
                   length (filter (\<lambda>(e, g). td_timeline_position e = td_timeline_position g) objs);
                 relevance_errors = map (\<lambda>(e, g). \<bar>td_relevance e - td_relevance g\<bar>) objs;
                 timeline_accuracy = ratio_opt timeline_matches (length matched);
                 relevance_mae = mean_opt relevance_errors;
                 timeline_issues = check_timeline_consistency (topics extracted) (utterances tr);
                 dist = check_score_distribution (map td_relevance (topics extracted)) ''topic_relevance''
             in Some ((SignalMetrics ''topics'')
                  \<lparr>sm_precision := Some p, sm_recall := Some r, sm_f1 := Some f,
                   count_extracted := length ext_names, count_ground_truth := length gt_names,
                   accuracy := timeline_accuracy, mae := relevance_mae,
                   structural_issues := timeline_issues @ ds_issues dist,
                   score_distribution := Some dist, matched_pairs := matched\<rparr>))"

definition eval_entities :: "surface_signals \<Rightarrow> surface_signals \<Rightarrow> signal_metrics option" where
  "eval_entities extracted ground_truth =
     (let ext_names = map ne_name (entities extracted);
          gt_names = map ne_name (entities ground_truth);
          (p, r, f, matched) =
            compute_fuzzy_precision_recall ext_names gt_names token_overlap_similarity ENTITY_THRESHOLD
      in case lookup_matched ne_name (entities extracted) (entities ground_truth) matched of
           None \<Rightarrow> None
         | Some objs \<Rightarrow>
             let type_matches = length (filter (\<lambda>(e, g). ne_entity_type e = ne_entity_type g) objs);
                 type_accuracy = ratio_opt type_matches (length matched)
             in Some ((SignalMetrics ''entities'')
                  \<lparr>sm_precision := Some p, sm_recall := Some r, sm_f1 := Some f,
                   count_extracted := length ext_names, count_ground_truth := length gt_names,
                   accuracy := type_accuracy, matched_pairs := matched\<rparr>))"

definition eval_key_phrases :: "surface_signals \<Rightarrow> surface_signals \<Rightarrow> signal_metrics option" where
  "eval_key_phrases extracted ground_truth =
     (let ext_phrases = map kp_phrase (key_phrases extracted);
          gt_phrases = map kp_phrase (key_phrases ground_truth);
          (p, r, f, matched) =
            compute_fuzzy_precision_recall ext_phrases gt_phrases token_overlap_similarity
              KEYPHRASE_THRESHOLD
      in case lookup_matched kp_phrase (key_phrases extracted) (key_phrases ground_truth) matched of
           None \<Rightarrow> None
         | Some objs \<Rightarrow>
             let relevance_errors = map (\<lambda>(e, g). \<bar>kp_relevance e - kp_relevance g\<bar>) objs;
                 relevance_mae = mean_opt relevance_errors;
                 dist = check_score_distribution (map kp_relevance (key_phrases extracted))
                          ''keyphrase_relevance''
             in Some ((SignalMetrics ''key_phrases'')
                  \<lparr>sm_precision := Some p, sm_recall := Some r, sm_f1 := Some f,
                   count_extracted := length ext_phrases, count_ground_truth := length gt_phrases,
                   mae := relevance_mae, score_distribution := Some dist,
                   structural_issues := ds_issues dist, matched_pairs := matched\<rparr>))"

text \<open>
  \<^verbatim>\<open>SurfaceEvaluator.evaluate\<close>: the four metrics in the order of the list literal; an
  exception in one of them leaves no report.
\<close>

definition SurfaceEvaluator_evaluate ::
  "surface_signals \<Rightarrow> surface_signals \<Rightarrow> transcript \<Rightarrow> layer_report option"
where
  "SurfaceEvaluator_evaluate extracted ground_truth tr =
     (let max_idx = max_turn_index tr
      in case eval_aspects extracted ground_truth max_idx of
           None \<Rightarrow> None
         | Some m_aspects \<Rightarrow>
        (case eval_topics extracted ground_truth tr of
           None \<Rightarrow> None
         | Some m_topics \<Rightarrow>
        (case eval_entities extracted ground_truth of
           None \<Rightarrow> None
         | Some m_entities \<Rightarrow>
        (case eval_key_phrases extracted ground_truth of
           None \<Rightarrow> None
         | Some m_key_phrases \<Rightarrow>
             Some \<lparr>layer_name = ''Surface'',
                   signal_metrics_of = [m_aspects, m_topics, m_entities, m_key_phrases]\<rparr>))))"

text \<open>
  The other evaluators pair ground-truth items with extracted ones by two nested loops
  with a \<^verbatim>\<open>break\<close>: every ground-truth item is paired with the first extracted item of
  the same key, if there is one. \<open>first_matches\<close> lists these pairs in the order of the
  outer loop.
\<close>

definition first_matches :: "('a \<Rightarrow> 'a \<Rightarrow> bool) \<Rightarrow> 'a list \<Rightarrow> 'a list \<Rightarrow> ('a \<times> 'a) list" where
  "first_matches same ext_items gt_items =
     concat (map (\<lambda>gt_item.
       case find (\<lambda>ext_item. same ext_item gt_item) ext_items of
         None \<Rightarrow> []
       | Some ext_item \<Rightarrow> [(ext_item, gt_item)]) gt_items)"

definition eval_objection_triples ::
  "behavioral_signals \<Rightarrow> behavioral_signals \<Rightarrow> int \<Rightarrow> signal_metrics"
where
  "eval_objection_triples extracted ground_truth max_idx =
     (let ext_types = set (map (\<lambda>t. ob_type (objection t)) (objection_triples extracted));
          gt_types = set (map (\<lambda>t. ob_type (objection t)) (objection_triples ground_truth));
          (p, r, f) = precision_recall_f1 ext_types gt_types;
          pairs = first_matches (\<lambda>e g. ob_type (objection e) = ob_type (objection g))
                    (objection_triples extracted) (objection_triples ground_truth);
          matched_count = length pairs;
          resolution_matches = length (filter (\<lambda>(e, g).
            case (resolution e, resolution g) of
              (Some re, Some rg) \<Rightarrow> rs_type re = rs_type rg
            | _ \<Rightarrow> False) pairs);
          outcome_matches =
            length (filter (\<lambda>(e, g). resolved (outcome e) = resolved (outcome g)) pairs);
          resolution_accuracy = ratio_opt resolution_matches matched_count;
          outcome_accuracy = ratio_opt outcome_matches matched_count;
          index_issues = concat (map (\<lambda>t.
            validate_utterance_indices (ob_source_utterance_indices (objection t)) max_idx
              (''objection:'' @ ob_type (objection t))
            @ (case resolution t of
                 Some res \<Rightarrow>
                   validate_utterance_indices (rs_source_utterance_indices res) max_idx
                     (''resolution:'' @ rs_type res)
               | None \<Rightarrow> [])) (objection_triples extracted));
          dist = check_score_distribution (map ot_confidence (objection_triples extracted))
                   ''objection_confidence'';
          combined_accuracy =
            (case (resolution_accuracy, outcome_accuracy) of
               (Some ra, Some oa) \<Rightarrow> Some ((ra + oa) / 2)
             | _ \<Rightarrow> None)
      in (SignalMetrics ''objection_triples'')
           \<lparr>sm_precision := Some p, sm_recall := Some r, sm_f1 := Some f,
            count_extracted := length (objection_triples extracted),
            count_ground_truth := length (objection_triples ground_truth),
            accuracy := combined_accuracy,
            structural_issues := index_issues @ ds_issues dist,
            score_distribution := Some dist\<rparr>)"

definition eval_buying_intent :: "behavioral_signals \<Rightarrow> behavioral_signals \<Rightarrow> signal_metrics" where
  "eval_buying_intent extracted ground_truth =
     (let ext_types = set (map bi_type (buying_intent_markers extracted));
          gt_types = set (map bi_type (buying_intent_markers ground_truth));
          (p, r, f) = precision_recall_f1 ext_types gt_types;
          dist = check_score_distribution (map bi_confidence (buying_intent_markers extracted))
                   ''buying_intent_confidence''
      in (SignalMetrics ''buying_intent'')
           \<lparr>sm_precision := Some p, sm_recall := Some r, sm_f1 := Some f,
            count_extracted := length (buying_intent_markers extracted),
            count_ground_truth := length (buying_intent_markers ground_truth),
            score_distribution := Some dist,
            structural_issues := ds_issues dist\<rparr>)"

definition eval_competitive_mentions ::
  "behavioral_signals \<Rightarrow> behavioral_signals \<Rightarrow> int \<Rightarrow> signal_metrics"
where
  "eval_competitive_mentions extracted ground_truth max_idx =
     (let ext_names = set (map (\<lambda>cm. lower (competitor cm)) (competitive_mentions extracted));
          gt_names = set (map (\<lambda>cm. lower (competitor cm)) (competitive_mentions ground_truth));
          (p, r, f) = precision_recall_f1 ext_names gt_names;
          pairs = first_matches (\<lambda>e g. lower (competitor e) = lower (competitor g))
                    (competitive_mentions extracted) (competitive_mentions ground_truth);
          matched_count = length pairs;
          sentiment_matches = length (filter (\<lambda>(e, g). cm_sentiment e = cm_sentiment g) pairs);
          sentiment_accuracy = ratio_opt sentiment_matches matched_count;
          index_issues = concat (map (\<lambda>cm.
            validate_utterance_indices (cm_source_utterance_indices cm) max_idx
              (''competitor:'' @ competitor cm)) (competitive_mentions extracted))
      in (SignalMetrics ''competitive_mentions'')
           \<lparr>sm_precision := Some p, sm_recall := Some r, sm_f1 := Some f,
            count_extracted := length (competitive_mentions extracted),
            count_ground_truth := length (competitive_mentions ground_truth),
            accuracy := sentiment_accuracy,
            structural_issues := index_issues\<rparr>)"

definition eval_engagement_trajectory ::
  "behavioral_signals \<Rightarrow> behavioral_signals \<Rightarrow> signal_metrics"
where
  "eval_engagement_trajectory extracted ground_truth =
     (let ext_phases = set (map phase (engagement_trajectory extracted));
          gt_phases = set (map phase (engagement_trajectory ground_truth));
          (p, r, f) = precision_recall_f1 ext_phases gt_phases;
          participation_scale = [''low'', ''moderate'', ''high''];
          depth_scale = [''surface'', ''moderate'', ''deep''];
          energy_scale = [''low'', ''medium'', ''high''];
          pairs = first_matches (\<lambda>e g. phase e = phase g)
                    (engagement_trajectory extracted) (engagement_trajectory ground_truth);
          agreements = concat (map (\<lambda>(ext_point, gt_point).
            [ordinal_agreement (participation_level ext_point) (participation_level gt_point)
               participation_scale,
             ordinal_agreement (question_depth ext_point) (question_depth gt_point) depth_scale,
             ordinal_agreement (energy ext_point) (energy gt_point) energy_scale]) pairs);
          mean_agreement = mean_opt agreements
      in (SignalMetrics ''engagement_trajectory'')
           \<lparr>sm_precision := Some p, sm_recall := Some r, sm_f1 := Some f,
            count_extracted := length (engagement_trajectory extracted),
            count_ground_truth := length (engagement_trajectory ground_truth),
            sm_ordinal_agreement := mean_agreement\<rparr>)"

definition BehavioralEvaluator_evaluate ::
  "behavioral_signals \<Rightarrow> behavioral_signals \<Rightarrow> transcript \<Rightarrow> layer_report"
where
  "BehavioralEvaluator_evaluate extracted ground_truth tr =
     (let max_idx = max_turn_index tr
      in \<lparr>layer_name = ''Behavioral'',
          signal_metrics_of =
            [eval_objection_triples extracted ground_truth max_idx,
             eval_buying_intent extracted ground_truth,
             eval_competitive_mentions extracted ground_truth max_idx,
             eval_engagement_trajectory extracted ground_truth]\<rparr>)"

text \<open>
  \<^verbatim>\<open>_eval_mental_model\<close> also computes the token overlap of the two evidence texts; the
  value is stored nowhere and is left out.
\<close>

definition eval_mental_model ::
  "psychographic_signals \<Rightarrow> psychographic_signals \<Rightarrow> signal_metrics"
where
  "eval_mental_model extracted ground_truth =
     (let primary_match =
            (if primary (mental_model extracted) = primary (mental_model ground_truth)
             then 1 else (0::real));
          secondary_match =
            (case secondary (mental_model ground_truth) of
               None \<Rightarrow> None
             | Some gt_secondary \<Rightarrow>
                 Some (if secondary (mental_model extracted) = Some gt_secondary
                       then 1 else (0::real)));
          confidence_delta =
            \<bar>mm_confidence (mental_model extracted) - mm_confidence (mental_model ground_truth)\<bar>;
          acc = (case secondary_match of
                   None \<Rightarrow> primary_match
                 | Some sm \<Rightarrow> (primary_match + sm) / 2)
      in (SignalMetrics ''mental_model'')
           \<lparr>sm_precision := Some primary_match, sm_recall := Some primary_match,
            sm_f1 := Some primary_match,
            count_extracted := 1, count_ground_truth := 1,
            accuracy := Some acc, mae := Some confidence_delta\<rparr>)"

definition eval_persona_indicators ::
  "psychographic_signals \<Rightarrow> psychographic_signals \<Rightarrow> signal_metrics"
where
  "eval_persona_indicators extracted ground_truth =
     (let ext_archetypes = set (map archetype (persona_indicators extracted));
          gt_archetypes = set (map archetype (persona_indicators ground_truth));
          (p, r, f) = precision_recall_f1 ext_archetypes gt_archetypes;
          pairs = first_matches (\<lambda>e g. archetype e = archetype g)
                    (persona_indicators extracted) (persona_indicators ground_truth);
          confidence_errors = map (\<lambda>(e, g). \<bar>pi_confidence e - pi_confidence g\<bar>) pairs;
          err = mean_opt confidence_errors;
          dist = check_score_distribution (map pi_confidence (persona_indicators extracted))
                   ''persona_confidence''
      in (SignalMetrics ''persona_indicators'')
           \<lparr>sm_precision := Some p, sm_recall := Some r, sm_f1 := Some f,
            count_extracted := length (persona_indicators extracted),
            count_ground_truth := length (persona_indicators ground_truth),
            mae := err, score_distribution := Some dist,
            structural_issues := ds_issues dist\<rparr>)"

definition eval_language_fingerprint ::
  "psychographic_signals \<Rightarrow> psychographic_signals \<Rightarrow> signal_metrics"
where
  "eval_language_fingerprint extracted ground_truth =
     (let ext_fp = language_fingerprint extracted;
          gt_fp = language_fingerprint ground_truth;
          ext_vocab = set (map lower (distinctive_vocabulary ext_fp));
          gt_vocab = set (map lower (distinctive_vocabulary gt_fp));
          (vocab_p, vocab_r, vocab_f) = precision_recall_f1 ext_vocab gt_vocab;
          (meta_p, meta_r, meta_f, meta_matched) =
            compute_fuzzy_precision_recall (metaphors ext_fp) (metaphors gt_fp)
              token_overlap_similarity METAPHOR_THRESHOLD;
          (frame_p, frame_r, frame_f, frame_matched) =
            compute_fuzzy_precision_recall (framing_patterns ext_fp) (framing_patterns gt_fp)
              token_overlap_similarity METAPHOR_THRESHOLD;
          all_p = [vocab_p, meta_p, frame_p];
          all_r = [vocab_r, meta_r, frame_r];
          all_f = [vocab_f, meta_f, frame_f]
      in (SignalMetrics ''language_fingerprint'')
           \<lparr>sm_precision := mean_opt all_p, sm_recall := mean_opt all_r, sm_f1 := mean_opt all_f,
            count_extracted :=
              length (distinctive_vocabulary ext_fp) + length (metaphors ext_fp)
              + length (framing_patterns ext_fp),
            count_ground_truth :=
              length (distinctive_vocabulary gt_fp) + length (metaphors gt_fp)
              + length (framing_patterns gt_fp),
            matched_pairs := meta_matched\<rparr>)"

definition PsychographicEvaluator_evaluate ::
  "psychographic_signals \<Rightarrow> psychographic_signals \<Rightarrow> transcript \<Rightarrow> layer_report"
where
  "PsychographicEvaluator_evaluate extracted ground_truth tr =
     \<lparr>layer_name = ''Psychographic'',
      signal_metrics_of =
        [eval_mental_model extracted ground_truth,
         eval_persona_indicators extracted ground_truth,
         eval_language_fingerprint extracted ground_truth]\<rparr>"

definition eval_divergences :: "multimodal_signals \<Rightarrow> multimodal_signals \<Rightarrow> int \<Rightarrow> signal_metrics" where
  "eval_divergences extracted ground_truth max_idx =
     (let ext_indices = set (map dv_utterance_index (divergences extracted));
          gt_indices = set (map dv_utterance_index (divergences ground_truth));
          (p, r, f) = precision_recall_f1 ext_indices gt_indices;
          pairs = first_matches (\<lambda>e g. dv_utterance_index e = dv_utterance_index g)
                    (divergences extracted) (divergences ground_truth);
          matched_count = length pairs;
          type_matches = length (filter (\<lambda>(e, g). dv_type e = dv_type g) pairs);
          type_accuracy = ratio_opt type_matches matched_count;
          index_issues = validate_utterance_indices
                           (map dv_utterance_index (divergences extracted)) max_idx ''divergence''
      in (SignalMetrics ''divergences'')
           \<lparr>sm_precision := Some p, sm_recall := Some r, sm_f1 := Some f,
            count_extracted := length (divergences extracted),
            count_ground_truth := length (divergences ground_truth),
            accuracy := type_accuracy,
            structural_issues := index_issues\<rparr>)"

definition eval_composite_sentiments :: "multimodal_signals \<Rightarrow> multimodal_signals \<Rightarrow> signal_metrics" where
  "eval_composite_sentiments extracted ground_truth =
     (let ext_indices = set (map cs_utterance_index (composite_sentiments extracted));
          gt_indices = set (map cs_utterance_index (composite_sentiments ground_truth));
          (p, r, f) = precision_recall_f1 ext_indices gt_indices;
          pairs = first_matches (\<lambda>e g. cs_utterance_index e = cs_utterance_index g)
                    (composite_sentiments extracted) (composite_sentiments ground_truth);
          matched_count = length pairs;
          polarity_matches =
            length (filter (\<lambda>(e, g). cs_adjusted_polarity e = cs_adjusted_polarity g) pairs);
          polarity_accuracy = ratio_opt polarity_matches matched_count
      in (SignalMetrics ''composite_sentiments'')
           \<lparr>sm_precision := Some p, sm_recall := Some r, sm_f1 := Some f,
            count_extracted := length (composite_sentiments extracted),
            count_ground_truth := length (composite_sentiments ground_truth),
            accuracy := polarity_accuracy\<rparr>)"

text \<open>
  \<^verbatim>\<open>MultimodalEvaluator.evaluate\<close>: \<^term>\<open>None\<close> as argument is an absent layer, \<^term>\<open>None\<close>
  as result is the \<^verbatim>\<open>None\<close> the source returns (no report).
\<close>

definition MultimodalEvaluator_evaluate ::
  "multimodal_signals option \<Rightarrow> multimodal_signals option \<Rightarrow> transcript \<Rightarrow> layer_report option"
where
  "MultimodalEvaluator_evaluate extracted ground_truth tr =
     (case ground_truth of
        None \<Rightarrow>
          (case extracted of
             None \<Rightarrow> None
           | Some ext \<Rightarrow>
               Some \<lparr>layer_name = ''Multimodal'',
                     signal_metrics_of =
                       [(SignalMetrics ''divergences'')
                          \<lparr>sm_precision := Some 0, sm_recall := Some 1, sm_f1 := Some 0,
                           count_extracted := length (divergences ext),
                           count_ground_truth := 0,
                           structural_issues :=
                             [Message ''Multimodal signals produced but not expected'']\<rparr>]\<rparr>)
      | Some gt \<Rightarrow>
          (case extracted of
             None \<Rightarrow>
               Some \<lparr>layer_name = ''Multimodal'',
                     signal_metrics_of =
                       [(SignalMetrics ''divergences'')
                          \<lparr>sm_precision := Some 0, sm_recall := Some 0, sm_f1 := Some 0,
                           count_extracted := 0,
                           count_ground_truth := length (divergences gt),
                           structural_issues :=
                             [Message ''Multimodal signals expected but not produced'']\<rparr>]\<rparr>
           | Some ext \<Rightarrow>
               (let max_idx = max_turn_index tr
                in Some \<lparr>layer_name = ''Multimodal'',
                         signal_metrics_of =
                           [eval_divergences ext gt max_idx,
                            eval_composite_sentiments ext gt]\<rparr>)))"

section \<open>Baseline agreement (\<^verbatim>\<open>evaluation/baselines.py\<close>)\<close>

text \<open>
  The three baselines call optional third-party libraries. They are parameters of the
  model: \<^term>\<open>None\<close> is \<^verbatim>\<open>BaselineUnavailableError\<close> (the library is not installed), and the
  sentiment classifier is absent as a whole when TextBlob cannot be imported.
\<close>

record baseline_oracles =
  spacy_ner_baseline :: "string \<Rightarrow> string set option"
  keyphrase_baseline :: "string \<Rightarrow> string set option"
  sentiment_baseline :: "(string \<Rightarrow> string) option"

definition compute_entity_baseline_agreement ::
  "baseline_oracles \<Rightarrow> string set \<Rightarrow> string \<Rightarrow> real option"
where
  "compute_entity_baseline_agreement oracles extracted_entities transcript_text =
     (case spacy_ner_baseline oracles transcript_text of
        None \<Rightarrow> None
      | Some spacy_entities \<Rightarrow>
          if spacy_entities = {} then None
          else
            let found = card {se \<in> spacy_entities.
                               \<exists>ee \<in> extracted_entities. contains ee se \<or> contains se ee}
            in Some (real found / real (card spacy_entities)))"

definition compute_keyphrase_baseline_agreement ::
  "baseline_oracles \<Rightarrow> string set \<Rightarrow> string \<Rightarrow> real option"
where
  "compute_keyphrase_baseline_agreement oracles extracted_phrases transcript_text =
     (case keyphrase_baseline oracles transcript_text of
        None \<Rightarrow> None
      | Some yake_phrases \<Rightarrow>
          if yake_phrases = {} then None
          else
            let found = card {yp \<in> yake_phrases.
                               \<exists>ep \<in> extracted_phrases.
                                 set (split yp) \<inter> set (split (lower ep)) \<noteq> {}}
            in Some (real found / real (card yake_phrases)))"

definition compute_sentiment_baseline_agreement ::
  "baseline_oracles \<Rightarrow> (string \<times> string) list \<Rightarrow> real option"
where
  "compute_sentiment_baseline_agreement oracles extracted_polarities =
     (case sentiment_baseline oracles of
        None \<Rightarrow> None
      | Some classify \<Rightarrow>
          if extracted_polarities = [] then None
          else
            let hits = length (filter (\<lambda>(source_text, ext_polarity).
                         (if ext_polarity = ''mixed'' then ''neutral'' else ext_polarity)
                         = classify source_text) extracted_polarities)
            in Some (real hits / real (length extracted_polarities)))"

section \<open>Evaluation runner (\<^verbatim>\<open>evaluation/runner.py\<close>)\<close>

fun join :: "string \<Rightarrow> string list \<Rightarrow> string" where
  "join sep [] = []"
| "join sep [x] = x"
| "join sep (x # y # ys) = x @ sep @ join sep (y # ys)"

definition utterance_map :: "transcript \<Rightarrow> int \<Rightarrow> string" where
  \<comment> \<open>\<^verbatim>\<open>{u.turn_index: u.text for u in utterances}.get(idx, "")\<close>: the last utterance of a turn index wins\<close>
  "utterance_map tr idx =
     (case map_of (rev (map (\<lambda>u. (turn_index u, u_text u)) (utterances tr))) idx of
        None \<Rightarrow> []
      | Some t \<Rightarrow> t)"

text \<open>
  \<^verbatim>\<open>_add_baselines\<close> mutates the metrics of the surface report in place; the model returns
  the updated report.
\<close>

definition add_baselines :: "baseline_oracles \<Rightarrow> extraction_result \<Rightarrow> transcript \<Rightarrow> layer_report \<Rightarrow> layer_report" where
  "add_baselines oracles extracted tr surface_rep =
     (let transcript_text = join '' '' (map u_text (utterances tr))
      in surface_rep\<lparr>signal_metrics_of := map (\<lambda>m.
           if signal_name m = ''entities'' then
             m\<lparr>baseline_agreement :=
                 compute_entity_baseline_agreement oracles
                   (set (map (\<lambda>e. lower (ne_name e)) (entities (surface extracted))))
                   transcript_text\<rparr>
           else if signal_name m = ''key_phrases'' then
             m\<lparr>baseline_agreement :=
                 compute_keyphrase_baseline_agreement oracles
                   (set (map (\<lambda>kp. lower (kp_phrase kp)) (key_phrases (surface extracted))))
                   transcript_text\<rparr>
           else if signal_name m = ''aspects'' then
             (let pairs = concat (map (\<lambda>a.
                    let source_text =
                          join '' '' (map (utterance_map tr) (as_source_utterance_indices a))
                    in if list_ex (\<lambda>c. \<not> is_space c) source_text
                       then [(source_text, as_sentiment a)] else [])
                    (aspects (surface extracted)))
              in m\<lparr>baseline_agreement := compute_sentiment_baseline_agreement oracles pairs\<rparr>)
           else m) (signal_metrics_of surface_rep)\<rparr>)"

text \<open>
  The LLM judge is a parameter as well: one scoring function for each rubric. The
  transcript id and the transcript text are the same in every call of one evaluation,
  and a JSON dump stands for the object it dumps, so a function takes the extracted
  object and the reference object (\<^term>\<open>None\<close> for the dump \<^verbatim>\<open>"{}"\<close> of a missing
  reference).
\<close>

record judge_oracle =
  score_aspect_quality :: "aspect_sentiment \<Rightarrow> aspect_sentiment \<Rightarrow> judge_score"
  score_objection_triple :: "objection_triple \<Rightarrow> objection_triple option \<Rightarrow> judge_score"
  score_competitive_context :: "competitive_mention \<Rightarrow> competitive_mention option \<Rightarrow> judge_score"
  score_persona_reasoning :: "persona_indicator \<Rightarrow> persona_indicator option \<Rightarrow> judge_score"
  score_framing_patterns :: "language_fingerprint_rec \<Rightarrow> language_fingerprint_rec \<Rightarrow> judge_score"
  score_divergence_interpretation :: "divergence_signal \<Rightarrow> divergence_signal option \<Rightarrow> judge_score"

definition append_scores :: "signal_metrics \<Rightarrow> judge_score list \<Rightarrow> signal_metrics" where
  \<comment> \<open>the \<^verbatim>\<open>m.judge_scores.append(score)\<close> of a loop, then the mean when the list is not empty\<close>
  "append_scores m new_scores =
     (let all_scores = judge_scores m @ new_scores;
          m' = m\<lparr>judge_scores := all_scores\<rparr>
      in if all_scores \<noteq> []
         then m'\<lparr>mean_judge_score :=
                   Some (real_of_int (sum_list (map js_score all_scores)) / real (length all_scores))\<rparr>
         else m')"

definition judge_surface ::
  "judge_oracle \<Rightarrow> extraction_result \<Rightarrow> extraction_result \<Rightarrow> layer_report \<Rightarrow> layer_report option"
where
  "judge_surface judge extracted ground_truth surface_rep =
     (case those (map (\<lambda>m.
        if signal_name m = ''aspects'' then
          (case lookup_matched as_aspect (aspects (surface extracted))
                  (aspects (surface ground_truth)) (take 5 (matched_pairs m)) of
             None \<Rightarrow> None
           | Some objs \<Rightarrow>
               Some (append_scores m (map (\<lambda>(e, g). score_aspect_quality judge e g) objs)))
        else Some m) (signal_metrics_of surface_rep)) of
        None \<Rightarrow> None
      | Some ms \<Rightarrow> Some (surface_rep\<lparr>signal_metrics_of := ms\<rparr>))"

definition judge_behavioral ::
  "judge_oracle \<Rightarrow> extraction_result \<Rightarrow> extraction_result \<Rightarrow> layer_report \<Rightarrow> layer_report"
where
  "judge_behavioral judge extracted ground_truth behavioral_rep =
     behavioral_rep\<lparr>signal_metrics_of := map (\<lambda>m.
       if signal_name m = ''objection_triples'' then
         append_scores m (map (\<lambda>ext_t.
           score_objection_triple judge ext_t
             (find (\<lambda>t. ob_type (objection t) = ob_type (objection ext_t))
                (objection_triples (behavioral ground_truth))))
           (take 5 (objection_triples (behavioral extracted))))
       else if signal_name m = ''competitive_mentions'' then
         append_scores m (map (\<lambda>ext_cm.
           score_competitive_context judge ext_cm
             (find (\<lambda>cm. lower (competitor cm) = lower (competitor ext_cm))
                (competitive_mentions (behavioral ground_truth))))
           (take 3 (competitive_mentions (behavioral extracted))))
       else m) (signal_metrics_of behavioral_rep)\<rparr>"

definition judge_psychographic ::
  "judge_oracle \<Rightarrow> extraction_result \<Rightarrow> extraction_result \<Rightarrow> layer_report \<Rightarrow> layer_report"
where
  "judge_psychographic judge extracted ground_truth psychographic_rep =
     psychographic_rep\<lparr>signal_metrics_of := map (\<lambda>m.
       if signal_name m = ''persona_indicators'' then
         append_scores m (map (\<lambda>ext_pi.
           score_persona_reasoning judge ext_pi
             (find (\<lambda>gt_pi. archetype gt_pi = archetype ext_pi)
                (persona_indicators (psychographic ground_truth))))
           (persona_indicators (psychographic extracted)))
       else if signal_name m = ''language_fingerprint'' then
         (let sc = score_framing_patterns judge
                     (language_fingerprint (psychographic extracted))
                     (language_fingerprint (psychographic ground_truth))
          in m\<lparr>judge_scores := judge_scores m @ [sc],
                mean_judge_score := Some (real_of_int (js_score sc))\<rparr>)
       else m) (signal_metrics_of psychographic_rep)\<rparr>"

definition judge_multimodal ::
  "judge_oracle \<Rightarrow> extraction_result \<Rightarrow> extraction_result \<Rightarrow> layer_report option
     \<Rightarrow> layer_report option"
where
  "judge_multimodal judge extracted ground_truth multimodal_rep =
     (case (multimodal_rep, multimodal extracted, multimodal ground_truth) of
        (Some rep, Some ext_mm, Some gt_mm) \<Rightarrow>
          Some (rep\<lparr>signal_metrics_of := map (\<lambda>m.
            if signal_name m = ''divergences'' then
              append_scores m (map (\<lambda>ext_d.
                score_divergence_interpretation judge ext_d
                  (find (\<lambda>d. dv_utterance_index d = dv_utterance_index ext_d) (divergences gt_mm)))
                (take 5 (divergences ext_mm)))
            else m) (signal_metrics_of rep)\<rparr>)
      | _ \<Rightarrow> multimodal_rep)"

text \<open>
  \<^verbatim>\<open>_add_judge_scores\<close>: the four blocks in their order. Only the aspect block can raise
  (its two \<^verbatim>\<open>next\<close> lookups), and it runs first.
\<close>

definition add_judge_scores ::
  "judge_oracle \<Rightarrow> extraction_result \<Rightarrow> extraction_result
     \<Rightarrow> layer_report \<Rightarrow> layer_report \<Rightarrow> layer_report \<Rightarrow> layer_report option
     \<Rightarrow> (layer_report \<times> layer_report \<times> layer_report \<times> layer_report option) option"
where
  "add_judge_scores judge extracted ground_truth surface_rep behavioral_rep psychographic_rep
       multimodal_rep =
     (case judge_surface judge extracted ground_truth surface_rep of
        None \<Rightarrow> None
      | Some s \<Rightarrow>
          Some (s,
                judge_behavioral judge extracted ground_truth behavioral_rep,
                judge_psychographic judge extracted ground_truth psychographic_rep,
                judge_multimodal judge extracted ground_truth multimodal_rep))"

text \<open>
  \<^verbatim>\<open>evaluate\<close>. The result is \<^term>\<open>None\<close> when a lookup raised; lemma
  \<open>evaluate_shape\<close> shows that this never happens.
\<close>

definition evaluate ::
  "baseline_oracles \<Rightarrow> judge_oracle \<Rightarrow> extraction_result \<Rightarrow> extraction_result \<Rightarrow> transcript
     \<Rightarrow> bool \<Rightarrow> bool \<Rightarrow> evaluation_report option"
where
  "evaluate oracles judge extracted ground_truth tr skip_llm_judge skip_baselines =
     (case SurfaceEvaluator_evaluate (surface extracted) (surface ground_truth) tr of
        None \<Rightarrow> None
      | Some surface_rep0 \<Rightarrow>
          let behavioral_rep =
                BehavioralEvaluator_evaluate (behavioral extracted) (behavioral ground_truth) tr;
              psychographic_rep =
                PsychographicEvaluator_evaluate (psychographic extracted)
                  (psychographic ground_truth) tr;
              multimodal_rep =
                MultimodalEvaluator_evaluate (multimodal extracted) (multimodal ground_truth) tr;
              surface_rep =
                (if \<not> skip_baselines then add_baselines oracles extracted tr surface_rep0
                 else surface_rep0)
          in if \<not> skip_llm_judge
             then (case add_judge_scores judge extracted ground_truth
                          surface_rep behavioral_rep psychographic_rep multimodal_rep of
                     None \<Rightarrow> None
                   | Some (s, b, p, mm) \<Rightarrow>
                       Some \<lparr>report_transcript_id = transcript_id extracted,
                             surface_report = s, behavioral_report = b,
                             psychographic_report = p, multimodal_report = mm\<rparr>)
             else Some \<lparr>report_transcript_id = transcript_id extracted,
                        surface_report = surface_rep, behavioral_report = behavioral_rep,
                        psychographic_report = psychographic_rep,
                        multimodal_report = multimodal_rep\<rparr>)"

section \<open>Vocabulary of the statements\<close>

definition perfect_scores :: "signal_metrics \<Rightarrow> bool" where
  \<comment> \<open>precision, recall and F1 are all present and equal to 1\<close>
  "perfect_scores m \<longleftrightarrow> sm_precision m = Some 1 \<and> sm_recall m = Some 1 \<and> sm_f1 m = Some 1"

section \<open>Concrete inputs\<close>

text \<open>
  A small well-formed evaluation case, used to instantiate the theorems: an extraction
  with no surface and no behavioral signals, a mental model, \<open>n\<close> persona indicators of
  the archetype \<^verbatim>\<open>analytical_evaluator\<close> and an empty language fingerprint; a transcript
  without utterances; baselines whose libraries are not installed; and a judge that
  scores everything \<open>3\<close>.
\<close>

definition example_persona :: persona_indicator where
  "example_persona =
     \<lparr>archetype = ''analytical_evaluator'', pi_confidence = 1 / 2, pi_evidence = [],
      pi_reasoning = ''asks for benchmarks''\<rparr>"

definition example_extraction :: "nat \<Rightarrow> extraction_result" where
  "example_extraction n =
     \<lparr>transcript_id = ''t1'', extraction_timestamp = ''2024-01-01T00:00:00'',
      surface = \<lparr>aspects = [], topics = [], entities = [], key_phrases = []\<rparr>,
      behavioral = \<lparr>objection_triples = [], buying_intent_markers = [],
                    competitive_mentions = [], engagement_trajectory = []\<rparr>,
      psychographic =
        \<lparr>mental_model = \<lparr>primary = ''efficiency'', secondary = None, mm_evidence = [],
                          mm_confidence = 1 / 2, mm_reasoning = ''talks about time saved''\<rparr>,
         persona_indicators = replicate n example_persona,
         language_fingerprint =
           \<lparr>distinctive_vocabulary = [], metaphors = [], framing_patterns = []\<rparr>\<rparr>,
      multimodal = None, overall_confidence = 1 / 2, er_notes = []\<rparr>"

definition example_transcript :: transcript where
  "example_transcript = \<lparr>call_id = ''c1'', utterances = []\<rparr>"

definition example_oracles :: baseline_oracles where
  "example_oracles =
     \<lparr>spacy_ner_baseline = (\<lambda>t. None), keyphrase_baseline = (\<lambda>t. None),
      sentiment_baseline = None\<rparr>"

definition neutral_score :: judge_score where
  "neutral_score = \<lparr>js_score = 3, js_justification = ''acceptable''\<rparr>"

definition example_judge :: judge_oracle where
  "example_judge =
     \<lparr>score_aspect_quality = (\<lambda>x y. neutral_score),
      score_objection_triple = (\<lambda>x y. neutral_score),
      score_competitive_context = (\<lambda>x y. neutral_score),
      score_persona_reasoning = (\<lambda>x y. neutral_score),
      score_framing_patterns = (\<lambda>x y. neutral_score),
      score_divergence_interpretation = (\<lambda>x y. neutral_score)\<rparr>"

section \<open>Properties of the metrics library\<close>

lemma precision_bounds:
  assumes "finite A"
  shows "0 \<le> precision A B \<and> precision A B \<le> 1"
proof (cases "A = {}")
  case True
  then show ?thesis by (simp add: precision_def)
next
  case False
  with assms have pos: "0 < card A" by (simp add: card_gt_0_iff)
  have "card (A \<inter> B) \<le> card A"
    using assms by (simp add: card_mono)
  with pos False show ?thesis
    by (simp add: precision_def)
qed

lemma recall_bounds:
  assumes "finite B"
  shows "0 \<le> recall A B \<and> recall A B \<le> 1"
proof (cases "B = {}")
  case True
  then show ?thesis by (simp add: recall_def)
next
  case False
  with assms have pos: "0 < card B" by (simp add: card_gt_0_iff)
  have "card (A \<inter> B) \<le> card B"
    using assms by (simp add: card_mono)
  with pos False show ?thesis
    by (simp add: recall_def)
qed

text \<open>
  Claim C3. For finite sets \<open>A\<close> and \<open>B\<close>, precision and recall lie in \<open>[0,1]\<close>;
  precision is \<open>|A \<inter> B| / |A|\<close> for non-empty \<open>A\<close>, with \<open>precision {} {} = 1\<close> and
  \<open>precision {} B = 0\<close> for non-empty \<open>B\<close>; recall is \<open>|A \<inter> B| / |B|\<close> for non-empty
  \<open>B\<close> and \<open>1\<close> for empty \<open>B\<close>, whatever \<open>A\<close> is; \<open>f1 p r\<close> is the harmonic mean
  \<open>2pr/(p+r)\<close>, and \<open>0\<close> when \<open>p + r = 0\<close>; and the third component of
  \<open>precision_recall_f1\<close> is \<open>f1\<close> of the first two.
\<close>

theorem precision_recall_f1_spec:
  fixes A B :: "'a set" and p r :: real
  assumes "finite A" and "finite B"
  shows "0 \<le> precision A B \<and> precision A B \<le> 1
       \<and> 0 \<le> recall A B \<and> recall A B \<le> 1
       \<and> (A \<noteq> {} \<longrightarrow> precision A B = real (card (A \<inter> B)) / real (card A))
       \<and> precision ({}::'a set) {} = 1
       \<and> (B \<noteq> {} \<longrightarrow> precision {} B = 0)
       \<and> (B \<noteq> {} \<longrightarrow> recall A B = real (card (A \<inter> B)) / real (card B))
       \<and> recall A {} = 1
       \<and> (p + r \<noteq> 0 \<longrightarrow> f1 p r = 2 * p * r / (p + r))
       \<and> (p + r = 0 \<longrightarrow> f1 p r = 0)
       \<and> precision_recall_f1 A B = (precision A B, recall A B, f1 (precision A B) (recall A B))"
proof -
  have bounds: "0 \<le> precision A B \<and> precision A B \<le> 1 \<and> 0 \<le> recall A B \<and> recall A B \<le> 1"
    using precision_bounds [OF assms(1), of B] recall_bounds [OF assms(2), of A] by simp
  have formulas: "(A \<noteq> {} \<longrightarrow> precision A B = real (card (A \<inter> B)) / real (card A))
       \<and> precision ({}::'a set) {} = 1
       \<and> (B \<noteq> {} \<longrightarrow> precision {} B = 0)
       \<and> (B \<noteq> {} \<longrightarrow> recall A B = real (card (A \<inter> B)) / real (card B))
       \<and> recall A {} = 1"
    by (simp add: precision_def recall_def)
  have harmonic: "(p + r \<noteq> 0 \<longrightarrow> f1 p r = 2 * p * r / (p + r)) \<and> (p + r = 0 \<longrightarrow> f1 p r = 0)"
    by (simp add: f1_def)
  have triple: "precision_recall_f1 A B
      = (precision A B, recall A B, f1 (precision A B) (recall A B))"
    by (simp add: precision_recall_f1_def Let_def)
  from bounds formulas harmonic triple show ?thesis by blast
qed

theorem precision_recall_f1_spec_witness:
  "finite {1::nat, 2} \<and> finite {2::nat, 3} \<and> {1::nat, 2} \<noteq> {} \<and> {2::nat, 3} \<noteq> {}
   \<and> precision {1::nat, 2} {2, 3} = 1 / 2 \<and> recall {1::nat, 2} {2, 3} = 1 / 2
   \<and> f1 (1 / 2) (1 / 2) = 1 / 2
   \<and> precision_recall_f1 {1::nat, 2} {2, 3} = (1 / 2, 1 / 2, 1 / 2)"
proof -
  have c: "card ({1::nat, 2} \<inter> {2, 3}) = 1" by simp
  note spec = precision_recall_f1_spec [of "{1::nat, 2}" "{2, 3}" "1 / 2" "1 / 2"]
  have p: "precision {1::nat, 2} {2, 3} = 1 / 2"
    using spec c by simp
  have r: "recall {1::nat, 2} {2, 3} = 1 / 2"
    using spec c by simp
  have f: "f1 (1 / 2) (1 / 2) = 1 / 2"
    using spec by simp
  have "precision_recall_f1 {1::nat, 2} {2, 3}
      = (precision {1::nat, 2} {2, 3}, recall {1::nat, 2} {2, 3},
         f1 (precision {1::nat, 2} {2, 3}) (recall {1::nat, 2} {2, 3}))"
    using spec by simp
  then have t: "precision_recall_f1 {1::nat, 2} {2, 3} = (1 / 2, 1 / 2, 1 / 2)"
    by (simp only: p r f)
  from p r f t show ?thesis by simp
qed

lemma list_index_less: "x \<in> set xs \<Longrightarrow> list_index xs x < length xs"
  by (induction xs) auto

lemma list_index_nth: "x \<in> set xs \<Longrightarrow> xs ! list_index xs x = x"
  by (induction xs) auto

lemma ordinal_agreement_formula:
  assumes "p \<in> set scale" and "a \<in> set scale" and "length scale \<noteq> 1"
  shows "ordinal_agreement p a scale
       = 1 - real_of_int \<bar>int (list_index scale p) - int (list_index scale a)\<bar>
             / real_of_int (int (length scale) - 1)"
  using assms by (simp add: ordinal_agreement_def Let_def)

lemma ordinal_agreement_mono:
  assumes "p \<in> set scale" and "a \<in> set scale" and "p' \<in> set scale" and "a' \<in> set scale"
    and le: "\<bar>int (list_index scale p) - int (list_index scale a)\<bar>
           \<le> \<bar>int (list_index scale p') - int (list_index scale a')\<bar>"
  shows "ordinal_agreement p' a' scale \<le> ordinal_agreement p a scale"
proof (cases "length scale = 1")
  case True
  with assms show ?thesis by (simp add: ordinal_agreement_def)
next
  case False
  from assms(1) have "length scale \<noteq> 0" by auto
  with False have "1 < length scale" by arith
  then have pos: "0 < real_of_int (int (length scale) - 1)" by simp
  from le have "real_of_int \<bar>int (list_index scale p) - int (list_index scale a)\<bar>
      \<le> real_of_int \<bar>int (list_index scale p') - int (list_index scale a')\<bar>"
    by (simp only: of_int_le_iff)
  with pos have "real_of_int \<bar>int (list_index scale p) - int (list_index scale a)\<bar>
        / real_of_int (int (length scale) - 1)
      \<le> real_of_int \<bar>int (list_index scale p') - int (list_index scale a')\<bar>
        / real_of_int (int (length scale) - 1)"
    by (intro divide_right_mono) simp_all
  then show ?thesis
    unfolding ordinal_agreement_formula [OF assms(1,2) False]
      ordinal_agreement_formula [OF assms(3,4) False]
    by linarith
qed

lemma ordinal_agreement_strict:
  assumes "p \<in> set scale" and "a \<in> set scale" and "p' \<in> set scale" and "a' \<in> set scale"
    and less: "\<bar>int (list_index scale p) - int (list_index scale a)\<bar>
             < \<bar>int (list_index scale p') - int (list_index scale a')\<bar>"
  shows "ordinal_agreement p' a' scale < ordinal_agreement p a scale"
proof -
  from less have "list_index scale p' \<noteq> list_index scale a'" by auto
  moreover have "list_index scale p' < length scale" "list_index scale a' < length scale"
    using assms(3,4) by (simp_all add: list_index_less)
  ultimately have len: "2 \<le> length scale" by linarith
  then have ne: "length scale \<noteq> 1" by simp
  from len have pos: "0 < real_of_int (int (length scale) - 1)" by simp
  from less have "real_of_int \<bar>int (list_index scale p) - int (list_index scale a)\<bar>
      < real_of_int \<bar>int (list_index scale p') - int (list_index scale a')\<bar>"
    by (simp only: of_int_less_iff)
  with pos have "real_of_int \<bar>int (list_index scale p) - int (list_index scale a)\<bar>
        / real_of_int (int (length scale) - 1)
      < real_of_int \<bar>int (list_index scale p') - int (list_index scale a')\<bar>
        / real_of_int (int (length scale) - 1)"
    by (intro divide_strict_right_mono) simp_all
  then show ?thesis
    unfolding ordinal_agreement_formula [OF assms(1,2) ne]
      ordinal_agreement_formula [OF assms(3,4) ne]
    by linarith
qed

text \<open>
  Claim C9. \<open>ordinal_agreement predicted actual scale\<close> is \<open>0\<close> when either value is not in
  the scale; for two values of the scale it is \<open>1\<close> when the scale has one element and
  \<open>1 - |index predicted - index actual| / (len scale - 1)\<close> otherwise (the membership test
  comes first in the code, then the one-element case, then the quotient). Hence
  \<open>ordinal_agreement x x scale = 1\<close> for every \<open>x\<close> of the scale, and between values of
  the scale the result never grows when the index distance grows, and strictly shrinks
  when the distance strictly grows.
\<close>

theorem ordinal_agreement_spec:
  fixes scale :: "'a list"
  shows "(p \<notin> set scale \<or> a \<notin> set scale \<longrightarrow> ordinal_agreement p a scale = 0)
       \<and> (p \<in> set scale \<and> a \<in> set scale \<and> length scale = 1
            \<longrightarrow> ordinal_agreement p a scale = 1)
       \<and> (p \<in> set scale \<and> a \<in> set scale \<and> length scale \<noteq> 1
            \<longrightarrow> ordinal_agreement p a scale
                = 1 - real_of_int \<bar>int (list_index scale p) - int (list_index scale a)\<bar>
                      / real_of_int (int (length scale) - 1))
       \<and> (x \<in> set scale \<longrightarrow> ordinal_agreement x x scale = 1)
       \<and> (p \<in> set scale \<and> a \<in> set scale \<and> p' \<in> set scale \<and> a' \<in> set scale
            \<and> \<bar>int (list_index scale p) - int (list_index scale a)\<bar>
              \<le> \<bar>int (list_index scale p') - int (list_index scale a')\<bar>
            \<longrightarrow> ordinal_agreement p' a' scale \<le> ordinal_agreement p a scale)
       \<and> (p \<in> set scale \<and> a \<in> set scale \<and> p' \<in> set scale \<and> a' \<in> set scale
            \<and> \<bar>int (list_index scale p) - int (list_index scale a)\<bar>
              < \<bar>int (list_index scale p') - int (list_index scale a')\<bar>
            \<longrightarrow> ordinal_agreement p' a' scale < ordinal_agreement p a scale)"
proof -
  have absent: "p \<notin> set scale \<or> a \<notin> set scale \<longrightarrow> ordinal_agreement p a scale = 0"
    by (simp add: ordinal_agreement_def)
  have single: "p \<in> set scale \<and> a \<in> set scale \<and> length scale = 1
      \<longrightarrow> ordinal_agreement p a scale = 1"
    by (simp add: ordinal_agreement_def)
  have quotient: "p \<in> set scale \<and> a \<in> set scale \<and> length scale \<noteq> 1
      \<longrightarrow> ordinal_agreement p a scale
          = 1 - real_of_int \<bar>int (list_index scale p) - int (list_index scale a)\<bar>
                / real_of_int (int (length scale) - 1)"
    by (intro impI ordinal_agreement_formula) simp_all
  have same: "x \<in> set scale \<longrightarrow> ordinal_agreement x x scale = 1"
    by (simp add: ordinal_agreement_def Let_def)
  have mono: "p \<in> set scale \<and> a \<in> set scale \<and> p' \<in> set scale \<and> a' \<in> set scale
      \<and> \<bar>int (list_index scale p) - int (list_index scale a)\<bar>
        \<le> \<bar>int (list_index scale p') - int (list_index scale a')\<bar>
      \<longrightarrow> ordinal_agreement p' a' scale \<le> ordinal_agreement p a scale"
    by (intro impI, elim conjE, rule ordinal_agreement_mono)
  have strict: "p \<in> set scale \<and> a \<in> set scale \<and> p' \<in> set scale \<and> a' \<in> set scale
      \<and> \<bar>int (list_index scale p) - int (list_index scale a)\<bar>
        < \<bar>int (list_index scale p') - int (list_index scale a')\<bar>
      \<longrightarrow> ordinal_agreement p' a' scale < ordinal_agreement p a scale"
    by (intro impI, elim conjE, rule ordinal_agreement_strict)
  show ?thesis
    by (intro conjI absent single quotient same mono strict)
qed

theorem ordinal_agreement_spec_witness:
  "ordinal_agreement ''low'' ''high'' [''low'', ''moderate'', ''high''] = 0
   \<and> ordinal_agreement ''low'' ''moderate'' [''low'', ''moderate'', ''high''] = 1 / 2
   \<and> ordinal_agreement ''low'' ''low'' [''low'', ''moderate'', ''high''] = 1
   \<and> ordinal_agreement ''none'' ''low'' [''low'', ''moderate'', ''high''] = 0
   \<and> ordinal_agreement ''low'' ''low'' [''low''] = 1
   \<and> ordinal_agreement ''low'' ''high'' [''low'', ''moderate'', ''high'']
     < ordinal_agreement ''low'' ''moderate'' [''low'', ''moderate'', ''high'']"
proof -
  let ?s = "[''low'', ''moderate'', ''high'']"
  note far = ordinal_agreement_spec [of "''low''" ?s "''high''" "''low''" "''low''" "''moderate''"]
  note near = ordinal_agreement_spec [of "''low''" ?s "''moderate''" "''low''" "''low''" "''high''"]
  note out = ordinal_agreement_spec [of "''none''" ?s "''low''" "''low''" "''low''" "''low''"]
  note one = ordinal_agreement_spec [of "''low''" "[''low'']" "''low''" "''low''" "''low''" "''low''"]
  have a: "ordinal_agreement ''low'' ''high'' ?s = 0" using far by simp
  have b: "ordinal_agreement ''low'' ''moderate'' ?s = 1 / 2" using near by simp
  have c: "ordinal_agreement ''low'' ''low'' ?s = 1" using far by simp
  have d: "ordinal_agreement ''none'' ''low'' ?s = 0" using out by simp
  have e: "ordinal_agreement ''low'' ''low'' [''low''] = 1" using one by simp
  have f: "ordinal_agreement ''low'' ''high'' ?s < ordinal_agreement ''low'' ''moderate'' ?s"
    using near by simp
  from a b c d e f show ?thesis by blast
qed

section \<open>Properties of the fuzzy matcher\<close>


lemma candidate_pairs_mem:
  "(score, i, j) \<in> set (candidate_pairs extracted ground_truth similarity_fn threshold)
   \<longleftrightarrow> i < length extracted \<and> j < length ground_truth
       \<and> score = similarity_fn (extracted ! i) (ground_truth ! j) \<and> threshold \<le> score"
proof
  assume "(score, i, j) \<in> set (candidate_pairs extracted ground_truth similarity_fn threshold)"
  then show "i < length extracted \<and> j < length ground_truth
       \<and> score = similarity_fn (extracted ! i) (ground_truth ! j) \<and> threshold \<le> score"
    by (auto simp: candidate_pairs_def Let_def in_set_enumerate_eq split: if_splits)
next
  assume a: "i < length extracted \<and> j < length ground_truth
       \<and> score = similarity_fn (extracted ! i) (ground_truth ! j) \<and> threshold \<le> score"
  then have ie: "(i, extracted ! i) \<in> set (enumerate 0 extracted)"
    and jg: "(j, ground_truth ! j) \<in> set (enumerate 0 ground_truth)"
    by (simp_all add: in_set_enumerate_eq)
  from a jg have inner: "(score, i, j) \<in> set (concat (map (\<lambda>(j, gt).
         (let score = similarity_fn (extracted ! i) gt
          in if score \<ge> threshold then [(score, i, j)] else []))
         (enumerate 0 ground_truth)))"
    by (force simp: Let_def)
  with ie show "(score, i, j) \<in> set (candidate_pairs extracted ground_truth similarity_fn threshold)"
    unfolding candidate_pairs_def by force
qed

lemma candidate_pairs_set:
  "set (candidate_pairs extracted ground_truth similarity_fn threshold)
   = {(similarity_fn (extracted ! i) (ground_truth ! j), i, j) | i j.
        i < length extracted \<and> j < length ground_truth
        \<and> threshold \<le> similarity_fn (extracted ! i) (ground_truth ! j)}"
  using candidate_pairs_mem [of _ _ _ extracted ground_truth similarity_fn threshold]
  by auto

lemma candidate_pairs_in_range:
  "(score, i, j) \<in> set (candidate_pairs extracted ground_truth similarity_fn threshold)
   \<Longrightarrow> i < length extracted \<and> j < length ground_truth"
  by (simp add: candidate_pairs_mem)

lemma sort_pairs_set: "set (sort_pairs pairs) = set pairs"
  by (simp add: sort_pairs_def)

lemma sort_pairs_mset: "mset (sort_pairs pairs) = mset pairs"
  by (simp add: sort_pairs_def)

lemma sort_pairs_distinct: "distinct (sort_pairs pairs) = distinct pairs"
  by (simp add: sort_pairs_def)

lemma sort_pairs_descending: "sorted_wrt (\<lambda>a b. fst b \<le> fst a) (sort_pairs pairs)"
proof -
  have "sorted (map (\<lambda>x. - fst x) (sort_pairs pairs))"
    by (simp add: sort_pairs_def)
  then show ?thesis
    by (simp add: sorted_map)
qed

lemma greedy_loop_selected:
  "greedy_loop extracted ground_truth pairs ue ug matched
   = matched @ map (lookup_pair extracted ground_truth) (selected_pairs pairs ue ug)"
  by (induction pairs ue ug arbitrary: matched rule: selected_pairs.induct)
     (simp_all add: lookup_pair_def)

lemma selected_pairs_subset: "set (selected_pairs pairs ue ug) \<subseteq> set pairs"
  by (induction pairs ue ug rule: selected_pairs.induct) auto

lemma selected_pairs_subseq: "subseq (selected_pairs pairs ue ug) pairs"
  by (induction pairs ue ug rule: selected_pairs.induct) auto

lemma selected_pairs_fresh:
  "(score, i, j) \<in> set (selected_pairs pairs ue ug) \<Longrightarrow> i \<notin> ue \<and> j \<notin> ug"
  by (induction pairs ue ug rule: selected_pairs.induct) (auto split: if_splits)

lemma selected_pairs_distinct:
  "distinct (map (\<lambda>(score, i, j). i) (selected_pairs pairs ue ug))
   \<and> distinct (map (\<lambda>(score, i, j). j) (selected_pairs pairs ue ug))"
proof (induction pairs ue ug rule: selected_pairs.induct)
  case (1 ue ug)
  then show ?case by simp
next
  case (2 score i j pairs ue ug)
  then show ?case
    by (auto dest: selected_pairs_fresh)
qed

lemma selected_pairs_append:
  "selected_pairs (xs @ ys) ue ug
   = selected_pairs xs ue ug
     @ selected_pairs ys (ue \<union> (\<lambda>(score, i, j). i) ` set (selected_pairs xs ue ug))
                         (ug \<union> (\<lambda>(score, i, j). j) ` set (selected_pairs xs ue ug))"
  by (induction xs ue ug rule: selected_pairs.induct) (auto simp: insert_commute)


lemma selected_pairs_blocked:
  assumes "pairs = xs @ (score, i, j) # ys"
    and "(score, i, j) \<notin> set (selected_pairs pairs {} {})"
  shows "\<exists>(score', i', j') \<in> set (selected_pairs pairs {} {}) \<inter> set xs. i' = i \<or> j' = j"
proof -
  let ?sx = "selected_pairs xs {} {}"
  let ?U = "(\<lambda>(score, i, j). i) ` set ?sx"
  let ?V = "(\<lambda>(score, i, j). j) ` set ?sx"
  have split: "selected_pairs pairs {} {} = ?sx @ selected_pairs ((score, i, j) # ys) ?U ?V"
    using assms(1) selected_pairs_append [of xs "(score, i, j) # ys" "{}" "{}"] by simp
  have "i \<in> ?U \<or> j \<in> ?V"
  proof (rule ccontr)
    assume "\<not> (i \<in> ?U \<or> j \<in> ?V)"
    then have "(score, i, j) \<in> set (selected_pairs ((score, i, j) # ys) ?U ?V)" by simp
    with split assms(2) show False by simp
  qed
  then obtain q where q: "q \<in> set ?sx" and hit: "(\<lambda>(score, i, j). i) q = i \<or> (\<lambda>(score, i, j). j) q = j"
    by auto
  from q have "q \<in> set xs" using selected_pairs_subset by blast
  moreover from q split have "q \<in> set (selected_pairs pairs {} {})" by simp
  ultimately have "q \<in> set (selected_pairs pairs {} {}) \<inter> set xs" by simp
  moreover from hit have "case q of (score', i', j') \<Rightarrow> i' = i \<or> j' = j"
    by (cases q) simp
  ultimately show ?thesis by (rule rev_bexI)
qed

lemma matched_indices_in_range:
  assumes "(score, i, j) \<in> set (matched_indices extracted ground_truth similarity_fn threshold)"
  shows "i < length extracted \<and> j < length ground_truth"
proof -
  from assms have "(score, i, j) \<in> set (candidate_pairs extracted ground_truth similarity_fn threshold)"
    using selected_pairs_subset
    by (fastforce simp: matched_indices_def ranked_pairs_def sort_pairs_set)
  then show ?thesis by (rule candidate_pairs_in_range)
qed

lemma matched_indices_length:
  "length (matched_indices extracted ground_truth similarity_fn threshold) \<le> length extracted
   \<and> length (matched_indices extracted ground_truth similarity_fn threshold) \<le> length ground_truth"
proof -
  let ?sel = "matched_indices extracted ground_truth similarity_fn threshold"
  have di: "distinct (map (\<lambda>(score, i, j). i) ?sel)" and dj: "distinct (map (\<lambda>(score, i, j). j) ?sel)"
    using selected_pairs_distinct by (simp_all add: matched_indices_def)
  have "set (map (\<lambda>(score, i, j). i) ?sel) \<subseteq> {..<length extracted}"
    using matched_indices_in_range by fastforce
  then have "card (set (map (\<lambda>(score, i, j). i) ?sel)) \<le> card {..<length extracted}"
    by (intro card_mono) simp_all
  moreover from di have "card (set (map (\<lambda>(score, i, j). i) ?sel)) = length ?sel"
    using distinct_card [of "map (\<lambda>(score, i, j). i) ?sel"] by simp
  ultimately have a: "length ?sel \<le> length extracted"
    by simp
  have "set (map (\<lambda>(score, i, j). j) ?sel) \<subseteq> {..<length ground_truth}"
    using matched_indices_in_range by fastforce
  then have "card (set (map (\<lambda>(score, i, j). j) ?sel)) \<le> card {..<length ground_truth}"
    by (intro card_mono) simp_all
  moreover from dj have "card (set (map (\<lambda>(score, i, j). j) ?sel)) = length ?sel"
    using distinct_card [of "map (\<lambda>(score, i, j). j) ?sel"] by simp
  ultimately have b: "length ?sel \<le> length ground_truth"
    by simp
  from a b show ?thesis by simp
qed

lemma compute_fuzzy_nonempty:
  assumes "extracted \<noteq> []" and "ground_truth \<noteq> []"
  shows "compute_fuzzy_precision_recall extracted ground_truth similarity_fn threshold
       = (real (length (matched_indices extracted ground_truth similarity_fn threshold))
            / real (length extracted),
          real (length (matched_indices extracted ground_truth similarity_fn threshold))
            / real (length ground_truth),
          f1 (real (length (matched_indices extracted ground_truth similarity_fn threshold))
                / real (length extracted))
             (real (length (matched_indices extracted ground_truth similarity_fn threshold))
                / real (length ground_truth)),
          map (lookup_pair extracted ground_truth)
            (matched_indices extracted ground_truth similarity_fn threshold))"
proof -
  let ?n = "real (length (matched_indices extracted ground_truth similarity_fn threshold))"
  have nonneg: "0 \<le> ?n / real (length extracted) + ?n / real (length ground_truth)"
    by simp
  then have "(0 < ?n / real (length extracted) + ?n / real (length ground_truth))
      = (?n / real (length extracted) + ?n / real (length ground_truth) \<noteq> 0)"
    by linarith
  then show ?thesis
    using assms
    by (simp add: compute_fuzzy_precision_recall_def Let_def greedy_loop_selected
        matched_indices_def ranked_pairs_def f1_def)
qed

lemma compute_fuzzy_matched:
  "snd (snd (snd (compute_fuzzy_precision_recall extracted ground_truth similarity_fn threshold)))
   = map (lookup_pair extracted ground_truth)
       (matched_indices extracted ground_truth similarity_fn threshold)"
proof (cases "extracted = [] \<or> ground_truth = []")
  case True
  then have "candidate_pairs extracted ground_truth similarity_fn threshold = []"
    by (auto simp: candidate_pairs_def enumerate_eq_zip)
  with True show ?thesis
    by (auto simp: compute_fuzzy_precision_recall_def matched_indices_def ranked_pairs_def
        sort_pairs_def)
next
  case False
  then show ?thesis by (simp add: compute_fuzzy_nonempty)
qed


lemma distinct_concat_enumerate:
  assumes d: "\<And>k x. distinct (F k x)" and idx: "\<And>k x y. y \<in> set (F k x) \<Longrightarrow> tag y = k"
  shows "distinct (concat (map (\<lambda>(k, x). F k x) (enumerate n xs)))"
proof (induction xs arbitrary: n)
  case Nil
  then show ?case by simp
next
  case (Cons x xs)
  have "set (F n x) \<inter> set (concat (map (\<lambda>(k, x). F k x) (enumerate (Suc n) xs))) = {}"
  proof (rule ccontr)
    assume "set (F n x) \<inter> set (concat (map (\<lambda>(k, x). F k x) (enumerate (Suc n) xs))) \<noteq> {}"
    then obtain y where y1: "y \<in> set (F n x)"
      and y2: "y \<in> set (concat (map (\<lambda>(k, x). F k x) (enumerate (Suc n) xs)))" by blast
    from y2 obtain k x' where k: "(k, x') \<in> set (enumerate (Suc n) xs)" and y3: "y \<in> set (F k x')"
      by auto
    from k have "Suc n \<le> k" by (simp add: in_set_enumerate_eq)
    moreover from y1 have "tag y = n" by (rule idx)
    moreover from y3 have "tag y = k" by (rule idx)
    ultimately show False by simp
  qed
  with Cons [of "Suc n"] d [of n x] show ?case by simp
qed

lemma candidate_pairs_distinct:
  "distinct (candidate_pairs extracted ground_truth similarity_fn threshold)"
  unfolding candidate_pairs_def
proof (rule distinct_concat_enumerate [where tag = "\<lambda>(score, i, j). i"])
  fix i ext
  show "distinct (concat (map (\<lambda>(j, gt).
         (let score = similarity_fn ext gt
          in if score \<ge> threshold then [(score, i, j)] else []))
         (enumerate 0 ground_truth)))"
    by (rule distinct_concat_enumerate [where tag = "\<lambda>(score, i, j). j"])
       (auto simp: Let_def split: if_splits)
next
  fix i ext y
  assume "y \<in> set (concat (map (\<lambda>(j, gt).
         (let score = similarity_fn ext gt
          in if score \<ge> threshold then [(score, i, j)] else []))
         (enumerate 0 ground_truth)))"
  then show "(case y of (score, i, j) \<Rightarrow> i) = i"
    by (auto simp: Let_def split: if_splits)
qed

lemma ranked_pairs_facts:
  "set (ranked_pairs extracted ground_truth similarity_fn threshold)
     = {(similarity_fn (extracted ! i) (ground_truth ! j), i, j) | i j.
          i < length extracted \<and> j < length ground_truth
          \<and> threshold \<le> similarity_fn (extracted ! i) (ground_truth ! j)}
   \<and> distinct (ranked_pairs extracted ground_truth similarity_fn threshold)
   \<and> sorted_wrt (\<lambda>a b. fst b \<le> fst a) (ranked_pairs extracted ground_truth similarity_fn threshold)"
  by (simp add: ranked_pairs_def sort_pairs_set candidate_pairs_set sort_pairs_descending
      sort_pairs_distinct candidate_pairs_distinct)


lemma fuzzy_scenario:
  "compute_fuzzy_precision_recall [''pricing'', ''support''] [''pricing'', ''integration'']
     token_overlap_similarity (1 / 2)
   = (1 / 2, 1 / 2, 1 / 2, [(''pricing'', ''pricing'', 1)])"
  by code_simp

text \<open>
  Claim C1. \<open>compute_fuzzy_precision_recall\<close> is greedy one-to-one matching. On two empty
  lists it returns \<open>(1, 1, 1, [])\<close>, on an empty extracted list and a non-empty ground
  truth \<open>(0, 0, 0, [])\<close>, on a non-empty extracted list and an empty ground truth
  \<open>(0, 1, 0, [])\<close>. Otherwise the candidates are exactly the index pairs whose similarity
  reaches the threshold, each once, ranked by descending similarity; the accepted pairs
  are a subsequence of that ranking in which no extracted index and no ground-truth index
  occurs twice, and every candidate that is not accepted shares an index with an accepted
  pair ranked before it; precision is the number of accepted pairs over the number of
  extracted items, recall the same number over the number of ground-truth items, and the
  returned pairs are the accepted ones with their strings. On the scenario of the
  specification the result is precision \<open>0.5\<close>, recall \<open>0.5\<close> and the single pair
  \<open>(pricing, pricing, 1.0)\<close>.
\<close>

theorem compute_fuzzy_precision_recall_greedy:
  "compute_fuzzy_precision_recall [] [] similarity_fn threshold = (1, 1, 1, [])
   \<and> (ground_truth \<noteq> []
        \<longrightarrow> compute_fuzzy_precision_recall [] ground_truth similarity_fn threshold = (0, 0, 0, []))
   \<and> (extracted \<noteq> []
        \<longrightarrow> compute_fuzzy_precision_recall extracted [] similarity_fn threshold = (0, 1, 0, []))
   \<and> (extracted \<noteq> [] \<and> ground_truth \<noteq> []
        \<longrightarrow> compute_fuzzy_precision_recall extracted ground_truth similarity_fn threshold
          = (real (length (matched_indices extracted ground_truth similarity_fn threshold))
               / real (length extracted),
             real (length (matched_indices extracted ground_truth similarity_fn threshold))
               / real (length ground_truth),
             f1 (real (length (matched_indices extracted ground_truth similarity_fn threshold))
                   / real (length extracted))
                (real (length (matched_indices extracted ground_truth similarity_fn threshold))
                   / real (length ground_truth)),
             map (lookup_pair extracted ground_truth)
               (matched_indices extracted ground_truth similarity_fn threshold)))
   \<and> set (ranked_pairs extracted ground_truth similarity_fn threshold)
       = {(similarity_fn (extracted ! i) (ground_truth ! j), i, j) | i j.
            i < length extracted \<and> j < length ground_truth
            \<and> threshold \<le> similarity_fn (extracted ! i) (ground_truth ! j)}
   \<and> distinct (ranked_pairs extracted ground_truth similarity_fn threshold)
   \<and> sorted_wrt (\<lambda>a b. fst b \<le> fst a) (ranked_pairs extracted ground_truth similarity_fn threshold)
   \<and> subseq (matched_indices extracted ground_truth similarity_fn threshold)
        (ranked_pairs extracted ground_truth similarity_fn threshold)
   \<and> distinct (map (\<lambda>(score, i, j). i) (matched_indices extracted ground_truth similarity_fn threshold))
   \<and> distinct (map (\<lambda>(score, i, j). j) (matched_indices extracted ground_truth similarity_fn threshold))
   \<and> (\<forall>xs score i j ys.
         ranked_pairs extracted ground_truth similarity_fn threshold = xs @ (score, i, j) # ys
         \<and> (score, i, j) \<notin> set (matched_indices extracted ground_truth similarity_fn threshold)
         \<longrightarrow> (\<exists>(score', i', j') \<in> set (matched_indices extracted ground_truth similarity_fn threshold)
                  \<inter> set xs. i' = i \<or> j' = j))
   \<and> compute_fuzzy_precision_recall [''pricing'', ''support''] [''pricing'', ''integration'']
        token_overlap_similarity (1 / 2)
       = (1 / 2, 1 / 2, 1 / 2, [(''pricing'', ''pricing'', 1)])"
proof -
  let ?sel = "matched_indices extracted ground_truth similarity_fn threshold"
  let ?ranked = "ranked_pairs extracted ground_truth similarity_fn threshold"
  have both_empty: "compute_fuzzy_precision_recall [] [] similarity_fn threshold = (1, 1, 1, [])"
    by (simp add: compute_fuzzy_precision_recall_def)
  have no_extracted: "ground_truth \<noteq> []
      \<longrightarrow> compute_fuzzy_precision_recall [] ground_truth similarity_fn threshold = (0, 0, 0, [])"
    by (simp add: compute_fuzzy_precision_recall_def)
  have no_gt: "extracted \<noteq> []
      \<longrightarrow> compute_fuzzy_precision_recall extracted [] similarity_fn threshold = (0, 1, 0, [])"
    by (simp add: compute_fuzzy_precision_recall_def)
  have general: "extracted \<noteq> [] \<and> ground_truth \<noteq> []
      \<longrightarrow> compute_fuzzy_precision_recall extracted ground_truth similarity_fn threshold
          = (real (length ?sel) / real (length extracted),
             real (length ?sel) / real (length ground_truth),
             f1 (real (length ?sel) / real (length extracted))
                (real (length ?sel) / real (length ground_truth)),
             map (lookup_pair extracted ground_truth) ?sel)"
    by (intro impI compute_fuzzy_nonempty) simp_all
  have sub: "subseq ?sel ?ranked"
    by (simp add: matched_indices_def selected_pairs_subseq)
  have di: "distinct (map (\<lambda>(score, i, j). i) ?sel)"
    and dj: "distinct (map (\<lambda>(score, i, j). j) ?sel)"
    using selected_pairs_distinct by (simp_all add: matched_indices_def)
  have blocked: "\<forall>xs score i j ys.
      ?ranked = xs @ (score, i, j) # ys \<and> (score, i, j) \<notin> set ?sel
      \<longrightarrow> (\<exists>(score', i', j') \<in> set ?sel \<inter> set xs. i' = i \<or> j' = j)"
    unfolding matched_indices_def
    by (intro allI impI, elim conjE, rule selected_pairs_blocked)
  note ranked = ranked_pairs_facts [of extracted ground_truth similarity_fn threshold]
  show ?thesis
    by (intro conjI both_empty no_extracted no_gt general sub di dj blocked fuzzy_scenario
        ranked [THEN conjunct1] ranked [THEN conjunct2, THEN conjunct1]
        ranked [THEN conjunct2, THEN conjunct2])
qed

theorem compute_fuzzy_precision_recall_greedy_witness:
  "[''pricing'', ''support''] \<noteq> [] \<and> [''pricing'', ''integration''] \<noteq> []
   \<and> ranked_pairs [''pricing'', ''support''] [''pricing'', ''integration'']
        token_overlap_similarity (1 / 2) = [(1, 0, 0)]
   \<and> matched_indices [''pricing'', ''support''] [''pricing'', ''integration'']
        token_overlap_similarity (1 / 2) = [(1, 0, 0)]
   \<and> compute_fuzzy_precision_recall [''pricing'', ''support''] [''pricing'', ''integration'']
        token_overlap_similarity (1 / 2)
       = (1 / 2, 1 / 2, f1 (1 / 2) (1 / 2), [(''pricing'', ''pricing'', 1)])"
proof -
  let ?e = "[''pricing'', ''support'']" and ?g = "[''pricing'', ''integration'']"
  have r: "ranked_pairs ?e ?g token_overlap_similarity (1 / 2) = [(1, 0, 0)]"
    by code_simp
  have m: "matched_indices ?e ?g token_overlap_similarity (1 / 2) = [(1, 0, 0)]"
    by code_simp
  have "compute_fuzzy_precision_recall ?e ?g token_overlap_similarity (1 / 2)
      = (real (length (matched_indices ?e ?g token_overlap_similarity (1 / 2))) / real (length ?e),
         real (length (matched_indices ?e ?g token_overlap_similarity (1 / 2))) / real (length ?g),
         f1 (real (length (matched_indices ?e ?g token_overlap_similarity (1 / 2))) / real (length ?e))
            (real (length (matched_indices ?e ?g token_overlap_similarity (1 / 2))) / real (length ?g)),
         map (lookup_pair ?e ?g) (matched_indices ?e ?g token_overlap_similarity (1 / 2)))"
    using compute_fuzzy_precision_recall_greedy [of token_overlap_similarity "1 / 2" ?g ?e]
    by simp
  then have "compute_fuzzy_precision_recall ?e ?g token_overlap_similarity (1 / 2)
      = (1 / 2, 1 / 2, f1 (1 / 2) (1 / 2), [(''pricing'', ''pricing'', 1)])"
    unfolding m by (simp add: lookup_pair_def)
  with r m show ?thesis by simp
qed


lemma lookup_pair_fst:
  "map fst (map (lookup_pair extracted ground_truth) sel)
   = map (nth extracted) (map (\<lambda>(score, i, j). i) sel)"
  by (induction sel) (auto simp: lookup_pair_def)

lemma lookup_pair_snd:
  "map (fst \<circ> snd) (map (lookup_pair extracted ground_truth) sel)
   = map (nth ground_truth) (map (\<lambda>(score, i, j). j) sel)"
  by (induction sel) (auto simp: lookup_pair_def)

lemma distinct_map_nth:
  assumes "distinct xs" and "distinct is" and "\<forall>i \<in> set is. i < length xs"
  shows "distinct (map (nth xs) is)"
proof -
  from assms(1,3) have "inj_on (nth xs) (set is)"
    by (simp add: inj_on_nth)
  with assms(2) show ?thesis by (simp add: distinct_map)
qed

lemma compute_fuzzy_bounds:
  "0 \<le> fst (compute_fuzzy_precision_recall extracted ground_truth similarity_fn threshold)
   \<and> fst (compute_fuzzy_precision_recall extracted ground_truth similarity_fn threshold) \<le> 1
   \<and> 0 \<le> fst (snd (compute_fuzzy_precision_recall extracted ground_truth similarity_fn threshold))
   \<and> fst (snd (compute_fuzzy_precision_recall extracted ground_truth similarity_fn threshold)) \<le> 1"
proof (cases "extracted = [] \<or> ground_truth = []")
  case True
  then show ?thesis
    by (auto simp: compute_fuzzy_precision_recall_def)
next
  case False
  then have ne: "extracted \<noteq> []" "ground_truth \<noteq> []" by simp_all
  note len = matched_indices_length [of extracted ground_truth similarity_fn threshold]
  from ne len show ?thesis
    by (simp add: compute_fuzzy_nonempty [OF ne])
qed

text \<open>
  Claim C2. The matched pairs returned by \<open>compute_fuzzy_precision_recall\<close> are a partial
  matching that is injective in both directions: they are the strings at the accepted
  index pairs, the accepted pairs lie inside the two lists, no extracted position and no
  ground-truth position occurs in two of them, and so, when the items of a list are
  pairwise different, no item of that list occurs in two returned pairs. Consequently
  the number of matched pairs is at most the length of either list, and the returned
  precision and recall lie between 0 and 1.
\<close>

theorem matched_pairs_injective:
  "snd (snd (snd (compute_fuzzy_precision_recall extracted ground_truth similarity_fn threshold)))
     = map (lookup_pair extracted ground_truth)
         (matched_indices extracted ground_truth similarity_fn threshold)
   \<and> (\<forall>(score, i, j) \<in> set (matched_indices extracted ground_truth similarity_fn threshold).
         i < length extracted \<and> j < length ground_truth)
   \<and> distinct (map (\<lambda>(score, i, j). i) (matched_indices extracted ground_truth similarity_fn threshold))
   \<and> distinct (map (\<lambda>(score, i, j). j) (matched_indices extracted ground_truth similarity_fn threshold))
   \<and> (distinct extracted \<longrightarrow> distinct (map fst
         (snd (snd (snd (compute_fuzzy_precision_recall extracted ground_truth similarity_fn threshold))))))
   \<and> (distinct ground_truth \<longrightarrow> distinct (map (fst \<circ> snd)
         (snd (snd (snd (compute_fuzzy_precision_recall extracted ground_truth similarity_fn threshold))))))
   \<and> length (snd (snd (snd (compute_fuzzy_precision_recall extracted ground_truth similarity_fn threshold))))
       \<le> min (length extracted) (length ground_truth)
   \<and> 0 \<le> fst (compute_fuzzy_precision_recall extracted ground_truth similarity_fn threshold)
   \<and> fst (compute_fuzzy_precision_recall extracted ground_truth similarity_fn threshold) \<le> 1
   \<and> 0 \<le> fst (snd (compute_fuzzy_precision_recall extracted ground_truth similarity_fn threshold))
   \<and> fst (snd (compute_fuzzy_precision_recall extracted ground_truth similarity_fn threshold)) \<le> 1"
proof -
  let ?sel = "matched_indices extracted ground_truth similarity_fn threshold"
  let ?res = "compute_fuzzy_precision_recall extracted ground_truth similarity_fn threshold"
  have matched: "snd (snd (snd ?res)) = map (lookup_pair extracted ground_truth) ?sel"
    by (rule compute_fuzzy_matched)
  have range: "\<forall>(score, i, j) \<in> set ?sel. i < length extracted \<and> j < length ground_truth"
    using matched_indices_in_range by blast
  have di: "distinct (map (\<lambda>(score, i, j). i) ?sel)"
    and dj: "distinct (map (\<lambda>(score, i, j). j) ?sel)"
    using selected_pairs_distinct by (simp_all add: matched_indices_def)
  have ri: "\<forall>i \<in> set (map (\<lambda>(score, i, j). i) ?sel). i < length extracted"
    using matched_indices_in_range by fastforce
  have rj: "\<forall>j \<in> set (map (\<lambda>(score, i, j). j) ?sel). j < length ground_truth"
    using matched_indices_in_range by fastforce
  have items_e: "distinct extracted \<longrightarrow> distinct (map fst (snd (snd (snd ?res))))"
    unfolding matched lookup_pair_fst
    using di ri by (intro impI distinct_map_nth)
  have items_g: "distinct ground_truth \<longrightarrow> distinct (map (fst \<circ> snd) (snd (snd (snd ?res))))"
    unfolding matched lookup_pair_snd
    using dj rj by (intro impI distinct_map_nth)
  have len: "length (snd (snd (snd ?res))) \<le> min (length extracted) (length ground_truth)"
    unfolding matched
    using matched_indices_length [of extracted ground_truth similarity_fn threshold] by simp
  note b = compute_fuzzy_bounds [of extracted ground_truth similarity_fn threshold]
  show ?thesis
    by (intro conjI matched range di dj items_e items_g len
        b [THEN conjunct1] b [THEN conjunct2, THEN conjunct1]
        b [THEN conjunct2, THEN conjunct2, THEN conjunct1]
        b [THEN conjunct2, THEN conjunct2, THEN conjunct2])
qed

theorem matched_pairs_injective_witness:
  "distinct [''pricing'', ''support''] \<and> distinct [''pricing'', ''integration'']
   \<and> matched_indices [''pricing'', ''support''] [''pricing'', ''integration'']
        token_overlap_similarity (1 / 2) = [(1, 0, 0)]
   \<and> (0::nat) < length [''pricing'', ''support''] \<and> (0::nat) < length [''pricing'', ''integration'']
   \<and> distinct (map fst (snd (snd (snd (compute_fuzzy_precision_recall
        [''pricing'', ''support''] [''pricing'', ''integration''] token_overlap_similarity (1 / 2))))))
   \<and> distinct (map (fst \<circ> snd) (snd (snd (snd (compute_fuzzy_precision_recall
        [''pricing'', ''support''] [''pricing'', ''integration''] token_overlap_similarity (1 / 2))))))
   \<and> snd (snd (snd (compute_fuzzy_precision_recall
        [''pricing'', ''support''] [''pricing'', ''integration''] token_overlap_similarity (1 / 2))))
       = [(''pricing'', ''pricing'', 1)]"
proof -
  let ?e = "[''pricing'', ''support'']" and ?g = "[''pricing'', ''integration'']"
  have m: "matched_indices ?e ?g token_overlap_similarity (1 / 2) = [(1, 0, 0)]"
    by code_simp
  note inj = matched_pairs_injective [of ?e ?g token_overlap_similarity "1 / 2"]
  have de: "distinct ?e" and dg: "distinct ?g" by simp_all
  from inj de have a: "distinct (map fst (snd (snd (snd
      (compute_fuzzy_precision_recall ?e ?g token_overlap_similarity (1 / 2))))))"
    by blast
  from inj dg have b: "distinct (map (fst \<circ> snd) (snd (snd (snd
      (compute_fuzzy_precision_recall ?e ?g token_overlap_similarity (1 / 2))))))"
    by blast
  from inj have "snd (snd (snd (compute_fuzzy_precision_recall ?e ?g token_overlap_similarity (1 / 2))))
      = map (lookup_pair ?e ?g) (matched_indices ?e ?g token_overlap_similarity (1 / 2))"
    by blast
  then have c: "snd (snd (snd (compute_fuzzy_precision_recall ?e ?g token_overlap_similarity (1 / 2))))
      = [(''pricing'', ''pricing'', 1)]"
    unfolding m by (simp add: lookup_pair_def)
  from de dg m a b c show ?thesis by simp
qed

section \<open>Properties of the score-distribution check\<close>


lemma round4_zero: "round4 0 = 0"
  by (simp add: round4_def round_half_even_def)

lemma fold_last_bucket:
  assumes "\<forall>s \<in> set scores. 8 / 10 \<le> s"
  shows "fold (\<lambda>s b. increment b (bucket_key s)) scores
           [(''0.0-0.2'', a), (''0.2-0.4'', b), (''0.4-0.6'', c), (''0.6-0.8'', d), (''0.8-1.0'', e)]
         = [(''0.0-0.2'', a), (''0.2-0.4'', b), (''0.4-0.6'', c), (''0.6-0.8'', d),
            (''0.8-1.0'', e + length scores)]"
  using assms
proof (induction scores arbitrary: e)
  case Nil
  then show ?case by simp
next
  case (Cons s scores)
  then have "bucket_key s = ''0.8-1.0''" by (simp add: bucket_key_def)
  with Cons show ?case by (simp add: increment_def)
qed

lemma find_nonempty_bucket:
  "length (filter P bs) = 1 \<Longrightarrow> find P bs \<noteq> None"
  by (induction bs) (auto split: if_splits)

lemma stats_identical:
  assumes "0 < k"
  shows "score_distribution_stats (replicate k s)
       = \<lparr>ds_mean = Some (round4 s), ds_std = Some 0,
          ds_buckets = fold (\<lambda>s b. increment b (bucket_key s)) (replicate k s) initial_buckets,
          ds_n = k\<rparr>"
proof -
  from assms have ne: "replicate k s \<noteq> []" by simp
  from assms have mean: "sum_list (replicate k s) / real k = s"
    by (simp add: sum_list_replicate)
  have var: "sum_list (map (\<lambda>x. (x - s)\<^sup>2) (replicate k s)) / real k = 0"
    by (simp add: sum_list_replicate)
  show ?thesis
    using ne assms
    by (simp add: score_distribution_stats_def Let_def sum_list_replicate round4_zero)
qed


lemma stats_last_bucket:
  assumes "scores \<noteq> []" and "\<forall>s \<in> set scores. 8 / 10 \<le> s"
  shows "ds_buckets (score_distribution_stats scores)
       = [(''0.0-0.2'', 0), (''0.2-0.4'', 0), (''0.4-0.6'', 0), (''0.6-0.8'', 0),
          (''0.8-1.0'', length scores)]
       \<and> ds_n (score_distribution_stats scores) = length scores"
proof -
  have f: "fold (\<lambda>s b. increment b (bucket_key s)) scores initial_buckets
      = [(''0.0-0.2'', 0), (''0.2-0.4'', 0), (''0.4-0.6'', 0), (''0.6-0.8'', 0),
          (''0.8-1.0'', 0 + length scores)]"
    unfolding initial_buckets_def by (rule fold_last_bucket) (rule assms(2))
  have "ds_buckets (score_distribution_stats scores)
      = fold (\<lambda>s b. increment b (bucket_key s)) scores initial_buckets"
    using assms(1) by (simp add: score_distribution_stats_def Let_def)
  moreover have "ds_n (score_distribution_stats scores) = length scores"
    using assms(1) by (simp add: score_distribution_stats_def Let_def)
  ultimately show ?thesis using f by simp
qed

lemma check_score_distribution_issues:
  "ds_issues (check_score_distribution scores label)
   = (if ds_n (score_distribution_stats scores) \<ge> 3
      then (case ds_std (score_distribution_stats scores) of
               Some std \<Rightarrow> if std < 5 / 100 then [LowVariance label std] else []
             | None \<Rightarrow> [])
           @ (if length (filter (\<lambda>(k, v). v > 0) (ds_buckets (score_distribution_stats scores))) = 1
                 \<and> ds_n (score_distribution_stats scores) \<ge> 5
             then (case find (\<lambda>(k, v). v > 0) (ds_buckets (score_distribution_stats scores)) of
                     Some (bucket, v) \<Rightarrow>
                       [SingleBucket label (ds_n (score_distribution_stats scores)) bucket]
                   | None \<Rightarrow> [])
             else [])
      else [])"
  by (simp add: check_score_distribution_def Let_def)

lemma low_variance_identical:
  assumes "3 \<le> k"
  shows "LowVariance label 0 \<in> set (ds_issues (check_score_distribution (replicate k s) label))"
proof -
  from assms have k: "0 < k" by simp
  have a: "ds_std (score_distribution_stats (replicate k s)) = Some 0"
    by (simp add: stats_identical [OF k])
  have b: "ds_n (score_distribution_stats (replicate k s)) = k"
    by (simp add: stats_identical [OF k])
  have "\<exists>rest. ds_issues (check_score_distribution (replicate k s) label)
      = LowVariance label 0 # rest"
    unfolding check_score_distribution_issues a b using assms by simp
  then obtain rest where "ds_issues (check_score_distribution (replicate k s) label)
      = LowVariance label 0 # rest" ..
  then show ?thesis by simp
qed

lemma single_bucket_top:
  assumes "5 \<le> length scores" and "\<forall>s \<in> set scores. 8 / 10 \<le> s \<and> s < 1"
  shows "SingleBucket label (length scores) ''0.8-1.0''
         \<in> set (ds_issues (check_score_distribution scores label))"
proof -
  from assms(1) have ne: "scores \<noteq> []" by auto
  from assms(2) have "\<forall>s \<in> set scores. 8 / 10 \<le> s" by simp
  note st = stats_last_bucket [OF ne this]
  have single: "(if length (filter (\<lambda>(k, v). v > 0) (ds_buckets (score_distribution_stats scores))) = 1
                 \<and> ds_n (score_distribution_stats scores) \<ge> 5
             then (case find (\<lambda>(k, v). v > 0) (ds_buckets (score_distribution_stats scores)) of
                     Some (bucket, v) \<Rightarrow>
                       [SingleBucket label (ds_n (score_distribution_stats scores)) bucket]
                   | None \<Rightarrow> [])
             else []) = [SingleBucket label (length scores) ''0.8-1.0'']"
    using assms(1) ne by (simp add: st)
  from assms(1) st have "3 \<le> ds_n (score_distribution_stats scores)" by simp
  then have "\<exists>front. ds_issues (check_score_distribution scores label)
      = front @ [SingleBucket label (length scores) ''0.8-1.0'']"
    unfolding check_score_distribution_issues single by simp
  then obtain front where "ds_issues (check_score_distribution scores label)
      = front @ [SingleBucket label (length scores) ''0.8-1.0'']" ..
  then show ?thesis by simp
qed

lemma bucket_key_range:
  "bucket_key s = ''0.0-0.2'' \<or> bucket_key s = ''0.2-0.4'' \<or> bucket_key s = ''0.4-0.6''
   \<or> bucket_key s = ''0.6-0.8'' \<or> bucket_key s = ''0.8-1.0''"
  by (simp add: bucket_key_def)

lemma bucket_key_intervals:
  "(bucket_key s = ''0.0-0.2'') = (s < 2 / 10)
   \<and> (bucket_key s = ''0.2-0.4'') = (2 / 10 \<le> s \<and> s < 4 / 10)
   \<and> (bucket_key s = ''0.4-0.6'') = (4 / 10 \<le> s \<and> s < 6 / 10)
   \<and> (bucket_key s = ''0.6-0.8'') = (6 / 10 \<le> s \<and> s < 8 / 10)
   \<and> (bucket_key s = ''0.8-1.0'') = (8 / 10 \<le> s)"
  by (simp add: bucket_key_def)

lemma fold_bucket_counts:
  "fold (\<lambda>s b. increment b (bucket_key s)) scores
     [(''0.0-0.2'', a), (''0.2-0.4'', b), (''0.4-0.6'', c), (''0.6-0.8'', d), (''0.8-1.0'', e)]
   = [(''0.0-0.2'', a + length (filter (\<lambda>s. bucket_key s = ''0.0-0.2'') scores)),
      (''0.2-0.4'', b + length (filter (\<lambda>s. bucket_key s = ''0.2-0.4'') scores)),
      (''0.4-0.6'', c + length (filter (\<lambda>s. bucket_key s = ''0.4-0.6'') scores)),
      (''0.6-0.8'', d + length (filter (\<lambda>s. bucket_key s = ''0.6-0.8'') scores)),
      (''0.8-1.0'', e + length (filter (\<lambda>s. bucket_key s = ''0.8-1.0'') scores))]"
proof (induction scores arbitrary: a b c d e)
  case Nil
  then show ?case by simp
next
  case (Cons s scores)
  from bucket_key_range [of s] show ?case
  proof (elim disjE)
    assume k: "bucket_key s = ''0.0-0.2''"
    then show ?thesis using Cons [of "a + 1" b c d e] by (simp add: increment_def)
  next
    assume k: "bucket_key s = ''0.2-0.4''"
    then show ?thesis using Cons [of a "b + 1" c d e] by (simp add: increment_def)
  next
    assume k: "bucket_key s = ''0.4-0.6''"
    then show ?thesis using Cons [of a b "c + 1" d e] by (simp add: increment_def)
  next
    assume k: "bucket_key s = ''0.6-0.8''"
    then show ?thesis using Cons [of a b c "d + 1" e] by (simp add: increment_def)
  next
    assume k: "bucket_key s = ''0.8-1.0''"
    then show ?thesis using Cons [of a b c d "e + 1"] by (simp add: increment_def)
  qed
qed

lemma stats_nonempty:
  assumes "scores \<noteq> []"
  shows "score_distribution_stats scores
       = \<lparr>ds_mean = Some (round4 (sum_list scores / real (length scores))),
          ds_std = Some (round4 (sqrt (sum_list (map (\<lambda>s.
                     (s - sum_list scores / real (length scores))\<^sup>2) scores)
                   / real (length scores)))),
          ds_buckets =
            [(''0.0-0.2'', length (filter (\<lambda>s. bucket_key s = ''0.0-0.2'') scores)),
             (''0.2-0.4'', length (filter (\<lambda>s. bucket_key s = ''0.2-0.4'') scores)),
             (''0.4-0.6'', length (filter (\<lambda>s. bucket_key s = ''0.4-0.6'') scores)),
             (''0.6-0.8'', length (filter (\<lambda>s. bucket_key s = ''0.6-0.8'') scores)),
             (''0.8-1.0'', length (filter (\<lambda>s. bucket_key s = ''0.8-1.0'') scores))],
          ds_n = length scores\<rparr>"
  using assms fold_bucket_counts [of scores 0 0 0 0 0]
  by (simp add: score_distribution_stats_def Let_def initial_buckets_def)

lemma count_positive:
  "(0 < length (filter (\<lambda>s. bucket_key s = k) scores)) = (\<exists>s \<in> set scores. bucket_key s = k)"
  by (simp add: filter_empty_conv)


lemma one_nonempty_bucket:
  fixes c1 c2 c3 c4 c5 :: nat
  shows "(length (filter (\<lambda>(k, v). v > 0)
            [(''0.0-0.2'', c1), (''0.2-0.4'', c2), (''0.4-0.6'', c3), (''0.6-0.8'', c4),
             (''0.8-1.0'', c5)]) = 1)
       = ((0 < c1 \<and> c2 = 0 \<and> c3 = 0 \<and> c4 = 0 \<and> c5 = 0)
          \<or> (c1 = 0 \<and> 0 < c2 \<and> c3 = 0 \<and> c4 = 0 \<and> c5 = 0)
          \<or> (c1 = 0 \<and> c2 = 0 \<and> 0 < c3 \<and> c4 = 0 \<and> c5 = 0)
          \<or> (c1 = 0 \<and> c2 = 0 \<and> c3 = 0 \<and> 0 < c4 \<and> c5 = 0)
          \<or> (c1 = 0 \<and> c2 = 0 \<and> c3 = 0 \<and> c4 = 0 \<and> 0 < c5))"
  by auto

lemma count_zero:
  "(length (filter (\<lambda>s. bucket_key s = k) scores) = 0) = (\<forall>s \<in> set scores. bucket_key s \<noteq> k)"
  by (simp add: filter_empty_conv)

lemma single_bucket_iff:
  assumes "scores \<noteq> []"
  shows "(length (filter (\<lambda>(k, v). v > 0)
            [(''0.0-0.2'', length (filter (\<lambda>s. bucket_key s = ''0.0-0.2'') scores)),
             (''0.2-0.4'', length (filter (\<lambda>s. bucket_key s = ''0.2-0.4'') scores)),
             (''0.4-0.6'', length (filter (\<lambda>s. bucket_key s = ''0.4-0.6'') scores)),
             (''0.6-0.8'', length (filter (\<lambda>s. bucket_key s = ''0.6-0.8'') scores)),
             (''0.8-1.0'', length (filter (\<lambda>s. bucket_key s = ''0.8-1.0'') scores))]) = 1)
       = (\<forall>s \<in> set scores. bucket_key s = bucket_key (hd scores))"
proof -
  from assms have h: "hd scores \<in> set scores" by simp
  have r: "\<And>s. bucket_key s = ''0.0-0.2'' \<or> bucket_key s = ''0.2-0.4''
      \<or> bucket_key s = ''0.4-0.6'' \<or> bucket_key s = ''0.6-0.8'' \<or> bucket_key s = ''0.8-1.0''"
    by (rule bucket_key_range)
  show ?thesis
    unfolding one_nonempty_bucket count_positive count_zero
  proof
    assume one: "((\<exists>s\<in>set scores. bucket_key s = ''0.0-0.2'')
          \<and> (\<forall>s\<in>set scores. bucket_key s \<noteq> ''0.2-0.4'')
          \<and> (\<forall>s\<in>set scores. bucket_key s \<noteq> ''0.4-0.6'')
          \<and> (\<forall>s\<in>set scores. bucket_key s \<noteq> ''0.6-0.8'')
          \<and> (\<forall>s\<in>set scores. bucket_key s \<noteq> ''0.8-1.0''))
       \<or> ((\<forall>s\<in>set scores. bucket_key s \<noteq> ''0.0-0.2'')
          \<and> (\<exists>s\<in>set scores. bucket_key s = ''0.2-0.4'')
          \<and> (\<forall>s\<in>set scores. bucket_key s \<noteq> ''0.4-0.6'')
          \<and> (\<forall>s\<in>set scores. bucket_key s \<noteq> ''0.6-0.8'')
          \<and> (\<forall>s\<in>set scores. bucket_key s \<noteq> ''0.8-1.0''))
       \<or> ((\<forall>s\<in>set scores. bucket_key s \<noteq> ''0.0-0.2'')
          \<and> (\<forall>s\<in>set scores. bucket_key s \<noteq> ''0.2-0.4'')
          \<and> (\<exists>s\<in>set scores. bucket_key s = ''0.4-0.6'')
          \<and> (\<forall>s\<in>set scores. bucket_key s \<noteq> ''0.6-0.8'')
          \<and> (\<forall>s\<in>set scores. bucket_key s \<noteq> ''0.8-1.0''))
       \<or> ((\<forall>s\<in>set scores. bucket_key s \<noteq> ''0.0-0.2'')
          \<and> (\<forall>s\<in>set scores. bucket_key s \<noteq> ''0.2-0.4'')
          \<and> (\<forall>s\<in>set scores. bucket_key s \<noteq> ''0.4-0.6'')
          \<and> (\<exists>s\<in>set scores. bucket_key s = ''0.6-0.8'')
          \<and> (\<forall>s\<in>set scores. bucket_key s \<noteq> ''0.8-1.0''))
       \<or> ((\<forall>s\<in>set scores. bucket_key s \<noteq> ''0.0-0.2'')
          \<and> (\<forall>s\<in>set scores. bucket_key s \<noteq> ''0.2-0.4'')
          \<and> (\<forall>s\<in>set scores. bucket_key s \<noteq> ''0.4-0.6'')
          \<and> (\<forall>s\<in>set scores. bucket_key s \<noteq> ''0.6-0.8'')
          \<and> (\<exists>s\<in>set scores. bucket_key s = ''0.8-1.0''))"
    show "\<forall>s \<in> set scores. bucket_key s = bucket_key (hd scores)"
    proof
      fix s assume s: "s \<in> set scores"
      from one s h r [of s] r [of "hd scores"] show "bucket_key s = bucket_key (hd scores)"
        by metis
    qed
  next
    assume same: "\<forall>s \<in> set scores. bucket_key s = bucket_key (hd scores)"
    from r [of "hd scores"] show "((\<exists>s\<in>set scores. bucket_key s = ''0.0-0.2'')
          \<and> (\<forall>s\<in>set scores. bucket_key s \<noteq> ''0.2-0.4'')
          \<and> (\<forall>s\<in>set scores. bucket_key s \<noteq> ''0.4-0.6'')
          \<and> (\<forall>s\<in>set scores. bucket_key s \<noteq> ''0.6-0.8'')
          \<and> (\<forall>s\<in>set scores. bucket_key s \<noteq> ''0.8-1.0''))
       \<or> ((\<forall>s\<in>set scores. bucket_key s \<noteq> ''0.0-0.2'')
          \<and> (\<exists>s\<in>set scores. bucket_key s = ''0.2-0.4'')
          \<and> (\<forall>s\<in>set scores. bucket_key s \<noteq> ''0.4-0.6'')
          \<and> (\<forall>s\<in>set scores. bucket_key s \<noteq> ''0.6-0.8'')
          \<and> (\<forall>s\<in>set scores. bucket_key s \<noteq> ''0.8-1.0''))
       \<or> ((\<forall>s\<in>set scores. bucket_key s \<noteq> ''0.0-0.2'')
          \<and> (\<forall>s\<in>set scores. bucket_key s \<noteq> ''0.2-0.4'')
          \<and> (\<exists>s\<in>set scores. bucket_key s = ''0.4-0.6'')
          \<and> (\<forall>s\<in>set scores. bucket_key s \<noteq> ''0.6-0.8'')
          \<and> (\<forall>s\<in>set scores. bucket_key s \<noteq> ''0.8-1.0''))
       \<or> ((\<forall>s\<in>set scores. bucket_key s \<noteq> ''0.0-0.2'')
          \<and> (\<forall>s\<in>set scores. bucket_key s \<noteq> ''0.2-0.4'')
          \<and> (\<forall>s\<in>set scores. bucket_key s \<noteq> ''0.4-0.6'')
          \<and> (\<exists>s\<in>set scores. bucket_key s = ''0.6-0.8'')
          \<and> (\<forall>s\<in>set scores. bucket_key s \<noteq> ''0.8-1.0''))
       \<or> ((\<forall>s\<in>set scores. bucket_key s \<noteq> ''0.0-0.2'')
          \<and> (\<forall>s\<in>set scores. bucket_key s \<noteq> ''0.2-0.4'')
          \<and> (\<forall>s\<in>set scores. bucket_key s \<noteq> ''0.4-0.6'')
          \<and> (\<forall>s\<in>set scores. bucket_key s \<noteq> ''0.6-0.8'')
          \<and> (\<exists>s\<in>set scores. bucket_key s = ''0.8-1.0''))"
    proof (elim disjE)
      assume k: "bucket_key (hd scores) = ''0.0-0.2''"
      with same h show ?thesis by auto
    next
      assume k: "bucket_key (hd scores) = ''0.2-0.4''"
      with same h show ?thesis by auto
    next
      assume k: "bucket_key (hd scores) = ''0.4-0.6''"
      with same h show ?thesis by auto
    next
      assume k: "bucket_key (hd scores) = ''0.6-0.8''"
      with same h show ?thesis by auto
    next
      assume k: "bucket_key (hd scores) = ''0.8-1.0''"
      with same h show ?thesis by auto
    qed
  qed
qed


lemma single_bucket_found:
  assumes "scores \<noteq> []" and same: "\<forall>s \<in> set scores. bucket_key s = bucket_key (hd scores)"
  shows "\<exists>v. find (\<lambda>(k, v). v > 0)
            [(''0.0-0.2'', length (filter (\<lambda>s. bucket_key s = ''0.0-0.2'') scores)),
             (''0.2-0.4'', length (filter (\<lambda>s. bucket_key s = ''0.2-0.4'') scores)),
             (''0.4-0.6'', length (filter (\<lambda>s. bucket_key s = ''0.4-0.6'') scores)),
             (''0.6-0.8'', length (filter (\<lambda>s. bucket_key s = ''0.6-0.8'') scores)),
             (''0.8-1.0'', length (filter (\<lambda>s. bucket_key s = ''0.8-1.0'') scores))]
          = Some (bucket_key (hd scores), v)"
proof -
  from assms(1) have h: "hd scores \<in> set scores" by simp
  from bucket_key_range [of "hd scores"] show ?thesis
  proof (elim disjE)
    assume k: "bucket_key (hd scores) = ''0.0-0.2''"
    with same h show ?thesis by (auto simp: count_positive)
  next
    assume k: "bucket_key (hd scores) = ''0.2-0.4''"
    with same h show ?thesis by (auto simp: count_positive)
  next
    assume k: "bucket_key (hd scores) = ''0.4-0.6''"
    with same h show ?thesis by (auto simp: count_positive)
  next
    assume k: "bucket_key (hd scores) = ''0.6-0.8''"
    with same h show ?thesis by (auto simp: count_positive)
  next
    assume k: "bucket_key (hd scores) = ''0.8-1.0''"
    with same h show ?thesis by (auto simp: count_positive)
  qed
qed

lemma check_score_distribution_exact:
  "ds_issues (check_score_distribution scores label)
   = (if 3 \<le> length scores
      then (if round4 (sqrt (sum_list (map (\<lambda>s.
                   (s - sum_list scores / real (length scores))\<^sup>2) scores)
                 / real (length scores))) < 5 / 100
            then [LowVariance label (round4 (sqrt (sum_list (map (\<lambda>s.
                   (s - sum_list scores / real (length scores))\<^sup>2) scores)
                 / real (length scores))))]
            else [])
           @ (if 5 \<le> length scores
                 \<and> (\<forall>s \<in> set scores. bucket_key s = bucket_key (hd scores))
              then [SingleBucket label (length scores) (bucket_key (hd scores))]
              else [])
      else [])"
proof (cases "scores = []")
  case True
  then show ?thesis
    by (simp add: check_score_distribution_issues score_distribution_stats_def)
next
  case False
  note st = stats_nonempty [OF False]
  note iff = single_bucket_iff [OF False]
  show ?thesis
  proof (cases "\<forall>s \<in> set scores. bucket_key s = bucket_key (hd scores)")
    case True
    from single_bucket_found [OF False True] obtain v where
      f: "find (\<lambda>(k, v). v > 0)
            [(''0.0-0.2'', length (filter (\<lambda>s. bucket_key s = ''0.0-0.2'') scores)),
             (''0.2-0.4'', length (filter (\<lambda>s. bucket_key s = ''0.2-0.4'') scores)),
             (''0.4-0.6'', length (filter (\<lambda>s. bucket_key s = ''0.4-0.6'') scores)),
             (''0.6-0.8'', length (filter (\<lambda>s. bucket_key s = ''0.6-0.8'') scores)),
             (''0.8-1.0'', length (filter (\<lambda>s. bucket_key s = ''0.8-1.0'') scores))]
          = Some (bucket_key (hd scores), v)"
      by blast
    from True iff have one: "length (filter (\<lambda>(k, v). v > 0)
            [(''0.0-0.2'', length (filter (\<lambda>s. bucket_key s = ''0.0-0.2'') scores)),
             (''0.2-0.4'', length (filter (\<lambda>s. bucket_key s = ''0.2-0.4'') scores)),
             (''0.4-0.6'', length (filter (\<lambda>s. bucket_key s = ''0.4-0.6'') scores)),
             (''0.6-0.8'', length (filter (\<lambda>s. bucket_key s = ''0.6-0.8'') scores)),
             (''0.8-1.0'', length (filter (\<lambda>s. bucket_key s = ''0.8-1.0'') scores))]) = 1"
      by simp
    show ?thesis
      unfolding check_score_distribution_issues st
      using True by (simp only: dist_stats.simps one f) simp
  next
    case nosame: False
    from nosame iff have one: "length (filter (\<lambda>(k, v). v > 0)
            [(''0.0-0.2'', length (filter (\<lambda>s. bucket_key s = ''0.0-0.2'') scores)),
             (''0.2-0.4'', length (filter (\<lambda>s. bucket_key s = ''0.2-0.4'') scores)),
             (''0.4-0.6'', length (filter (\<lambda>s. bucket_key s = ''0.4-0.6'') scores)),
             (''0.6-0.8'', length (filter (\<lambda>s. bucket_key s = ''0.6-0.8'') scores)),
             (''0.8-1.0'', length (filter (\<lambda>s. bucket_key s = ''0.8-1.0'') scores))]) \<noteq> 1"
      by simp
    show ?thesis
      unfolding check_score_distribution_issues st
      using nosame by (simp only: dist_stats.simps one) simp
  qed
qed

lemma round_half_even_near: "\<bar>real_of_int (round_half_even y) - y\<bar> \<le> 1 / 2"
proof -
  have "real_of_int \<lfloor>y\<rfloor> \<le> y" and "y < real_of_int \<lfloor>y\<rfloor> + 1" by linarith+
  then show ?thesis
    by (auto simp: round_half_even_def Let_def)
qed

lemma round4_near: "\<bar>round4 x - x\<bar> \<le> 1 / 20000 \<and> round4 x * 10000 \<in> \<int>"
proof -
  have "\<bar>round4 x - x\<bar> = \<bar>real_of_int (round_half_even (x * 10000)) - x * 10000\<bar> / 10000"
    by (simp add: round4_def field_simps abs_if)
  also have "\<dots> \<le> (1 / 2) / 10000"
    using round_half_even_near [of "x * 10000"] by (intro divide_right_mono) simp_all
  finally have "\<bar>round4 x - x\<bar> \<le> 1 / 20000" by simp
  moreover have "round4 x * 10000 \<in> \<int>" by (simp add: round4_def)
  ultimately show ?thesis by simp
qed


text \<open>
  Claim C8. \<open>check_score_distribution\<close> flags degenerate distributions exactly as
  specified. Its issue list is empty for fewer than three scores; for three or more it
  holds the low-variance issue exactly when the population standard deviation, rounded
  to four places, is below \<open>0.05\<close>, followed by the single-bucket issue exactly when
  there are five or more scores and all of them fall into one of the five buckets
  \<open>[..0.2)\<close>, \<open>[0.2, 0.4)\<close>, \<open>[0.4, 0.6)\<close>, \<open>[0.6, 0.8)\<close>, \<open>[0.8, ..)\<close>; that issue names
  the bucket and the number of scores. The statistics it returns are those of
  \<open>score_distribution_stats\<close>: rounded mean, rounded standard deviation, the number of
  scores in each bucket and \<open>n\<close>; for the empty list the explicit empty result (no mean
  and no standard deviation, which are NaN in the source, no buckets, \<open>n = 0\<close>). Rounding
  moves a value by at most \<open>0.00005\<close> onto a multiple of \<open>0.0001\<close>. In particular
  \<open>n \<ge> 3\<close> identical scores have standard deviation \<open>0\<close> and get the low-variance issue,
  and \<open>n \<ge> 5\<close> scores in \<open>[0.8, 1.0)\<close> get the single-bucket issue for \<open>0.8-1.0\<close>.
\<close>

theorem check_score_distribution_flags:
  "ds_issues (check_score_distribution scores label)
     = (if 3 \<le> length scores
        then (if round4 (sqrt (sum_list (map (\<lambda>s.
                     (s - sum_list scores / real (length scores))\<^sup>2) scores)
                   / real (length scores))) < 5 / 100
              then [LowVariance label (round4 (sqrt (sum_list (map (\<lambda>s.
                     (s - sum_list scores / real (length scores))\<^sup>2) scores)
                   / real (length scores))))]
              else [])
             @ (if 5 \<le> length scores
                   \<and> (\<forall>s \<in> set scores. bucket_key s = bucket_key (hd scores))
                then [SingleBucket label (length scores) (bucket_key (hd scores))]
                else [])
        else [])
   \<and> ds_mean (check_score_distribution scores label) = ds_mean (score_distribution_stats scores)
   \<and> ds_std (check_score_distribution scores label) = ds_std (score_distribution_stats scores)
   \<and> ds_buckets (check_score_distribution scores label)
       = ds_buckets (score_distribution_stats scores)
   \<and> ds_n (check_score_distribution scores label) = ds_n (score_distribution_stats scores)
   \<and> (scores \<noteq> [] \<longrightarrow> score_distribution_stats scores
         = \<lparr>ds_mean = Some (round4 (sum_list scores / real (length scores))),
            ds_std = Some (round4 (sqrt (sum_list (map (\<lambda>s.
                       (s - sum_list scores / real (length scores))\<^sup>2) scores)
                     / real (length scores)))),
            ds_buckets =
              [(''0.0-0.2'', length (filter (\<lambda>s. bucket_key s = ''0.0-0.2'') scores)),
               (''0.2-0.4'', length (filter (\<lambda>s. bucket_key s = ''0.2-0.4'') scores)),
               (''0.4-0.6'', length (filter (\<lambda>s. bucket_key s = ''0.4-0.6'') scores)),
               (''0.6-0.8'', length (filter (\<lambda>s. bucket_key s = ''0.6-0.8'') scores)),
               (''0.8-1.0'', length (filter (\<lambda>s. bucket_key s = ''0.8-1.0'') scores))],
            ds_n = length scores\<rparr>)
   \<and> score_distribution_stats [] = \<lparr>ds_mean = None, ds_std = None, ds_buckets = [], ds_n = 0\<rparr>
   \<and> (bucket_key x = ''0.0-0.2'') = (x < 2 / 10)
   \<and> (bucket_key x = ''0.2-0.4'') = (2 / 10 \<le> x \<and> x < 4 / 10)
   \<and> (bucket_key x = ''0.4-0.6'') = (4 / 10 \<le> x \<and> x < 6 / 10)
   \<and> (bucket_key x = ''0.6-0.8'') = (6 / 10 \<le> x \<and> x < 8 / 10)
   \<and> (bucket_key x = ''0.8-1.0'') = (8 / 10 \<le> x)
   \<and> \<bar>round4 y - y\<bar> \<le> 1 / 20000 \<and> round4 y * 10000 \<in> \<int>
   \<and> (3 \<le> k \<longrightarrow> LowVariance label 0 \<in> set (ds_issues (check_score_distribution (replicate k s) label))
               \<and> ds_std (check_score_distribution (replicate k s) label) = Some 0
               \<and> (0::real) < 5 / 100)
   \<and> (5 \<le> length scores \<and> (\<forall>x \<in> set scores. 8 / 10 \<le> x \<and> x < 1)
        \<longrightarrow> SingleBucket label (length scores) ''0.8-1.0''
              \<in> set (ds_issues (check_score_distribution scores label)))"
proof -
  have fields: "ds_mean (check_score_distribution scores label) = ds_mean (score_distribution_stats scores)"
    "ds_std (check_score_distribution scores label) = ds_std (score_distribution_stats scores)"
    "ds_buckets (check_score_distribution scores label) = ds_buckets (score_distribution_stats scores)"
    "ds_n (check_score_distribution scores label) = ds_n (score_distribution_stats scores)"
    by (simp_all add: check_score_distribution_def Let_def)
  have nonempty: "scores \<noteq> [] \<longrightarrow> score_distribution_stats scores
         = \<lparr>ds_mean = Some (round4 (sum_list scores / real (length scores))),
            ds_std = Some (round4 (sqrt (sum_list (map (\<lambda>s.
                       (s - sum_list scores / real (length scores))\<^sup>2) scores)
                     / real (length scores)))),
            ds_buckets =
              [(''0.0-0.2'', length (filter (\<lambda>s. bucket_key s = ''0.0-0.2'') scores)),
               (''0.2-0.4'', length (filter (\<lambda>s. bucket_key s = ''0.2-0.4'') scores)),
               (''0.4-0.6'', length (filter (\<lambda>s. bucket_key s = ''0.4-0.6'') scores)),
               (''0.6-0.8'', length (filter (\<lambda>s. bucket_key s = ''0.6-0.8'') scores)),
               (''0.8-1.0'', length (filter (\<lambda>s. bucket_key s = ''0.8-1.0'') scores))],
            ds_n = length scores\<rparr>"
    by (intro impI stats_nonempty)
  have empty: "score_distribution_stats [] = \<lparr>ds_mean = None, ds_std = None, ds_buckets = [], ds_n = 0\<rparr>"
    by (simp add: score_distribution_stats_def)
  note bk = bucket_key_intervals [of x]
  note rn = round4_near [of y]
  have low: "3 \<le> k \<longrightarrow> LowVariance label 0 \<in> set (ds_issues (check_score_distribution (replicate k s) label))
               \<and> ds_std (check_score_distribution (replicate k s) label) = Some 0
               \<and> (0::real) < 5 / 100"
  proof
    assume k: "3 \<le> k"
    then have "0 < k" by simp
    then have "ds_std (check_score_distribution (replicate k s) label) = Some 0"
      by (simp add: check_score_distribution_def Let_def stats_identical)
    with low_variance_identical [OF k, of label s]
    show "LowVariance label 0 \<in> set (ds_issues (check_score_distribution (replicate k s) label))
               \<and> ds_std (check_score_distribution (replicate k s) label) = Some 0
               \<and> (0::real) < 5 / 100"
      by simp
  qed
  have single: "5 \<le> length scores \<and> (\<forall>x \<in> set scores. 8 / 10 \<le> x \<and> x < 1)
        \<longrightarrow> SingleBucket label (length scores) ''0.8-1.0''
              \<in> set (ds_issues (check_score_distribution scores label))"
    using single_bucket_top by blast
  show ?thesis
    by (intro conjI check_score_distribution_exact fields nonempty empty low single
        bk [THEN conjunct1] bk [THEN conjunct2, THEN conjunct1]
        bk [THEN conjunct2, THEN conjunct2, THEN conjunct1]
        bk [THEN conjunct2, THEN conjunct2, THEN conjunct2, THEN conjunct1]
        bk [THEN conjunct2, THEN conjunct2, THEN conjunct2, THEN conjunct2]
        rn [THEN conjunct1] rn [THEN conjunct2])
qed

theorem check_score_distribution_flags_witness:
  "(3::nat) \<le> 3 \<and> (5::nat) \<le> length [9 / 10, 9 / 10, 85 / 100, 8 / 10, 95 / 100 :: real]
   \<and> list_all (\<lambda>x. 8 / 10 \<le> x \<and> x < 1) [9 / 10, 9 / 10, 85 / 100, 8 / 10, 95 / 100 :: real]
   \<and> LowVariance ''aspect_intensity'' 0
       \<in> set (ds_issues (check_score_distribution [1 / 2, 1 / 2, 1 / 2] ''aspect_intensity''))
   \<and> SingleBucket ''aspect_intensity'' 5 ''0.8-1.0''
       \<in> set (ds_issues (check_score_distribution [9 / 10, 9 / 10, 85 / 100, 8 / 10, 95 / 100]
                 ''aspect_intensity''))
   \<and> ds_issues (check_score_distribution [1 / 10, 9 / 10] ''aspect_intensity'') = []
   \<and> ds_issues (check_score_distribution [0, 1, 0, 1] ''aspect_intensity'') = []
   \<and> ds_issues (check_score_distribution [1 / 10, 3 / 10, 5 / 10, 7 / 10, 9 / 10, 1 / 2]
        ''aspect_intensity'') \<noteq> [SingleBucket ''aspect_intensity'' 6 ''0.0-0.2'']"
proof -
  let ?xs = "[9 / 10, 9 / 10, 85 / 100, 8 / 10, 95 / 100 :: real]"
  let ?l = "''aspect_intensity''"
  have r: "replicate 3 (1 / 2 :: real) = [1 / 2, 1 / 2, 1 / 2]"
    by (simp add: numeral_3_eq_3)
  have h: "\<forall>x \<in> set ?xs. 8 / 10 \<le> x \<and> x < 1" by simp
  have l: "(5::nat) \<le> length ?xs" by simp
  have a: "LowVariance ?l 0 \<in> set (ds_issues (check_score_distribution [1 / 2, 1 / 2, 1 / 2] ?l))"
    using check_score_distribution_flags [where k = 3 and label = ?l and s = "1 / 2"
        and scores = ?xs and x = 0 and y = 0]
    unfolding r by simp
  have b: "SingleBucket ?l (length ?xs) ''0.8-1.0'' \<in> set (ds_issues (check_score_distribution ?xs ?l))"
    using check_score_distribution_flags [where k = 3 and label = ?l and s = "1 / 2"
        and scores = ?xs and x = 0 and y = 0] h l
    by blast
  have c: "ds_issues (check_score_distribution [1 / 10, 9 / 10] ?l) = []"
    using check_score_distribution_flags [where k = 3 and label = ?l and s = "1 / 2"
        and scores = "[1 / 10, 9 / 10]" and x = 0 and y = 0]
    by simp
  have std: "round4 (sqrt (sum_list (map (\<lambda>s.
        (s - sum_list [0, 1, 0, 1] / real (length [0, 1, 0, 1 :: real]))\<^sup>2) [0, 1, 0, 1])
        / real (length [0, 1, 0, 1 :: real]))) = 1 / 2"
    by (simp add: power2_eq_square real_sqrt_divide round4_def round_half_even_def)
  have d: "ds_issues (check_score_distribution [0, 1, 0, 1] ?l) = []"
    using check_score_distribution_flags [where k = 3 and label = ?l and s = "1 / 2"
        and scores = "[0, 1, 0, 1]" and x = 0 and y = 0]
    unfolding std by simp
  have spread: "\<not> (\<forall>s \<in> set [1 / 10, 3 / 10, 5 / 10, 7 / 10, 9 / 10, 1 / 2 :: real].
      bucket_key s = bucket_key (hd [1 / 10, 3 / 10, 5 / 10, 7 / 10, 9 / 10, 1 / 2]))"
    by (simp add: bucket_key_def)
  have e: "ds_issues (check_score_distribution [1 / 10, 3 / 10, 5 / 10, 7 / 10, 9 / 10, 1 / 2] ?l)
      \<noteq> [SingleBucket ?l 6 ''0.0-0.2'']"
    using check_score_distribution_flags [where k = 3 and label = ?l and s = "1 / 2"
        and scores = "[1 / 10, 3 / 10, 5 / 10, 7 / 10, 9 / 10, 1 / 2]" and x = 0 and y = 0]
      spread
    by (auto split: if_splits)
  have n: "length ?xs = 5" by simp
  have h': "list_all (\<lambda>x. 8 / 10 \<le> x \<and> x < 1) ?xs" by simp
  from a b [unfolded n] c d e h' l show ?thesis by blast
qed

section \<open>Properties of the report models\<close>


lemma present_f1_alt:
  "present_f1 ms = map the (filter (\<lambda>x. x \<noteq> None) (map sm_f1 ms))"
  by (induction ms) (auto simp: present_f1_def split: option.splits)

lemma present_f1_append: "present_f1 (xs @ ys) = present_f1 xs @ present_f1 ys"
  by (simp add: present_f1_def)

lemma present_f1_absent: "sm_f1 m = None \<Longrightarrow> present_f1 (m # ms) = present_f1 ms"
  by (simp add: present_f1_def)

lemma all_signal_metrics_flat:
  "all_signal_metrics report
   = signal_metrics_of (surface_report report) @ signal_metrics_of (behavioral_report report)
     @ signal_metrics_of (psychographic_report report)
     @ (case multimodal_report report of None \<Rightarrow> [] | Some layer \<Rightarrow> signal_metrics_of layer)"
  by (simp add: all_signal_metrics_def split: option.splits)

text \<open>
  Claim C6. \<open>overall_f1\<close> of a report is the arithmetic mean of exactly the F1 values
  that are present in the metrics of its surface, behavioral and psychographic layers
  and of its multimodal layer when there is one: a metric without F1 adds nothing to the
  sum and nothing to the count (so adding such a metric to a report does not change
  the result), and the result is undefined (NaN in the source) only when no F1 is
  present at all.
\<close>

theorem overall_f1_mean_of_present:
  "overall_f1 report
     = (if filter (\<lambda>m. sm_f1 m \<noteq> None) (all_signal_metrics report) = [] then None
        else Some (sum_list (map (\<lambda>m. the (sm_f1 m))
                     (filter (\<lambda>m. sm_f1 m \<noteq> None) (all_signal_metrics report)))
                   / real (length (filter (\<lambda>m. sm_f1 m \<noteq> None) (all_signal_metrics report)))))
   \<and> all_signal_metrics report
     = signal_metrics_of (surface_report report) @ signal_metrics_of (behavioral_report report)
       @ signal_metrics_of (psychographic_report report)
       @ (case multimodal_report report of None \<Rightarrow> [] | Some layer \<Rightarrow> signal_metrics_of layer)
   \<and> (sm_f1 m = None \<longrightarrow>
        overall_f1 (report\<lparr>surface_report :=
            (surface_report report)\<lparr>signal_metrics_of := m # signal_metrics_of (surface_report report)\<rparr>\<rparr>)
        = overall_f1 report)"
proof -
  let ?ms = "all_signal_metrics report"
  have shape: "present_f1 ?ms = map (\<lambda>m. the (sm_f1 m)) (filter (\<lambda>m. sm_f1 m \<noteq> None) ?ms)"
    by (simp add: present_f1_alt filter_map comp_def)
  have mean: "overall_f1 report
     = (if filter (\<lambda>m. sm_f1 m \<noteq> None) ?ms = [] then None
        else Some (sum_list (map (\<lambda>m. the (sm_f1 m)) (filter (\<lambda>m. sm_f1 m \<noteq> None) ?ms))
                   / real (length (filter (\<lambda>m. sm_f1 m \<noteq> None) ?ms))))"
    by (simp add: overall_f1_def Let_def shape)
  have absent: "sm_f1 m = None \<longrightarrow>
        overall_f1 (report\<lparr>surface_report :=
            (surface_report report)\<lparr>signal_metrics_of := m # signal_metrics_of (surface_report report)\<rparr>\<rparr>)
        = overall_f1 report"
    by (simp add: overall_f1_def all_signal_metrics_flat present_f1_append present_f1_absent)
  show ?thesis
    by (intro conjI mean all_signal_metrics_flat absent)
qed

theorem overall_f1_mean_of_present_witness:
  "sm_f1 (SignalMetrics ''entities'') = None
   \<and> overall_f1 \<lparr>report_transcript_id = ''t1'',
        surface_report = \<lparr>layer_name = ''Surface'', signal_metrics_of =
          [(SignalMetrics ''aspects'')\<lparr>sm_f1 := Some 1\<rparr>, SignalMetrics ''topics'']\<rparr>,
        behavioral_report = \<lparr>layer_name = ''Behavioral'', signal_metrics_of =
          [(SignalMetrics ''buying_intent'')\<lparr>sm_f1 := Some (1 / 2)\<rparr>]\<rparr>,
        psychographic_report = \<lparr>layer_name = ''Psychographic'', signal_metrics_of = []\<rparr>,
        multimodal_report = Some \<lparr>layer_name = ''Multimodal'', signal_metrics_of =
          [(SignalMetrics ''divergences'')\<lparr>sm_f1 := Some 0\<rparr>]\<rparr>\<rparr> = Some (1 / 2)
   \<and> overall_f1 \<lparr>report_transcript_id = ''t1'',
        surface_report = \<lparr>layer_name = ''Surface'', signal_metrics_of =
          [SignalMetrics ''entities'', (SignalMetrics ''aspects'')\<lparr>sm_f1 := Some 1\<rparr>,
           SignalMetrics ''topics'']\<rparr>,
        behavioral_report = \<lparr>layer_name = ''Behavioral'', signal_metrics_of =
          [(SignalMetrics ''buying_intent'')\<lparr>sm_f1 := Some (1 / 2)\<rparr>]\<rparr>,
        psychographic_report = \<lparr>layer_name = ''Psychographic'', signal_metrics_of = []\<rparr>,
        multimodal_report = Some \<lparr>layer_name = ''Multimodal'', signal_metrics_of =
          [(SignalMetrics ''divergences'')\<lparr>sm_f1 := Some 0\<rparr>]\<rparr>\<rparr> = Some (1 / 2)"
proof -
  let ?r = "\<lparr>report_transcript_id = ''t1'',
        surface_report = \<lparr>layer_name = ''Surface'', signal_metrics_of =
          [(SignalMetrics ''aspects'')\<lparr>sm_f1 := Some 1\<rparr>, SignalMetrics ''topics'']\<rparr>,
        behavioral_report = \<lparr>layer_name = ''Behavioral'', signal_metrics_of =
          [(SignalMetrics ''buying_intent'')\<lparr>sm_f1 := Some (1 / 2)\<rparr>]\<rparr>,
        psychographic_report = \<lparr>layer_name = ''Psychographic'', signal_metrics_of = []\<rparr>,
        multimodal_report = Some \<lparr>layer_name = ''Multimodal'', signal_metrics_of =
          [(SignalMetrics ''divergences'')\<lparr>sm_f1 := Some 0\<rparr>]\<rparr>\<rparr>"
  note spec = overall_f1_mean_of_present [of ?r "SignalMetrics ''entities''"]
  have absent: "sm_f1 (SignalMetrics ''entities'') = None"
    by (simp add: SignalMetrics_def)
  have flat: "all_signal_metrics ?r
      = [(SignalMetrics ''aspects'')\<lparr>sm_f1 := Some 1\<rparr>, SignalMetrics ''topics'',
         (SignalMetrics ''buying_intent'')\<lparr>sm_f1 := Some (1 / 2)\<rparr>,
         (SignalMetrics ''divergences'')\<lparr>sm_f1 := Some 0\<rparr>]"
    using spec by simp
  have a: "overall_f1 ?r = Some (1 / 2)"
    using spec unfolding flat by (simp add: SignalMetrics_def)
  from spec absent a show ?thesis by simp
qed


text \<open>
  Claim C4. \<open>MultimodalEvaluator.evaluate\<close> in the three presence cases: with multimodal
  data on neither side there is no report at all; with multimodal data in the extraction
  only, the report holds the metric \<open>divergences\<close> with precision \<open>0\<close>, recall \<open>1\<close> and a
  non-empty issue string; with multimodal data in the ground truth only, it holds the
  metric \<open>divergences\<close> with precision, recall and F1 \<open>0\<close> and a non-empty list of issues.
\<close>

theorem multimodal_presence_cases:
  "MultimodalEvaluator_evaluate None None tr = None
   \<and> (\<exists>m. MultimodalEvaluator_evaluate (Some ext) None tr
            = Some \<lparr>layer_name = ''Multimodal'', signal_metrics_of = [m]\<rparr>
          \<and> signal_name m = ''divergences''
          \<and> sm_precision m = Some 0 \<and> sm_recall m = Some 1
          \<and> structural_issues m = [Message ''Multimodal signals produced but not expected'']
          \<and> ''Multimodal signals produced but not expected'' \<noteq> [])
   \<and> (\<exists>m. MultimodalEvaluator_evaluate None (Some gt) tr
            = Some \<lparr>layer_name = ''Multimodal'', signal_metrics_of = [m]\<rparr>
          \<and> signal_name m = ''divergences''
          \<and> sm_precision m = Some 0 \<and> sm_recall m = Some 0 \<and> sm_f1 m = Some 0
          \<and> structural_issues m \<noteq> [])"
  by (simp add: MultimodalEvaluator_evaluate_def SignalMetrics_def)


theorem multimodal_presence_cases_witness:
  "MultimodalEvaluator_evaluate None None \<lparr>call_id = ''c1'', utterances = []\<rparr> = None
   \<and> map signal_name (signal_metrics_of (the (MultimodalEvaluator_evaluate
         (Some \<lparr>divergences = [], composite_sentiments = []\<rparr>) None
         \<lparr>call_id = ''c1'', utterances = []\<rparr>))) = [''divergences'']
   \<and> map sm_f1 (signal_metrics_of (the (MultimodalEvaluator_evaluate None
         (Some \<lparr>divergences = [], composite_sentiments = []\<rparr>)
         \<lparr>call_id = ''c1'', utterances = []\<rparr>))) = [Some 0]"
proof -
  let ?tr = "\<lparr>call_id = ''c1'', utterances = []\<rparr>"
  let ?mm = "\<lparr>divergences = [], composite_sentiments = []\<rparr>"
  note spec = multimodal_presence_cases [of ?tr ?mm ?mm]
  from spec have a: "MultimodalEvaluator_evaluate None None ?tr = None"
    by (rule conjunct1)
  from spec obtain m where "MultimodalEvaluator_evaluate (Some ?mm) None ?tr
        = Some \<lparr>layer_name = ''Multimodal'', signal_metrics_of = [m]\<rparr>"
    and "signal_name m = ''divergences''"
    by blast
  then have b: "map signal_name (signal_metrics_of (the (MultimodalEvaluator_evaluate
         (Some ?mm) None ?tr))) = [''divergences'']"
    by simp
  from spec obtain m' where "MultimodalEvaluator_evaluate None (Some ?mm) ?tr
        = Some \<lparr>layer_name = ''Multimodal'', signal_metrics_of = [m']\<rparr>"
    and "sm_f1 m' = Some 0"
    by blast
  then have c: "map sm_f1 (signal_metrics_of (the (MultimodalEvaluator_evaluate None
         (Some ?mm) ?tr))) = [Some 0]"
    by simp
  from a b c show ?thesis by (intro conjI)
qed

section \<open>Properties of the signal evaluators\<close>

lemma find_key_Some: "v \<in> key ` set xs \<Longrightarrow> \<exists>a. find (\<lambda>a. key a = v) xs = Some a"
  by (induction xs) auto

lemma lookup_matched_total:
  assumes "\<forall>(es, gs, s) \<in> set ms. es \<in> key ` set xs \<and> gs \<in> key ` set ys"
  shows "\<exists>objs. lookup_matched key xs ys ms = Some objs"
  using assms
proof (induction ms)
  case Nil
  then show ?case by simp
next
  case (Cons m ms)
  obtain es gs s where m: "m = (es, gs, s)" by (cases m) auto
  from Cons.prems m have "es \<in> key ` set xs" and "gs \<in> key ` set ys" by auto
  then obtain a b where a: "find (\<lambda>a. key a = es) xs = Some a"
    and b: "find (\<lambda>a. key a = gs) ys = Some b"
    using find_key_Some by metis
  from Cons.prems have "\<forall>(es, gs, s) \<in> set ms. es \<in> key ` set xs \<and> gs \<in> key ` set ys"
    by simp
  then obtain objs where "lookup_matched key xs ys ms = Some objs"
    using Cons.IH by blast
  with m a b show ?case by simp
qed

lemma matched_strings_in_lists:
  assumes "(es, gs, s) \<in> set (snd (snd (snd (compute_fuzzy_precision_recall E G sim thr))))"
  shows "es \<in> set E \<and> gs \<in> set G"
proof -
  from assms obtain q where q: "q \<in> set (matched_indices E G sim thr)"
    and eq: "(es, gs, s) = lookup_pair E G q"
    unfolding compute_fuzzy_matched by auto
  obtain sc i j where qq: "q = (sc, i, j)" by (cases q) auto
  with q have "i < length E \<and> j < length G" using matched_indices_in_range by blast
  with eq qq show ?thesis by (simp add: lookup_pair_def)
qed

lemma lookup_matched_fuzzy:
  assumes "compute_fuzzy_precision_recall (map key xs) (map key ys) sim thr = (p, r, f, matched)"
    and "set ms \<subseteq> set matched"
  shows "\<exists>objs. lookup_matched key xs ys ms = Some objs"
proof (rule lookup_matched_total, clarify)
  fix es gs s
  assume "(es, gs, s) \<in> set ms"
  with assms have "(es, gs, s)
      \<in> set (snd (snd (snd (compute_fuzzy_precision_recall (map key xs) (map key ys) sim thr))))"
    by auto
  then have "es \<in> set (map key xs) \<and> gs \<in> set (map key ys)"
    by (rule matched_strings_in_lists)
  then show "es \<in> key ` set xs \<and> gs \<in> key ` set ys" by simp
qed


lemma fuzzy_both_empty:
  assumes "compute_fuzzy_precision_recall E G sim thr = (p, r, f, matched)"
    and "E = []" and "G = []"
  shows "p = 1 \<and> r = 1 \<and> f = 1 \<and> matched = []"
  using assms by (simp add: compute_fuzzy_precision_recall_def)

lemma eval_aspects_facts:
  "\<exists>m. eval_aspects e g idx = Some m \<and> signal_name m = ''aspects'' \<and> sm_f1 m \<noteq> None
       \<and> judge_scores m = []
       \<and> matched_pairs m = snd (snd (snd (compute_fuzzy_precision_recall
             (map as_aspect (aspects e)) (map as_aspect (aspects g))
             token_overlap_similarity ASPECT_THRESHOLD)))
       \<and> (aspects e = [] \<and> aspects g = [] \<longrightarrow> perfect_scores m)"
proof -
  obtain p r f matched where c: "compute_fuzzy_precision_recall
      (map as_aspect (aspects e)) (map as_aspect (aspects g))
      token_overlap_similarity ASPECT_THRESHOLD = (p, r, f, matched)"
    using prod_cases4 by blast
  from lookup_matched_fuzzy [OF c subset_refl]
  obtain objs where l: "lookup_matched as_aspect (aspects e) (aspects g) matched = Some objs"
    by blast
  have emp: "aspects e = [] \<and> aspects g = [] \<longrightarrow> p = 1 \<and> r = 1 \<and> f = 1"
    using fuzzy_both_empty [OF c] by simp
  show ?thesis
    using emp by (simp add: eval_aspects_def Let_def c l SignalMetrics_def perfect_scores_def)
qed

lemma eval_topics_facts:
  "\<exists>m. eval_topics e g tr = Some m \<and> signal_name m = ''topics'' \<and> sm_f1 m \<noteq> None
       \<and> judge_scores m = []
       \<and> (topics e = [] \<and> topics g = [] \<longrightarrow> perfect_scores m)"
proof -
  obtain p r f matched where c: "compute_fuzzy_precision_recall
      (map td_name (topics e)) (map td_name (topics g))
      token_overlap_similarity TOPIC_THRESHOLD = (p, r, f, matched)"
    using prod_cases4 by blast
  from lookup_matched_fuzzy [OF c subset_refl]
  obtain objs where l: "lookup_matched td_name (topics e) (topics g) matched = Some objs"
    by blast
  have emp: "topics e = [] \<and> topics g = [] \<longrightarrow> p = 1 \<and> r = 1 \<and> f = 1"
    using fuzzy_both_empty [OF c] by simp
  show ?thesis
    using emp by (simp add: eval_topics_def Let_def c l SignalMetrics_def perfect_scores_def)
qed

lemma eval_entities_facts:
  "\<exists>m. eval_entities e g = Some m \<and> signal_name m = ''entities'' \<and> sm_f1 m \<noteq> None
       \<and> judge_scores m = []
       \<and> (entities e = [] \<and> entities g = [] \<longrightarrow> perfect_scores m)"
proof -
  obtain p r f matched where c: "compute_fuzzy_precision_recall
      (map ne_name (entities e)) (map ne_name (entities g))
      token_overlap_similarity ENTITY_THRESHOLD = (p, r, f, matched)"
    using prod_cases4 by blast
  from lookup_matched_fuzzy [OF c subset_refl]
  obtain objs where l: "lookup_matched ne_name (entities e) (entities g) matched = Some objs"
    by blast
  have emp: "entities e = [] \<and> entities g = [] \<longrightarrow> p = 1 \<and> r = 1 \<and> f = 1"
    using fuzzy_both_empty [OF c] by simp
  show ?thesis
    using emp by (simp add: eval_entities_def Let_def c l SignalMetrics_def perfect_scores_def)
qed

lemma eval_key_phrases_facts:
  "\<exists>m. eval_key_phrases e g = Some m \<and> signal_name m = ''key_phrases'' \<and> sm_f1 m \<noteq> None
       \<and> judge_scores m = []
       \<and> (key_phrases e = [] \<and> key_phrases g = [] \<longrightarrow> perfect_scores m)"
proof -
  obtain p r f matched where c: "compute_fuzzy_precision_recall
      (map kp_phrase (key_phrases e)) (map kp_phrase (key_phrases g))
      token_overlap_similarity KEYPHRASE_THRESHOLD = (p, r, f, matched)"
    using prod_cases4 by blast
  from lookup_matched_fuzzy [OF c subset_refl]
  obtain objs where l: "lookup_matched kp_phrase (key_phrases e) (key_phrases g) matched = Some objs"
    by blast
  have emp: "key_phrases e = [] \<and> key_phrases g = [] \<longrightarrow> p = 1 \<and> r = 1 \<and> f = 1"
    using fuzzy_both_empty [OF c] by simp
  show ?thesis
    using emp by (simp add: eval_key_phrases_def Let_def c l SignalMetrics_def perfect_scores_def)
qed

lemma surface_report_facts:
  "\<exists>ma mt me mk.
     SurfaceEvaluator_evaluate e g tr
       = Some \<lparr>layer_name = ''Surface'', signal_metrics_of = [ma, mt, me, mk]\<rparr>
     \<and> signal_name ma = ''aspects'' \<and> signal_name mt = ''topics''
     \<and> signal_name me = ''entities'' \<and> signal_name mk = ''key_phrases''
     \<and> sm_f1 ma \<noteq> None \<and> sm_f1 mt \<noteq> None \<and> sm_f1 me \<noteq> None \<and> sm_f1 mk \<noteq> None
     \<and> judge_scores ma = [] \<and> judge_scores mt = [] \<and> judge_scores me = [] \<and> judge_scores mk = []
     \<and> matched_pairs ma = snd (snd (snd (compute_fuzzy_precision_recall
           (map as_aspect (aspects e)) (map as_aspect (aspects g))
           token_overlap_similarity ASPECT_THRESHOLD)))
     \<and> (aspects e = [] \<and> aspects g = [] \<longrightarrow> perfect_scores ma)
     \<and> (topics e = [] \<and> topics g = [] \<longrightarrow> perfect_scores mt)
     \<and> (entities e = [] \<and> entities g = [] \<longrightarrow> perfect_scores me)
     \<and> (key_phrases e = [] \<and> key_phrases g = [] \<longrightarrow> perfect_scores mk)"
proof -
  from eval_aspects_facts [of e g "max_turn_index tr"] obtain ma where
    a: "eval_aspects e g (max_turn_index tr) = Some ma" "signal_name ma = ''aspects''"
       "sm_f1 ma \<noteq> None" "judge_scores ma = []"
       "matched_pairs ma = snd (snd (snd (compute_fuzzy_precision_recall
           (map as_aspect (aspects e)) (map as_aspect (aspects g))
           token_overlap_similarity ASPECT_THRESHOLD)))"
       "aspects e = [] \<and> aspects g = [] \<longrightarrow> perfect_scores ma"
    by blast
  from eval_topics_facts [of e g tr] obtain mt where
    t: "eval_topics e g tr = Some mt" "signal_name mt = ''topics''" "sm_f1 mt \<noteq> None"
       "judge_scores mt = []" "topics e = [] \<and> topics g = [] \<longrightarrow> perfect_scores mt"
    by blast
  from eval_entities_facts [of e g] obtain me where
    n: "eval_entities e g = Some me" "signal_name me = ''entities''" "sm_f1 me \<noteq> None"
       "judge_scores me = []" "entities e = [] \<and> entities g = [] \<longrightarrow> perfect_scores me"
    by blast
  from eval_key_phrases_facts [of e g] obtain mk where
    k: "eval_key_phrases e g = Some mk" "signal_name mk = ''key_phrases''" "sm_f1 mk \<noteq> None"
       "judge_scores mk = []" "key_phrases e = [] \<and> key_phrases g = [] \<longrightarrow> perfect_scores mk"
    by blast
  have "SurfaceEvaluator_evaluate e g tr
       = Some \<lparr>layer_name = ''Surface'', signal_metrics_of = [ma, mt, me, mk]\<rparr>"
    by (simp add: SurfaceEvaluator_evaluate_def Let_def a(1) t(1) n(1) k(1))
  with a t n k show ?thesis by blast
qed


lemma prf_empty: "precision_recall_f1 ({}::'a set) {} = (1, 1, 1)"
  by (simp add: precision_recall_f1_def precision_def recall_def f1_def)

lemma eval_objection_triples_facts:
  "signal_name (eval_objection_triples e g idx) = ''objection_triples''
   \<and> sm_f1 (eval_objection_triples e g idx) \<noteq> None
   \<and> judge_scores (eval_objection_triples e g idx) = []
   \<and> (objection_triples e = [] \<and> objection_triples g = []
        \<longrightarrow> perfect_scores (eval_objection_triples e g idx))"
  by (simp add: eval_objection_triples_def Let_def SignalMetrics_def perfect_scores_def
      prf_empty split: prod.splits)

lemma eval_buying_intent_facts:
  "signal_name (eval_buying_intent e g) = ''buying_intent''
   \<and> sm_f1 (eval_buying_intent e g) \<noteq> None
   \<and> judge_scores (eval_buying_intent e g) = []
   \<and> (buying_intent_markers e = [] \<and> buying_intent_markers g = []
        \<longrightarrow> perfect_scores (eval_buying_intent e g))"
  by (simp add: eval_buying_intent_def Let_def SignalMetrics_def perfect_scores_def
      prf_empty split: prod.splits)

lemma eval_competitive_mentions_facts:
  "signal_name (eval_competitive_mentions e g idx) = ''competitive_mentions''
   \<and> sm_f1 (eval_competitive_mentions e g idx) \<noteq> None
   \<and> judge_scores (eval_competitive_mentions e g idx) = []
   \<and> (competitive_mentions e = [] \<and> competitive_mentions g = []
        \<longrightarrow> perfect_scores (eval_competitive_mentions e g idx))"
  by (simp add: eval_competitive_mentions_def Let_def SignalMetrics_def
      perfect_scores_def prf_empty split: prod.splits)

lemma eval_engagement_trajectory_facts:
  "signal_name (eval_engagement_trajectory e g) = ''engagement_trajectory''
   \<and> sm_f1 (eval_engagement_trajectory e g) \<noteq> None
   \<and> judge_scores (eval_engagement_trajectory e g) = []
   \<and> (engagement_trajectory e = [] \<and> engagement_trajectory g = []
        \<longrightarrow> perfect_scores (eval_engagement_trajectory e g))"
  by (simp add: eval_engagement_trajectory_def Let_def SignalMetrics_def
      perfect_scores_def prf_empty split: prod.splits)

lemma eval_mental_model_facts:
  "signal_name (eval_mental_model e g) = ''mental_model''
   \<and> judge_scores (eval_mental_model e g) = []
   \<and> sm_precision (eval_mental_model e g) = sm_f1 (eval_mental_model e g)
   \<and> sm_recall (eval_mental_model e g) = sm_f1 (eval_mental_model e g)
   \<and> sm_f1 (eval_mental_model e g)
       = Some (if primary (mental_model e) = primary (mental_model g) then 1 else 0)"
  by (simp add: eval_mental_model_def Let_def SignalMetrics_def)

lemma eval_persona_indicators_facts:
  "signal_name (eval_persona_indicators e g) = ''persona_indicators''
   \<and> sm_f1 (eval_persona_indicators e g) \<noteq> None
   \<and> judge_scores (eval_persona_indicators e g) = []
   \<and> (persona_indicators e = [] \<and> persona_indicators g = []
        \<longrightarrow> perfect_scores (eval_persona_indicators e g))"
  by (simp add: eval_persona_indicators_def Let_def SignalMetrics_def
      perfect_scores_def prf_empty split: prod.splits)

lemma eval_language_fingerprint_facts:
  "signal_name (eval_language_fingerprint e g) = ''language_fingerprint''
   \<and> sm_f1 (eval_language_fingerprint e g) \<noteq> None
   \<and> judge_scores (eval_language_fingerprint e g) = []
   \<and> (distinctive_vocabulary (language_fingerprint e) = []
        \<and> metaphors (language_fingerprint e) = []
        \<and> framing_patterns (language_fingerprint e) = []
        \<and> distinctive_vocabulary (language_fingerprint g) = []
        \<and> metaphors (language_fingerprint g) = []
        \<and> framing_patterns (language_fingerprint g) = []
        \<longrightarrow> perfect_scores (eval_language_fingerprint e g))"
proof -
  obtain vp vr vf where v: "precision_recall_f1
      (lower ` set (distinctive_vocabulary (language_fingerprint e)))
      (lower ` set (distinctive_vocabulary (language_fingerprint g))) = (vp, vr, vf)"
    using prod_cases3 by blast
  obtain mp mr mf mm where m: "compute_fuzzy_precision_recall
      (metaphors (language_fingerprint e)) (metaphors (language_fingerprint g))
      token_overlap_similarity METAPHOR_THRESHOLD = (mp, mr, mf, mm)"
    using prod_cases4 by blast
  obtain fp fr ff fm where f: "compute_fuzzy_precision_recall
      (framing_patterns (language_fingerprint e)) (framing_patterns (language_fingerprint g))
      token_overlap_similarity METAPHOR_THRESHOLD = (fp, fr, ff, fm)"
    using prod_cases4 by blast
  have shape: "eval_language_fingerprint e g
      = (SignalMetrics ''language_fingerprint'')
           \<lparr>sm_precision := mean_opt [vp, mp, fp], sm_recall := mean_opt [vr, mr, fr],
            sm_f1 := mean_opt [vf, mf, ff],
            count_extracted :=
              length (distinctive_vocabulary (language_fingerprint e))
              + length (metaphors (language_fingerprint e))
              + length (framing_patterns (language_fingerprint e)),
            count_ground_truth :=
              length (distinctive_vocabulary (language_fingerprint g))
              + length (metaphors (language_fingerprint g))
              + length (framing_patterns (language_fingerprint g)),
            matched_pairs := mm\<rparr>"
    by (simp add: eval_language_fingerprint_def Let_def v m f)
  have basic: "signal_name (eval_language_fingerprint e g) = ''language_fingerprint''
      \<and> sm_f1 (eval_language_fingerprint e g) \<noteq> None
      \<and> judge_scores (eval_language_fingerprint e g) = []"
    unfolding shape by (simp add: SignalMetrics_def mean_opt_def)
  have perfect: "perfect_scores (eval_language_fingerprint e g)"
    if emp: "distinctive_vocabulary (language_fingerprint e) = []
        \<and> metaphors (language_fingerprint e) = []
        \<and> framing_patterns (language_fingerprint e) = []
        \<and> distinctive_vocabulary (language_fingerprint g) = []
        \<and> metaphors (language_fingerprint g) = []
        \<and> framing_patterns (language_fingerprint g) = []"
  proof -
    from v emp have "vp = 1 \<and> vr = 1 \<and> vf = 1" by (simp add: prf_empty)
    moreover from fuzzy_both_empty [OF m] emp have "mp = 1 \<and> mr = 1 \<and> mf = 1" by simp
    moreover from fuzzy_both_empty [OF f] emp have "fp = 1 \<and> fr = 1 \<and> ff = 1" by simp
    ultimately show ?thesis
      unfolding shape by (simp add: SignalMetrics_def mean_opt_def perfect_scores_def)
  qed
  from basic perfect show ?thesis by blast
qed

lemma eval_divergences_facts:
  "signal_name (eval_divergences e g idx) = ''divergences''
   \<and> sm_f1 (eval_divergences e g idx) \<noteq> None
   \<and> judge_scores (eval_divergences e g idx) = []
   \<and> (divergences e = [] \<and> divergences g = [] \<longrightarrow> perfect_scores (eval_divergences e g idx))"
  by (simp add: eval_divergences_def Let_def SignalMetrics_def perfect_scores_def
      prf_empty split: prod.splits)

lemma eval_composite_sentiments_facts:
  "signal_name (eval_composite_sentiments e g) = ''composite_sentiments''
   \<and> sm_f1 (eval_composite_sentiments e g) \<noteq> None
   \<and> judge_scores (eval_composite_sentiments e g) = []
   \<and> (composite_sentiments e = [] \<and> composite_sentiments g = []
        \<longrightarrow> perfect_scores (eval_composite_sentiments e g))"
  by (simp add: eval_composite_sentiments_def Let_def SignalMetrics_def
      perfect_scores_def prf_empty split: prod.splits)


section \<open>Properties of the runner\<close>

lemma append_scores_fields:
  "signal_name (append_scores m xs) = signal_name m
   \<and> sm_precision (append_scores m xs) = sm_precision m
   \<and> sm_recall (append_scores m xs) = sm_recall m
   \<and> sm_f1 (append_scores m xs) = sm_f1 m
   \<and> judge_scores (append_scores m xs) = judge_scores m @ xs"
  by (simp add: append_scores_def Let_def)

lemma append_scores_mean:
  "judge_scores m @ xs \<noteq> [] \<Longrightarrow>
   mean_judge_score (append_scores m xs)
   = Some (real_of_int (sum_list (map js_score (judge_scores m @ xs)))
           / real (length (judge_scores m @ xs)))"
  by (simp add: append_scores_def Let_def)

lemma add_baselines_four:
  assumes "signal_metrics_of rep = [ma, mt, me, mk]"
    and "signal_name ma = ''aspects''" and "signal_name mt = ''topics''"
    and "signal_name me = ''entities''" and "signal_name mk = ''key_phrases''"
  shows "\<exists>x y z. add_baselines oracles e tr rep
      = rep\<lparr>signal_metrics_of := [ma\<lparr>baseline_agreement := x\<rparr>, mt,
            me\<lparr>baseline_agreement := y\<rparr>, mk\<lparr>baseline_agreement := z\<rparr>]\<rparr>"
  apply (simp add: add_baselines_def Let_def assms)
  apply (intro exI)
  apply (rule refl)
  done

lemma judge_surface_four:
  assumes "signal_metrics_of rep = [ma, mt, me, mk]"
    and "signal_name ma = ''aspects''" and "signal_name mt = ''topics''"
    and "signal_name me = ''entities''" and "signal_name mk = ''key_phrases''"
    and "lookup_matched as_aspect (aspects (surface e)) (aspects (surface g))
           (take 5 (matched_pairs ma)) = Some objs"
  shows "judge_surface judge e g rep
      = Some (rep\<lparr>signal_metrics_of :=
          [append_scores ma (map (\<lambda>(x, y). score_aspect_quality judge x y) objs), mt, me, mk]\<rparr>)"
  by (simp add: judge_surface_def assms)

lemma judge_behavioral_keeps:
  "map signal_name (signal_metrics_of (judge_behavioral judge e g rep))
     = map signal_name (signal_metrics_of rep)
   \<and> map sm_f1 (signal_metrics_of (judge_behavioral judge e g rep))
     = map sm_f1 (signal_metrics_of rep)"
  by (simp add: judge_behavioral_def append_scores_fields comp_def)

lemma judge_psychographic_three:
  "signal_metrics_of (judge_psychographic judge e g
      (PsychographicEvaluator_evaluate (psychographic e) (psychographic g) tr))
   = [eval_mental_model (psychographic e) (psychographic g),
      append_scores (eval_persona_indicators (psychographic e) (psychographic g))
        (map (\<lambda>ext_pi. score_persona_reasoning judge ext_pi
                (find (\<lambda>gt_pi. archetype gt_pi = archetype ext_pi)
                   (persona_indicators (psychographic g))))
           (persona_indicators (psychographic e))),
      (eval_language_fingerprint (psychographic e) (psychographic g))
        \<lparr>judge_scores := judge_scores (eval_language_fingerprint (psychographic e) (psychographic g))
            @ [score_framing_patterns judge (language_fingerprint (psychographic e))
                 (language_fingerprint (psychographic g))],
         mean_judge_score := Some (real_of_int (js_score
            (score_framing_patterns judge (language_fingerprint (psychographic e))
                 (language_fingerprint (psychographic g)))))\<rparr>]"
  by (simp add: judge_psychographic_def PsychographicEvaluator_evaluate_def Let_def
      eval_mental_model_facts eval_persona_indicators_facts eval_language_fingerprint_facts)

lemma present_f1_nonempty:
  "m \<in> set ms \<Longrightarrow> sm_f1 m \<noteq> None \<Longrightarrow> present_f1 ms \<noteq> []"
  by (induction ms) (auto simp: present_f1_def split: option.splits)

lemma evaluate_shape:
  "\<exists>s b p mm ma mt me mk rest.
     evaluate oracles judge e g tr skip_llm_judge skip_baselines
       = Some \<lparr>report_transcript_id = transcript_id e, surface_report = s,
               behavioral_report = b, psychographic_report = p, multimodal_report = mm\<rparr>
     \<and> signal_metrics_of s = [ma, mt, me, mk]
     \<and> signal_name ma = ''aspects'' \<and> signal_name mt = ''topics''
     \<and> signal_name me = ''entities'' \<and> signal_name mk = ''key_phrases''
     \<and> sm_f1 ma \<noteq> None \<and> sm_f1 mt \<noteq> None \<and> sm_f1 me \<noteq> None \<and> sm_f1 mk \<noteq> None
     \<and> signal_metrics_of p = eval_mental_model (psychographic e) (psychographic g) # rest
     \<and> (\<not> skip_llm_judge \<longrightarrow> signal_metrics_of p
           = signal_metrics_of (judge_psychographic judge e g
               (PsychographicEvaluator_evaluate (psychographic e) (psychographic g) tr)))"
proof -
  from surface_report_facts [of "surface e" "surface g" tr]
  obtain ma mt me mk where
    S: "SurfaceEvaluator_evaluate (surface e) (surface g) tr
          = Some \<lparr>layer_name = ''Surface'', signal_metrics_of = [ma, mt, me, mk]\<rparr>"
    and names: "signal_name ma = ''aspects''" "signal_name mt = ''topics''"
       "signal_name me = ''entities''" "signal_name mk = ''key_phrases''"
    and f1s: "sm_f1 ma \<noteq> None" "sm_f1 mt \<noteq> None" "sm_f1 me \<noteq> None" "sm_f1 mk \<noteq> None"
    and mp: "matched_pairs ma = snd (snd (snd (compute_fuzzy_precision_recall
           (map as_aspect (aspects (surface e))) (map as_aspect (aspects (surface g)))
           token_overlap_similarity ASPECT_THRESHOLD)))"
    by blast
  let ?rep0 = "\<lparr>layer_name = ''Surface'', signal_metrics_of = [ma, mt, me, mk]\<rparr>"
  let ?rep1 = "if \<not> skip_baselines then add_baselines oracles e tr ?rep0 else ?rep0"
  have "\<exists>ma1 mt1 me1 mk1. ?rep1 = \<lparr>layer_name = ''Surface'', signal_metrics_of = [ma1, mt1, me1, mk1]\<rparr>
      \<and> signal_name ma1 = ''aspects'' \<and> signal_name mt1 = ''topics''
      \<and> signal_name me1 = ''entities'' \<and> signal_name mk1 = ''key_phrases''
      \<and> sm_f1 ma1 \<noteq> None \<and> sm_f1 mt1 \<noteq> None \<and> sm_f1 me1 \<noteq> None \<and> sm_f1 mk1 \<noteq> None
      \<and> matched_pairs ma1 = matched_pairs ma"
  proof (cases skip_baselines)
    case True
    with names f1s show ?thesis by simp
  next
    case False
    from add_baselines_four [of ?rep0 ma mt me mk oracles e tr] names
    obtain x y z where "add_baselines oracles e tr ?rep0
        = ?rep0\<lparr>signal_metrics_of := [ma\<lparr>baseline_agreement := x\<rparr>, mt,
            me\<lparr>baseline_agreement := y\<rparr>, mk\<lparr>baseline_agreement := z\<rparr>]\<rparr>"
      by auto
    with False names f1s show ?thesis by simp
  qed
  then obtain ma1 mt1 me1 mk1 where
    R1: "?rep1 = \<lparr>layer_name = ''Surface'', signal_metrics_of = [ma1, mt1, me1, mk1]\<rparr>"
    and names1: "signal_name ma1 = ''aspects''" "signal_name mt1 = ''topics''"
       "signal_name me1 = ''entities''" "signal_name mk1 = ''key_phrases''"
    and f1s1: "sm_f1 ma1 \<noteq> None" "sm_f1 mt1 \<noteq> None" "sm_f1 me1 \<noteq> None" "sm_f1 mk1 \<noteq> None"
    and mp1: "matched_pairs ma1 = matched_pairs ma"
    by blast
  let ?psy = "PsychographicEvaluator_evaluate (psychographic e) (psychographic g) tr"
  show ?thesis
  proof (cases skip_llm_judge)
    case True
    have "evaluate oracles judge e g tr skip_llm_judge skip_baselines
       = Some \<lparr>report_transcript_id = transcript_id e, surface_report = ?rep1,
               behavioral_report = BehavioralEvaluator_evaluate (behavioral e) (behavioral g) tr,
               psychographic_report = ?psy,
               multimodal_report = MultimodalEvaluator_evaluate (multimodal e) (multimodal g) tr\<rparr>"
      using True by (simp add: evaluate_def S Let_def)
    moreover have "signal_metrics_of ?psy = eval_mental_model (psychographic e) (psychographic g)
         # [eval_persona_indicators (psychographic e) (psychographic g),
            eval_language_fingerprint (psychographic e) (psychographic g)]"
      by (simp add: PsychographicEvaluator_evaluate_def)
    moreover from R1 have "signal_metrics_of ?rep1 = [ma1, mt1, me1, mk1]" by simp
    ultimately show ?thesis using names1 f1s1 True by blast
  next
    case False
    obtain p r f matched where c: "compute_fuzzy_precision_recall
        (map as_aspect (aspects (surface e))) (map as_aspect (aspects (surface g)))
        token_overlap_similarity ASPECT_THRESHOLD = (p, r, f, matched)"
      using prod_cases4 by blast
    with mp mp1 have "matched_pairs ma1 = matched" by simp
    then have "set (take 5 (matched_pairs ma1)) \<subseteq> set matched"
      by (simp add: set_take_subset)
    from lookup_matched_fuzzy [OF c this]
    obtain objs where l: "lookup_matched as_aspect (aspects (surface e)) (aspects (surface g))
        (take 5 (matched_pairs ma1)) = Some objs"
      by blast
    let ?ma2 = "append_scores ma1 (map (\<lambda>(x, y). score_aspect_quality judge x y) objs)"
    from R1 have sm1: "signal_metrics_of ?rep1 = [ma1, mt1, me1, mk1]" by simp
    have js: "judge_surface judge e g ?rep1
        = Some (?rep1\<lparr>signal_metrics_of := [?ma2, mt1, me1, mk1]\<rparr>)"
      by (rule judge_surface_four [OF sm1 names1 l])
    have "evaluate oracles judge e g tr skip_llm_judge skip_baselines
       = Some \<lparr>report_transcript_id = transcript_id e,
               surface_report = ?rep1\<lparr>signal_metrics_of := [?ma2, mt1, me1, mk1]\<rparr>,
               behavioral_report = judge_behavioral judge e g
                 (BehavioralEvaluator_evaluate (behavioral e) (behavioral g) tr),
               psychographic_report = judge_psychographic judge e g ?psy,
               multimodal_report = judge_multimodal judge e g
                 (MultimodalEvaluator_evaluate (multimodal e) (multimodal g) tr)\<rparr>"
      using False js by (simp add: evaluate_def S Let_def add_judge_scores_def)
    moreover have "signal_metrics_of (?rep1\<lparr>signal_metrics_of := [?ma2, mt1, me1, mk1]\<rparr>)
        = [?ma2, mt1, me1, mk1]"
      by simp
    moreover have "signal_name ?ma2 = ''aspects''" "sm_f1 ?ma2 \<noteq> None"
      using names1 f1s1 by (simp_all add: append_scores_fields)
    moreover have "\<exists>rest. signal_metrics_of (judge_psychographic judge e g ?psy)
        = eval_mental_model (psychographic e) (psychographic g) # rest"
      by (simp add: judge_psychographic_three)
    ultimately show ?thesis using names1 f1s1 by blast
  qed
qed


text \<open>
  Claim C10. \<open>evaluate\<close> always returns a report, and the \<open>overall_f1\<close> of that report is
  defined (never the NaN of an empty mean): the psychographic layer always holds the
  \<open>mental_model\<close> metric, whose precision, recall and F1 are all the primary-match value,
  \<open>1\<close> when the two primary mental models agree and \<open>0\<close> otherwise, and each of the four
  surface metrics has an F1.
\<close>

theorem evaluate_overall_f1_defined:
  "\<exists>rep. evaluate oracles judge e g tr skip_llm_judge skip_baselines = Some rep
     \<and> overall_f1 rep \<noteq> None
     \<and> (\<exists>m \<in> set (signal_metrics_of (psychographic_report rep)).
           signal_name m = ''mental_model''
           \<and> sm_precision m = sm_f1 m \<and> sm_recall m = sm_f1 m
           \<and> sm_f1 m = Some (if primary (mental_model (psychographic e))
                                  = primary (mental_model (psychographic g)) then 1 else 0))
     \<and> map signal_name (signal_metrics_of (surface_report rep))
         = [''aspects'', ''topics'', ''entities'', ''key_phrases'']
     \<and> (\<forall>m \<in> set (signal_metrics_of (surface_report rep)). sm_f1 m \<noteq> None)"
proof -
  from evaluate_shape [of oracles judge e g tr skip_llm_judge skip_baselines]
  obtain s b p mm ma mt me mk rest where
    ev: "evaluate oracles judge e g tr skip_llm_judge skip_baselines
       = Some \<lparr>report_transcript_id = transcript_id e, surface_report = s,
               behavioral_report = b, psychographic_report = p, multimodal_report = mm\<rparr>"
    and sm: "signal_metrics_of s = [ma, mt, me, mk]"
    and names: "signal_name ma = ''aspects''" "signal_name mt = ''topics''"
       "signal_name me = ''entities''" "signal_name mk = ''key_phrases''"
    and f1s: "sm_f1 ma \<noteq> None" "sm_f1 mt \<noteq> None" "sm_f1 me \<noteq> None" "sm_f1 mk \<noteq> None"
    and psy: "signal_metrics_of p = eval_mental_model (psychographic e) (psychographic g) # rest"
    by blast
  let ?rep = "\<lparr>report_transcript_id = transcript_id e, surface_report = s,
               behavioral_report = b, psychographic_report = p, multimodal_report = mm\<rparr>"
  let ?mm = "eval_mental_model (psychographic e) (psychographic g)"
  note mmf = eval_mental_model_facts [of "psychographic e" "psychographic g"]
  have "ma \<in> set (all_signal_metrics ?rep)"
    by (simp add: all_signal_metrics_flat sm)
  then have "present_f1 (all_signal_metrics ?rep) \<noteq> []"
    using f1s(1) by (rule present_f1_nonempty)
  then have defined: "overall_f1 ?rep \<noteq> None"
    by (simp add: overall_f1_def Let_def)
  have mental: "\<exists>m \<in> set (signal_metrics_of (psychographic_report ?rep)).
           signal_name m = ''mental_model''
           \<and> sm_precision m = sm_f1 m \<and> sm_recall m = sm_f1 m
           \<and> sm_f1 m = Some (if primary (mental_model (psychographic e))
                                  = primary (mental_model (psychographic g)) then 1 else 0)"
  proof (rule bexI [of _ ?mm])
    show "?mm \<in> set (signal_metrics_of (psychographic_report ?rep))" by (simp add: psy)
    show "signal_name ?mm = ''mental_model''
           \<and> sm_precision ?mm = sm_f1 ?mm \<and> sm_recall ?mm = sm_f1 ?mm
           \<and> sm_f1 ?mm = Some (if primary (mental_model (psychographic e))
                                  = primary (mental_model (psychographic g)) then 1 else 0)"
      using mmf by blast
  qed
  have surf_names: "map signal_name (signal_metrics_of (surface_report ?rep))
         = [''aspects'', ''topics'', ''entities'', ''key_phrases'']"
    by (simp add: sm names)
  have surf_f1: "\<forall>m \<in> set (signal_metrics_of (surface_report ?rep)). sm_f1 m \<noteq> None"
    using f1s by (simp add: sm)
  show ?thesis
    by (rule exI [of _ ?rep]) (intro conjI ev defined mental surf_names surf_f1)
qed


theorem evaluate_overall_f1_defined_witness:
  "evaluate example_oracles example_judge (example_extraction 1) (example_extraction 2)
     example_transcript True False \<noteq> None
   \<and> overall_f1 (the (evaluate example_oracles example_judge (example_extraction 1)
        (example_extraction 2) example_transcript True False)) \<noteq> None
   \<and> list_all (\<lambda>m. sm_f1 m \<noteq> None)
        (signal_metrics_of (surface_report (the (evaluate example_oracles example_judge
           (example_extraction 1) (example_extraction 2) example_transcript True False))))"
proof -
  from evaluate_overall_f1_defined [of example_oracles example_judge "example_extraction 1"
      "example_extraction 2" example_transcript True False]
  obtain rep where ev: "evaluate example_oracles example_judge (example_extraction 1)
        (example_extraction 2) example_transcript True False = Some rep"
    and d: "overall_f1 rep \<noteq> None"
    and s: "\<forall>m \<in> set (signal_metrics_of (surface_report rep)). sm_f1 m \<noteq> None"
    by blast
  from ev d s show ?thesis by (simp add: list_all_iff)
qed


text \<open>
  Claim C7, at an input beyond the cap. With judge scoring enabled, an extraction with
  six persona indicators gets six judge scores on its \<open>persona_indicators\<close> metric: the
  persona loop of \<open>_add_judge_scores\<close> has no slice, unlike the loops for aspects,
  objection triples and divergences (\<open>[:5]\<close>) and competitive mentions (\<open>[:3]\<close>).
\<close>

theorem persona_judge_scores_exceed_cap:
  "map (\<lambda>m. (signal_name m, length (judge_scores m)))
     (signal_metrics_of (psychographic_report (the
        (evaluate example_oracles example_judge (example_extraction 6) (example_extraction 1)
           example_transcript False True))))
   = [(''mental_model'', 0), (''persona_indicators'', 6), (''language_fingerprint'', 1)]"
proof -
  let ?e = "example_extraction 6" and ?g = "example_extraction 1"
  from evaluate_shape [of example_oracles example_judge ?e ?g example_transcript False True]
  obtain s b p mm where
    ev: "evaluate example_oracles example_judge ?e ?g example_transcript False True
       = Some \<lparr>report_transcript_id = transcript_id ?e, surface_report = s,
               behavioral_report = b, psychographic_report = p, multimodal_report = mm\<rparr>"
    and psy: "signal_metrics_of p = signal_metrics_of (judge_psychographic example_judge ?e ?g
               (PsychographicEvaluator_evaluate (psychographic ?e) (psychographic ?g)
                  example_transcript))"
    by auto
  have six: "length (persona_indicators (psychographic ?e)) = 6"
    by (simp add: example_extraction_def)
  note mmf = eval_mental_model_facts [of "psychographic ?e" "psychographic ?g"]
  note pif = eval_persona_indicators_facts [of "psychographic ?e" "psychographic ?g"]
  note lff = eval_language_fingerprint_facts [of "psychographic ?e" "psychographic ?g"]
  have "map (\<lambda>m. (signal_name m, length (judge_scores m))) (signal_metrics_of p)
      = [(''mental_model'', 0), (''persona_indicators'', 6), (''language_fingerprint'', 1)]"
    unfolding psy judge_psychographic_three
    using mmf pif lff six by (simp add: append_scores_fields)
  with ev show ?thesis by simp
qed


text \<open>
  The claim C5 as stated fails on the multimodal layer: when only the extraction has
  multimodal data, the report holds the metric \<open>divergences\<close> alone, without
  \<open>composite_sentiments\<close>, and that metric has F1 \<open>0\<close> although neither side lists a
  divergence.
\<close>

theorem multimodal_one_sided_counterexample:
  "map signal_name (signal_metrics_of (the (MultimodalEvaluator_evaluate
      (Some \<lparr>divergences = [], composite_sentiments = []\<rparr>) None example_transcript)))
     = [''divergences'']
   \<and> ''composite_sentiments'' \<notin> set (map signal_name (signal_metrics_of (the
        (MultimodalEvaluator_evaluate
           (Some \<lparr>divergences = [], composite_sentiments = []\<rparr>) None example_transcript))))
   \<and> map sm_f1 (signal_metrics_of (the (MultimodalEvaluator_evaluate
      (Some \<lparr>divergences = [], composite_sentiments = []\<rparr>) None example_transcript)))
     = [Some 0]"
  by (simp add: MultimodalEvaluator_evaluate_def SignalMetrics_def)

text \<open>
  Claim C5, amended. The surface, behavioral and psychographic evaluators, and the
  multimodal evaluator when both the extraction and the ground truth have multimodal
  data, return a report with exactly one metric for each signal type of the layer, in
  the order aspects, topics, entities, key phrases; objection triples, buying intent,
  competitive mentions, engagement trajectory; mental model, persona indicators,
  language fingerprint; divergences, composite sentiments. In these reports a signal
  type whose lists are empty in both the extraction and the ground truth has precision,
  recall and F1 \<open>1\<close> (for the language fingerprint: all three sub-lists empty on both
  sides; the mental model is a single record and is never empty). When only one side has
  multimodal data, the multimodal report holds the single metric \<open>divergences\<close>.
\<close>

theorem layer_reports_signal_types:
  "(\<exists>ma mt me mk.
      SurfaceEvaluator_evaluate es gs tr
        = Some \<lparr>layer_name = ''Surface'', signal_metrics_of = [ma, mt, me, mk]\<rparr>
      \<and> map signal_name [ma, mt, me, mk] = [''aspects'', ''topics'', ''entities'', ''key_phrases'']
      \<and> (aspects es = [] \<and> aspects gs = [] \<longrightarrow> perfect_scores ma)
      \<and> (topics es = [] \<and> topics gs = [] \<longrightarrow> perfect_scores mt)
      \<and> (entities es = [] \<and> entities gs = [] \<longrightarrow> perfect_scores me)
      \<and> (key_phrases es = [] \<and> key_phrases gs = [] \<longrightarrow> perfect_scores mk))
   \<and> (\<exists>mo mb mc mj.
      BehavioralEvaluator_evaluate eb gb tr
        = \<lparr>layer_name = ''Behavioral'', signal_metrics_of = [mo, mb, mc, mj]\<rparr>
      \<and> map signal_name [mo, mb, mc, mj]
          = [''objection_triples'', ''buying_intent'', ''competitive_mentions'',
             ''engagement_trajectory'']
      \<and> (objection_triples eb = [] \<and> objection_triples gb = [] \<longrightarrow> perfect_scores mo)
      \<and> (buying_intent_markers eb = [] \<and> buying_intent_markers gb = [] \<longrightarrow> perfect_scores mb)
      \<and> (competitive_mentions eb = [] \<and> competitive_mentions gb = [] \<longrightarrow> perfect_scores mc)
      \<and> (engagement_trajectory eb = [] \<and> engagement_trajectory gb = [] \<longrightarrow> perfect_scores mj))
   \<and> (\<exists>mm mp ml.
      PsychographicEvaluator_evaluate ep gp tr
        = \<lparr>layer_name = ''Psychographic'', signal_metrics_of = [mm, mp, ml]\<rparr>
      \<and> map signal_name [mm, mp, ml]
          = [''mental_model'', ''persona_indicators'', ''language_fingerprint'']
      \<and> (persona_indicators ep = [] \<and> persona_indicators gp = [] \<longrightarrow> perfect_scores mp)
      \<and> (distinctive_vocabulary (language_fingerprint ep) = []
           \<and> metaphors (language_fingerprint ep) = []
           \<and> framing_patterns (language_fingerprint ep) = []
           \<and> distinctive_vocabulary (language_fingerprint gp) = []
           \<and> metaphors (language_fingerprint gp) = []
           \<and> framing_patterns (language_fingerprint gp) = []
           \<longrightarrow> perfect_scores ml))
   \<and> (\<exists>md mc.
      MultimodalEvaluator_evaluate (Some em) (Some gm) tr
        = Some \<lparr>layer_name = ''Multimodal'', signal_metrics_of = [md, mc]\<rparr>
      \<and> map signal_name [md, mc] = [''divergences'', ''composite_sentiments'']
      \<and> (divergences em = [] \<and> divergences gm = [] \<longrightarrow> perfect_scores md)
      \<and> (composite_sentiments em = [] \<and> composite_sentiments gm = [] \<longrightarrow> perfect_scores mc))
   \<and> (\<exists>md. MultimodalEvaluator_evaluate (Some em) None tr
               = Some \<lparr>layer_name = ''Multimodal'', signal_metrics_of = [md]\<rparr>
             \<and> signal_name md = ''divergences'')
   \<and> (\<exists>md. MultimodalEvaluator_evaluate None (Some gm) tr
               = Some \<lparr>layer_name = ''Multimodal'', signal_metrics_of = [md]\<rparr>
             \<and> signal_name md = ''divergences'')"
proof -
  have surface_part: "\<exists>ma mt me mk.
      SurfaceEvaluator_evaluate es gs tr
        = Some \<lparr>layer_name = ''Surface'', signal_metrics_of = [ma, mt, me, mk]\<rparr>
      \<and> map signal_name [ma, mt, me, mk] = [''aspects'', ''topics'', ''entities'', ''key_phrases'']
      \<and> (aspects es = [] \<and> aspects gs = [] \<longrightarrow> perfect_scores ma)
      \<and> (topics es = [] \<and> topics gs = [] \<longrightarrow> perfect_scores mt)
      \<and> (entities es = [] \<and> entities gs = [] \<longrightarrow> perfect_scores me)
      \<and> (key_phrases es = [] \<and> key_phrases gs = [] \<longrightarrow> perfect_scores mk)"
  proof -
    from surface_report_facts [of es gs tr] obtain ma mt me mk where
      "SurfaceEvaluator_evaluate es gs tr
        = Some \<lparr>layer_name = ''Surface'', signal_metrics_of = [ma, mt, me, mk]\<rparr>"
      "signal_name ma = ''aspects''" "signal_name mt = ''topics''"
      "signal_name me = ''entities''" "signal_name mk = ''key_phrases''"
      "aspects es = [] \<and> aspects gs = [] \<longrightarrow> perfect_scores ma"
      "topics es = [] \<and> topics gs = [] \<longrightarrow> perfect_scores mt"
      "entities es = [] \<and> entities gs = [] \<longrightarrow> perfect_scores me"
      "key_phrases es = [] \<and> key_phrases gs = [] \<longrightarrow> perfect_scores mk"
      by blast
    then show ?thesis
      by (intro exI [of _ ma] exI [of _ mt] exI [of _ me] exI [of _ mk]) simp
  qed
  note o = eval_objection_triples_facts [of eb gb "max_turn_index tr"]
  note bi = eval_buying_intent_facts [of eb gb]
  note cm = eval_competitive_mentions_facts [of eb gb "max_turn_index tr"]
  note et = eval_engagement_trajectory_facts [of eb gb]
  have behavioral_part: "\<exists>mo mb mc mj.
      BehavioralEvaluator_evaluate eb gb tr
        = \<lparr>layer_name = ''Behavioral'', signal_metrics_of = [mo, mb, mc, mj]\<rparr>
      \<and> map signal_name [mo, mb, mc, mj]
          = [''objection_triples'', ''buying_intent'', ''competitive_mentions'',
             ''engagement_trajectory'']
      \<and> (objection_triples eb = [] \<and> objection_triples gb = [] \<longrightarrow> perfect_scores mo)
      \<and> (buying_intent_markers eb = [] \<and> buying_intent_markers gb = [] \<longrightarrow> perfect_scores mb)
      \<and> (competitive_mentions eb = [] \<and> competitive_mentions gb = [] \<longrightarrow> perfect_scores mc)
      \<and> (engagement_trajectory eb = [] \<and> engagement_trajectory gb = [] \<longrightarrow> perfect_scores mj)"
    using o bi cm et
    by (intro exI [of _ "eval_objection_triples eb gb (max_turn_index tr)"]
          exI [of _ "eval_buying_intent eb gb"]
          exI [of _ "eval_competitive_mentions eb gb (max_turn_index tr)"]
          exI [of _ "eval_engagement_trajectory eb gb"])
       (simp add: BehavioralEvaluator_evaluate_def Let_def)
  note mmf = eval_mental_model_facts [of ep gp]
  note pif = eval_persona_indicators_facts [of ep gp]
  note lff = eval_language_fingerprint_facts [of ep gp]
  have psychographic_part: "\<exists>mm mp ml.
      PsychographicEvaluator_evaluate ep gp tr
        = \<lparr>layer_name = ''Psychographic'', signal_metrics_of = [mm, mp, ml]\<rparr>
      \<and> map signal_name [mm, mp, ml]
          = [''mental_model'', ''persona_indicators'', ''language_fingerprint'']
      \<and> (persona_indicators ep = [] \<and> persona_indicators gp = [] \<longrightarrow> perfect_scores mp)
      \<and> (distinctive_vocabulary (language_fingerprint ep) = []
           \<and> metaphors (language_fingerprint ep) = []
           \<and> framing_patterns (language_fingerprint ep) = []
           \<and> distinctive_vocabulary (language_fingerprint gp) = []
           \<and> metaphors (language_fingerprint gp) = []
           \<and> framing_patterns (language_fingerprint gp) = []
           \<longrightarrow> perfect_scores ml)"
    using mmf pif lff
    by (intro exI [of _ "eval_mental_model ep gp"] exI [of _ "eval_persona_indicators ep gp"]
          exI [of _ "eval_language_fingerprint ep gp"])
       (simp add: PsychographicEvaluator_evaluate_def)
  note dvf = eval_divergences_facts [of em gm "max_turn_index tr"]
  note csf = eval_composite_sentiments_facts [of em gm]
  have multimodal_part: "\<exists>md mc.
      MultimodalEvaluator_evaluate (Some em) (Some gm) tr
        = Some \<lparr>layer_name = ''Multimodal'', signal_metrics_of = [md, mc]\<rparr>
      \<and> map signal_name [md, mc] = [''divergences'', ''composite_sentiments'']
      \<and> (divergences em = [] \<and> divergences gm = [] \<longrightarrow> perfect_scores md)
      \<and> (composite_sentiments em = [] \<and> composite_sentiments gm = [] \<longrightarrow> perfect_scores mc)"
    using dvf csf
    by (intro exI [of _ "eval_divergences em gm (max_turn_index tr)"]
          exI [of _ "eval_composite_sentiments em gm"])
       (simp add: MultimodalEvaluator_evaluate_def Let_def)
  have extraction_only: "\<exists>md. MultimodalEvaluator_evaluate (Some em) None tr
               = Some \<lparr>layer_name = ''Multimodal'', signal_metrics_of = [md]\<rparr>
             \<and> signal_name md = ''divergences''"
    by (simp add: MultimodalEvaluator_evaluate_def SignalMetrics_def)
  have ground_truth_only: "\<exists>md. MultimodalEvaluator_evaluate None (Some gm) tr
               = Some \<lparr>layer_name = ''Multimodal'', signal_metrics_of = [md]\<rparr>
             \<and> signal_name md = ''divergences''"
    by (simp add: MultimodalEvaluator_evaluate_def SignalMetrics_def)
  show ?thesis
    by (intro conjI surface_part behavioral_part psychographic_part multimodal_part
        extraction_only ground_truth_only)
qed


theorem layer_reports_signal_types_witness:
  "aspects (surface (example_extraction 0)) = []
   \<and> topics (surface (example_extraction 0)) = []
   \<and> entities (surface (example_extraction 0)) = []
   \<and> key_phrases (surface (example_extraction 0)) = []
   \<and> persona_indicators (psychographic (example_extraction 0)) = []
   \<and> map signal_name (signal_metrics_of (the (SurfaceEvaluator_evaluate
        (surface (example_extraction 0)) (surface (example_extraction 0)) example_transcript)))
      = [''aspects'', ''topics'', ''entities'', ''key_phrases'']
   \<and> list_all perfect_scores (signal_metrics_of (the (SurfaceEvaluator_evaluate
        (surface (example_extraction 0)) (surface (example_extraction 0)) example_transcript)))
   \<and> map signal_name (signal_metrics_of (PsychographicEvaluator_evaluate
        (psychographic (example_extraction 0)) (psychographic (example_extraction 0))
        example_transcript))
      = [''mental_model'', ''persona_indicators'', ''language_fingerprint'']
   \<and> perfect_scores (signal_metrics_of (PsychographicEvaluator_evaluate
        (psychographic (example_extraction 0)) (psychographic (example_extraction 0))
        example_transcript) ! 1)"
proof -
  let ?x = "example_extraction 0"
  have empties: "aspects (surface ?x) = []" "topics (surface ?x) = []"
    "entities (surface ?x) = []" "key_phrases (surface ?x) = []"
    "persona_indicators (psychographic ?x) = []"
    by (simp_all add: example_extraction_def)
  note spec = layer_reports_signal_types [of "surface ?x" "surface ?x" example_transcript
      "behavioral ?x" "behavioral ?x" "psychographic ?x" "psychographic ?x"
      "\<lparr>divergences = [], composite_sentiments = []\<rparr>"
      "\<lparr>divergences = [], composite_sentiments = []\<rparr>"]
  from spec [THEN conjunct1] obtain ma mt me mk where
    s: "SurfaceEvaluator_evaluate (surface ?x) (surface ?x) example_transcript
        = Some \<lparr>layer_name = ''Surface'', signal_metrics_of = [ma, mt, me, mk]\<rparr>"
    and sn: "map signal_name [ma, mt, me, mk] = [''aspects'', ''topics'', ''entities'', ''key_phrases'']"
    and sp: "aspects (surface ?x) = [] \<and> aspects (surface ?x) = [] \<longrightarrow> perfect_scores ma"
       "topics (surface ?x) = [] \<and> topics (surface ?x) = [] \<longrightarrow> perfect_scores mt"
       "entities (surface ?x) = [] \<and> entities (surface ?x) = [] \<longrightarrow> perfect_scores me"
       "key_phrases (surface ?x) = [] \<and> key_phrases (surface ?x) = [] \<longrightarrow> perfect_scores mk"
    by (elim exE conjE) (rule that)
  from sp empties have perfect: "perfect_scores ma" "perfect_scores mt" "perfect_scores me"
    "perfect_scores mk"
    by simp_all
  from spec [THEN conjunct2, THEN conjunct2, THEN conjunct1] obtain mm mp ml where
    p: "PsychographicEvaluator_evaluate (psychographic ?x) (psychographic ?x) example_transcript
        = \<lparr>layer_name = ''Psychographic'', signal_metrics_of = [mm, mp, ml]\<rparr>"
    and pn: "map signal_name [mm, mp, ml]
          = [''mental_model'', ''persona_indicators'', ''language_fingerprint'']"
    and pp: "persona_indicators (psychographic ?x) = []
        \<and> persona_indicators (psychographic ?x) = [] \<longrightarrow> perfect_scores mp"
    by (elim exE conjE) (rule that)
  from pp empties have "perfect_scores mp" by simp
  with empties s sn perfect p pn show ?thesis by simp
qed

end
